theory Spec2Isabelle
  imports Main "HOL-Library.Word" "HOL-Library.AList"
begin

section \<open>Go values the drivers handle\<close>

text \<open>
  The two drivers of the repository, \<^verbatim>\<open>database/oracle/oracle.go\<close> and
  \<^verbatim>\<open>database/mssql/mssql.go\<close>, are embedded function by function. A Go \<^verbatim>\<open>string\<close>
  and a \<^verbatim>\<open>[]byte\<close> are both a \<open>string\<close> (a list of bytes); Go's \<^verbatim>\<open>int\<close> is an
  \<open>int\<close>: the drivers only compare a version with zero and print it, so no arithmetic
  can overflow. \<^verbatim>\<open>int8\<close> is an \<open>8 word\<close>.

  An \<^verbatim>\<open>error\<close> is a value of \<open>go_error\<close>; a nil error is \<open>None\<close>. The constructors
  are the error values the drivers create or compare with, the error values of
  \<^verbatim>\<open>database/sql\<close> that decide what the library does (\<open>ErrBadConn\<close> is
  \<^verbatim>\<open>driver.ErrBadConn\<close>), the two vendor error types (the only ones that implement
  the interfaces \<^verbatim>\<open>OraErr\<close> and \<^verbatim>\<open>SQLError\<close>), and \<open>PlainError\<close> for every
  other error of the client library.
\<close>

datatype go_error =
    ErrNoRows
  | ErrConnDone
  | ErrDBClosed
  | ErrBadConn
  | ErrLocked
  | ErrNilConfig
  | ErrNoSchema
  | ErrNoDatabaseName
  | OraError int string
  | MssqlError int string
  | PlainError string
  | DatabaseError "go_error option" string string
  | CloseError "go_error option" "go_error option"
  | MultiError go_error go_error

text \<open>
  \<open>DatabaseError orig err query\<close> is \<^verbatim>\<open>database.Error{OrigErr: orig, Err: err, Query: query}\<close>;
  a field the source leaves out has Go's zero value (\<open>[]\<close>).
  \<open>CloseError\<close> is the error \<^verbatim>\<open>Close\<close> formats from its two parts and \<open>MultiError\<close> is
  \<^verbatim>\<open>multierror.Append\<close>.
\<close>

text \<open>The type assertions \<^verbatim>\<open>err.(OraErr)\<close> and \<^verbatim>\<open>err.(SQLError)\<close>, with the message
  the interface then gives (\<^verbatim>\<open>Message()\<close>, \<^verbatim>\<open>SQLErrorMessage()\<close>).\<close>

fun as_OraErr :: "go_error \<Rightarrow> string option" where
  "as_OraErr (OraError code msg) = Some msg"
| "as_OraErr _ = None"

fun as_SQLError :: "go_error \<Rightarrow> string option" where
  "as_SQLError (MssqlError number msg) = Some msg"
| "as_SQLError _ = None"

text \<open>\<^verbatim>\<open>var b2i = map[bool]int8{false: 0, true: 1}\<close>\<close>

definition b2i :: "bool \<Rightarrow> 8 word" where
  "b2i d = (if d then 1 else 0)"

definition DefaultMigrationsTable :: string where
  "DefaultMigrationsTable = ''schema_migrations''"

text \<open>\<^verbatim>\<open>fmt.Sprintf\<close>'s \<^verbatim>\<open>%d\<close>.\<close>

fun digits :: "nat \<Rightarrow> string" where
  "digits n =
     (if n < 10 then [char_of (48 + n)]
      else digits (n div 10) @ [char_of (48 + n mod 10)])"

definition itoa :: "int \<Rightarrow> string" where
  "itoa i = (if i < 0 then CHR ''-'' # digits (nat (- i)) else digits (nat i))"

definition dquote :: char where
  "dquote = CHR 0x22"

definition squote :: char where
  "squote = CHR 0x27"

definition newline :: char where
  "newline = CHR 0x0A"

definition tab :: char where
  "tab = CHR 0x09"

text \<open>
  The package \<^verbatim>\<open>database\<close> of the repository is not among the source files. Its error
  value \<^verbatim>\<open>ErrLocked\<close> and its struct \<^verbatim>\<open>Error\<close> are constructors of \<open>go_error\<close>; the
  constant \<^verbatim>\<open>NilVersion\<close> and the function \<^verbatim>\<open>GenerateAdvisoryLockId\<close> (a name and
  further names, to an identifier or an error) are parameters of the model.
\<close>

record database_pkg =
  NilVersion :: int
  GenerateAdvisoryLockId :: "string \<Rightarrow> string list \<Rightarrow> go_error + string"

section \<open>The database server and the client library\<close>

text \<open>
  The server is not code of the repository. It is modelled as far as the drivers talk to
  it: its tables (an association list, name to rows, since \<^verbatim>\<open>Drop\<close> enumerates them),
  where a row of the control table is \<open>(version, dirty)\<close> with \<open>dirty\<close> the number the
  column holds; the names it reports as current database and schema; the list of
  statements issued so far; and a schedule of faults. Every round trip to the server
  takes the next entry of the schedule: \<open>Some e\<close> makes the call fail with \<open>e\<close> and
  without effect, \<open>None\<close> (or an empty schedule) lets it proceed. \<open>report\<close> is the
  error value the client library returns for a condition the server itself raises, and
  \<open>script\<close> is the server's reading of a migration payload, about which the drivers
  know nothing.

  \<open>undo\<close> is the open transaction, if there is one: the tables a \<^verbatim>\<open>ROLLBACK\<close> would
  put back. \<open>ddl_commits\<close> says whether a data definition statement, \<^verbatim>\<open>TRUNCATE TABLE\<close>
  among them, commits the open transaction by itself, as an Oracle server does and a
  SQL Server does not: after such a statement a \<^verbatim>\<open>ROLLBACK\<close> no longer brings back what
  was there before it.
\<close>

type_synonym row = "int \<times> int"

type_synonym tables = "(string \<times> row list) list"

datatype condition = NoSuchTable | DuplicateKey

record backend =
  tables :: tables
  undo :: "tables option"
  ddl_commits :: bool
  faults :: "go_error option list"
  issued :: "string list"
  db_name :: string
  schema_name :: string
  report :: "condition \<Rightarrow> go_error"
  script :: "string \<Rightarrow> tables \<Rightarrow> go_error + tables"

text \<open>
  What a statement of the drivers does on the server, next to its text:
  \<open>ClearTable\<close> is \<^verbatim>\<open>TRUNCATE TABLE\<close>; \<open>AddRow\<close> is the \<^verbatim>\<open>INSERT\<close> into the control
  table, whose primary key is \<open>version\<close>; \<open>CreateIfMissing\<close> and \<open>DropIfExists\<close> are
  the guarded \<^verbatim>\<open>CREATE TABLE\<close> and \<^verbatim>\<open>DROP TABLE\<close> of the MSSQL driver;
  \<open>CreateIfSchemaEmpty\<close> and \<open>DropIfSchemaNonEmpty\<close> are the calls of the two stored
  procedures of the Oracle driver and \<open>InstallProcedure\<close> their installation;
  \<open>Script\<close> is a migration payload. A statement on a table that does not exist, and an
  insert of a version that is there already, are refused by the server.
\<close>

datatype effect =
    ClearTable string
  | AddRow string int int
  | CreateIfMissing string
  | CreateIfSchemaEmpty string
  | DropIfExists string
  | DropIfSchemaNonEmpty string
  | InstallProcedure
  | Script

fun is_ddl :: "effect \<Rightarrow> bool" where
  "is_ddl (AddRow t v d) = False"
| "is_ddl Script = False"
| "is_ddl _ = True"

definition rows_of :: "backend \<Rightarrow> string \<Rightarrow> row list" where
  "rows_of b t = (case map_of (tables b) t of None \<Rightarrow> [] | Some rs \<Rightarrow> rs)"

definition respond :: "string \<Rightarrow> backend \<Rightarrow> go_error option \<times> backend" where
  "respond q b =
     (case faults b of
        [] \<Rightarrow> (None, b\<lparr>issued := issued b @ [q]\<rparr>)
      | f # fs \<Rightarrow> (f, b\<lparr>faults := fs, issued := issued b @ [q]\<rparr>))"

fun apply_effect :: "string \<Rightarrow> effect \<Rightarrow> backend \<Rightarrow> go_error option \<times> backend" where
  "apply_effect q (ClearTable t) b =
     (case map_of (tables b) t of
        None \<Rightarrow> (Some (report b NoSuchTable), b)
      | Some rs \<Rightarrow> (None, b\<lparr>tables := AList.update t [] (tables b)\<rparr>))"
| "apply_effect q (AddRow t v d) b =
     (case map_of (tables b) t of
        None \<Rightarrow> (Some (report b NoSuchTable), b)
      | Some rs \<Rightarrow>
          if v \<in> set (map fst rs) then (Some (report b DuplicateKey), b)
          else (None, b\<lparr>tables := AList.update t (rs @ [(v, d)]) (tables b)\<rparr>))"
| "apply_effect q (CreateIfMissing t) b =
     (case map_of (tables b) t of
        None \<Rightarrow> (None, b\<lparr>tables := tables b @ [(t, [])]\<rparr>)
      | Some rs \<Rightarrow> (None, b))"
| "apply_effect q (CreateIfSchemaEmpty t) b =
     (if tables b = [] then (None, b\<lparr>tables := [(t, [])]\<rparr>) else (None, b))"
| "apply_effect q (DropIfExists t) b =
     (None, b\<lparr>tables := AList.delete t (tables b)\<rparr>)"
| "apply_effect q (DropIfSchemaNonEmpty t) b =
     (if tables b = [] then (None, b)
      else case map_of (tables b) t of
             None \<Rightarrow> (Some (report b NoSuchTable), b)
           | Some rs \<Rightarrow> (None, b\<lparr>tables := AList.delete t (tables b)\<rparr>))"
| "apply_effect q InstallProcedure b = (None, b)"
| "apply_effect q Script b =
     (case script b q (tables b) of
        Inl e \<Rightarrow> (Some e, b)
      | Inr ts \<Rightarrow> (None, b\<lparr>tables := ts\<rparr>))"

text \<open>The end of a transaction that does not commit: the tables of \<open>undo\<close> are back.\<close>

definition rolled_back :: "backend \<Rightarrow> backend" where
  "rolled_back b =
     b\<lparr>tables := (case undo b of None \<Rightarrow> tables b | Some ts \<Rightarrow> ts), undo := None\<rparr>"

text \<open>
  The handles of \<^verbatim>\<open>database/sql\<close>. A call on a closed handle fails before it reaches
  the server. A \<^verbatim>\<open>sql.Conn\<close> is one object that the driver and its transactions share;
  the library closes it when a call on it, or the \<^verbatim>\<open>Commit\<close> or \<^verbatim>\<open>Rollback\<close> of a
  transaction begun on it, ends with \<^verbatim>\<open>driver.ErrBadConn\<close> (\<open>release\<close>), so every such
  call returns the handle as it is afterwards. A statement executed on a \<^verbatim>\<open>Tx\<close> does not
  close it.
\<close>

record sql_DB =
  db_closed :: bool

record sql_Conn =
  conn_closed :: bool

record sql_Tx =
  tx_conn :: sql_Conn

definition release :: "sql_Conn \<Rightarrow> go_error option \<Rightarrow> sql_Conn" where
  "release c err = (if err = Some ErrBadConn then c\<lparr>conn_closed := True\<rparr> else c)"

definition DB_Ping :: "sql_DB \<Rightarrow> backend \<Rightarrow> go_error option \<times> backend" where
  "DB_Ping d b = (if db_closed d then (Some ErrDBClosed, b) else respond ''PING'' b)"

datatype identity = CurrentDatabase | CurrentSchema

definition DB_QueryRow_Scan ::
  "sql_DB \<Rightarrow> string \<Rightarrow> identity \<Rightarrow> backend \<Rightarrow> (go_error + string) \<times> backend" where
  "DB_QueryRow_Scan d q what b =
     (if db_closed d then (Inl ErrDBClosed, b)
      else case respond q b of
             (Some e, b1) \<Rightarrow> (Inl e, b1)
           | (None, b1) \<Rightarrow>
               (Inr (case what of CurrentDatabase \<Rightarrow> db_name b1
                                | CurrentSchema \<Rightarrow> schema_name b1), b1))"

definition DB_Conn :: "sql_DB \<Rightarrow> backend \<Rightarrow> (go_error + sql_Conn) \<times> backend" where
  "DB_Conn d b =
     (if db_closed d then (Inl ErrDBClosed, b)
      else case respond ''CONNECT'' b of
             (Some e, b1) \<Rightarrow> (Inl e, b1)
           | (None, b1) \<Rightarrow> (Inr \<lparr>conn_closed = False\<rparr>, b1))"

definition DB_Close :: "sql_DB \<Rightarrow> go_error option \<times> sql_DB" where
  "DB_Close d = (None, d\<lparr>db_closed := True\<rparr>)"

definition Conn_Close :: "sql_Conn \<Rightarrow> go_error option \<times> sql_Conn" where
  "Conn_Close c =
     (if conn_closed c then (Some ErrConnDone, c) else (None, c\<lparr>conn_closed := True\<rparr>))"

definition Conn_ExecContext ::
  "sql_Conn \<Rightarrow> string \<Rightarrow> effect \<Rightarrow> backend \<Rightarrow> go_error option \<times> sql_Conn \<times> backend" where
  "Conn_ExecContext c q eff b =
     (if conn_closed c then (Some ErrConnDone, c, b)
      else case respond q b of
             (Some e, b1) \<Rightarrow> (Some e, release c (Some e), b1)
           | (None, b1) \<Rightarrow>
               (case apply_effect q eff b1 of (err, b2) \<Rightarrow> (err, release c err, b2)))"

text \<open>
  A transaction: \<^verbatim>\<open>BeginTx\<close> opens it on the server; a statement executed on it acts
  on the tables, and where the server commits on data definition it commits what the
  transaction has done up to and with that statement; \<^verbatim>\<open>Rollback\<close> ends it and puts
  back the tables of \<open>undo\<close>, and so does a \<^verbatim>\<open>Commit\<close> that fails.
\<close>

definition Conn_BeginTx ::
  "sql_Conn \<Rightarrow> backend \<Rightarrow> (go_error + sql_Tx) \<times> sql_Conn \<times> backend" where
  "Conn_BeginTx c b =
     (if conn_closed c then (Inl ErrConnDone, c, b)
      else case respond ''BEGIN'' b of
             (Some e, b1) \<Rightarrow> (Inl e, release c (Some e), b1)
           | (None, b1) \<Rightarrow> (Inr \<lparr>tx_conn = c\<rparr>, c, b1\<lparr>undo := Some (tables b1)\<rparr>))"

definition Tx_Exec ::
  "sql_Tx \<Rightarrow> string \<Rightarrow> effect \<Rightarrow> backend \<Rightarrow> go_error option \<times> backend" where
  "Tx_Exec tx q eff b =
     (case respond q b of
        (Some e, b1) \<Rightarrow> (Some e, b1)
      | (None, b1) \<Rightarrow>
          (case apply_effect q eff b1 of
             (err, b2) \<Rightarrow>
               (err, if is_ddl eff \<and> ddl_commits b2 then b2\<lparr>undo := Some (tables b2)\<rparr>
                     else b2)))"

definition Tx_Rollback ::
  "sql_Tx \<Rightarrow> backend \<Rightarrow> go_error option \<times> sql_Conn \<times> backend" where
  "Tx_Rollback tx b =
     (case respond ''ROLLBACK'' b of
        (e, b1) \<Rightarrow> (e, release (tx_conn tx) e, rolled_back b1))"

definition Tx_Commit ::
  "sql_Tx \<Rightarrow> backend \<Rightarrow> go_error option \<times> sql_Conn \<times> backend" where
  "Tx_Commit tx b =
     (case respond ''COMMIT'' b of
        (Some e, b1) \<Rightarrow> (Some e, release (tx_conn tx) (Some e), rolled_back b1)
      | (None, b1) \<Rightarrow> (None, tx_conn tx, b1\<lparr>undo := None\<rparr>))"

text \<open>
  \<^verbatim>\<open>QueryRowContext(...).Scan(&version, &dirty)\<close> on the control table: the first row,
  \<^verbatim>\<open>sql.ErrNoRows\<close> when there is none. Scanning the \<open>dirty\<close> column into a
  \<^verbatim>\<open>bool\<close> accepts 0 and 1 only.
\<close>

definition Conn_QueryRowContext_Scan ::
  "sql_Conn \<Rightarrow> string \<Rightarrow> string \<Rightarrow> backend
     \<Rightarrow> (go_error + int \<times> bool) \<times> sql_Conn \<times> backend" where
  "Conn_QueryRowContext_Scan c q t b =
     (if conn_closed c then (Inl ErrConnDone, c, b)
      else case respond q b of
             (Some e, b1) \<Rightarrow> (Inl e, release c (Some e), b1)
           | (None, b1) \<Rightarrow>
               (case map_of (tables b1) t of
                  None \<Rightarrow>
                    (Inl (report b1 NoSuchTable), release c (Some (report b1 NoSuchTable)), b1)
                | Some [] \<Rightarrow> (Inl ErrNoRows, c, b1)
                | Some ((v, d) # rs) \<Rightarrow>
                    if d = 0 then (Inr (v, False), c, b1)
                    else if d = 1 then (Inr (v, True), c, b1)
                    else (Inl (PlainError ''sql: Scan error on column index 1''), c, b1)))"

text \<open>
  \<^verbatim>\<open>QueryContext\<close> for the names of the tables; the MSSQL driver restricts the
  catalog to a database name. A name of the catalog is never \<^verbatim>\<open>NULL\<close>, the value
  \<open>None\<close> of a column. The rows are fetched one \<^verbatim>\<open>Next\<close> at a time: a fetch that a
  fault hits makes \<^verbatim>\<open>Next\<close> report false and keeps the error in the rows, for
  \<^verbatim>\<open>Err\<close> to return. \<^verbatim>\<open>Scan\<close> into a \<^verbatim>\<open>string\<close> fails on \<^verbatim>\<open>NULL\<close> only.

  The rows are closed once: by the \<^verbatim>\<open>Next\<close> that reports false, or else by the
  deferred \<^verbatim>\<open>Close\<close> of the caller. Closing them ends the cursor of the vendor
  driver, which can fail as well, so it takes an entry of the schedule of faults (and
  issues no statement); the library releases the connection with the error of that
  close, whatever \<^verbatim>\<open>Next\<close> or \<^verbatim>\<open>Close\<close> hand to the caller.
\<close>

definition Conn_QueryContext ::
  "sql_Conn \<Rightarrow> string \<Rightarrow> string option \<Rightarrow> backend
     \<Rightarrow> (go_error + string option list) \<times> sql_Conn \<times> backend" where
  "Conn_QueryContext c q catalog b =
     (if conn_closed c then (Inl ErrConnDone, c, b)
      else case respond q b of
             (Some e, b1) \<Rightarrow> (Inl e, release c (Some e), b1)
           | (None, b1) \<Rightarrow>
               (case catalog of
                  None \<Rightarrow> (Inr (map (\<lambda>t. Some (fst t)) (tables b1)), c, b1)
                | Some n \<Rightarrow>
                    if n = db_name b1 then (Inr (map (\<lambda>t. Some (fst t)) (tables b1)), c, b1)
                    else (Inr [], c, b1)))"

definition Rows_Next :: "backend \<Rightarrow> bool \<times> backend" where
  "Rows_Next b =
     (case faults b of
        [] \<Rightarrow> (True, b)
      | None # fs \<Rightarrow> (True, b\<lparr>faults := fs\<rparr>)
      | Some e # fs \<Rightarrow> (False, b\<lparr>faults := fs\<rparr>))"

definition Rows_Scan :: "string option \<Rightarrow> go_error + string" where
  "Rows_Scan r =
     (case r of
        None \<Rightarrow> Inl (PlainError ''sql: Scan error on column index 0'')
      | Some name \<Rightarrow> Inr name)"

definition Rows_Close :: "sql_Conn \<Rightarrow> backend \<Rightarrow> sql_Conn \<times> backend" where
  "Rows_Close c b =
     (case faults b of
        [] \<Rightarrow> (c, b)
      | f # fs \<Rightarrow> (release c f, b\<lparr>faults := fs\<rparr>))"

text \<open>An \<^verbatim>\<open>io.Reader\<close>: what \<^verbatim>\<open>ioutil.ReadAll\<close> gets from it, and the error that
  stops the reading, if any.\<close>

record reader =
  content :: string
  read_error :: "go_error option"

definition ReadAll :: "reader \<Rightarrow> string \<times> go_error option" where
  "ReadAll r = (content r, read_error r)"

section \<open>The Oracle driver\<close>

text \<open>
  Every method is a function of the driver and the server that returns its result, the
  driver after the call (the receiver is a pointer) and the server after the call.
  \<^verbatim>\<open>Open\<close>, which parses a URL and then calls \<^verbatim>\<open>WithInstance\<close>, is left out.
\<close>

record Config =
  MigrationsTable :: string
  SchemaName :: string

record 'c Driver =
  conn :: sql_Conn
  db :: sql_DB
  isLocked :: bool
  config :: 'c

type_synonym Oracle = "Config Driver"

definition Oracle_Lock ::
  "database_pkg \<Rightarrow> Oracle \<Rightarrow> backend \<Rightarrow> go_error option \<times> Oracle \<times> backend" where
  "Oracle_Lock pkg ora b =
     (if isLocked ora then (Some ErrLocked, ora, b)
      else case GenerateAdvisoryLockId pkg (SchemaName (config ora)) [] of
             Inl err \<Rightarrow> (Some err, ora, b)
           | Inr aid \<Rightarrow> (None, ora\<lparr>isLocked := True\<rparr>, b))"

definition Oracle_Unlock ::
  "database_pkg \<Rightarrow> Oracle \<Rightarrow> backend \<Rightarrow> go_error option \<times> Oracle \<times> backend" where
  "Oracle_Unlock pkg ora b =
     (if \<not> isLocked ora then (None, ora, b)
      else case GenerateAdvisoryLockId pkg (SchemaName (config ora)) [] of
             Inl err \<Rightarrow> (Some err, ora, b)
           | Inr aid \<Rightarrow> (None, ora\<lparr>isLocked := False\<rparr>, b))"

definition Oracle_Run ::
  "Oracle \<Rightarrow> reader \<Rightarrow> backend \<Rightarrow> go_error option \<times> Oracle \<times> backend" where
  "Oracle_Run ora migration b =
     (case ReadAll migration of
        (migr, Some err) \<Rightarrow> (Some err, ora, b)
      | (migr, None) \<Rightarrow>
          (let query = migr in
           case Conn_ExecContext (conn ora) query Script b of
             (Some err, c1, b1) \<Rightarrow>
               (case as_OraErr err of
                  Some message \<Rightarrow>
                    (Some (DatabaseError (Some err) message migr), ora\<lparr>conn := c1\<rparr>, b1)
                | None \<Rightarrow>
                    (Some (DatabaseError (Some err) ''migration failed'' migr),
                     ora\<lparr>conn := c1\<rparr>, b1))
           | (None, c1, b1) \<Rightarrow> (None, ora\<lparr>conn := c1\<rparr>, b1)))"

text \<open>The texts of the statements of \<^verbatim>\<open>SetVersion\<close> and \<^verbatim>\<open>Version\<close>, as the source
  builds them.\<close>

definition Oracle_truncate_query :: "Oracle \<Rightarrow> string" where
  "Oracle_truncate_query ora =
     ''TRUNCATE TABLE '' @ [dquote] @ MigrationsTable (config ora) @ [dquote]"

definition Oracle_insert_query :: "Oracle \<Rightarrow> int \<Rightarrow> bool \<Rightarrow> string" where
  "Oracle_insert_query ora version dirty =
     ''INSERT INTO '' @ [dquote] @ MigrationsTable (config ora) @ [dquote]
     @ '' (version, dirty) VALUES ('' @ itoa version @ '', '' @ [squote]
     @ itoa (sint (b2i dirty)) @ [squote] @ '')''"

definition Oracle_Version_query :: "Oracle \<Rightarrow> string" where
  "Oracle_Version_query ora =
     ''SELECT version, dirty FROM '' @ [dquote] @ MigrationsTable (config ora)
     @ [dquote] @ '' WHERE ROWNUM = 1''"

text \<open>The second statement of \<^verbatim>\<open>SetVersion\<close>, under its guard \<^verbatim>\<open>version >= 0\<close>;
  it returns the connection as well, which the \<^verbatim>\<open>Rollback\<close> may have closed.\<close>

definition Oracle_SetVersion_insert ::
  "Oracle \<Rightarrow> sql_Tx \<Rightarrow> int \<Rightarrow> bool \<Rightarrow> backend \<Rightarrow> go_error option \<times> sql_Conn \<times> backend" where
  "Oracle_SetVersion_insert ora tx version dirty b =
     (if 0 \<le> version then
        (let query = Oracle_insert_query ora version dirty in
         case Tx_Exec tx query
                (AddRow (MigrationsTable (config ora)) version (sint (b2i dirty))) b of
           (Some err, b1) \<Rightarrow>
             (case Tx_Rollback tx b1 of
                (e, c2, b2) \<Rightarrow> (Some (DatabaseError (Some err) [] query), c2, b2))
         | (None, b1) \<Rightarrow> (None, tx_conn tx, b1))
      else (None, tx_conn tx, b))"

definition Oracle_SetVersion ::
  "Oracle \<Rightarrow> int \<Rightarrow> bool \<Rightarrow> backend \<Rightarrow> go_error option \<times> Oracle \<times> backend" where
  "Oracle_SetVersion ora version dirty b =
     (case Conn_BeginTx (conn ora) b of
        (Inl err, c1, b1) \<Rightarrow>
          (Some (DatabaseError (Some err) ''transaction start failed'' []),
           ora\<lparr>conn := c1\<rparr>, b1)
      | (Inr tx, c1, b1) \<Rightarrow>
          (let query = Oracle_truncate_query ora in
           case Tx_Exec tx query (ClearTable (MigrationsTable (config ora))) b1 of
             (Some err, b2) \<Rightarrow>
               (case Tx_Rollback tx b2 of
                  (e, c2, b3) \<Rightarrow>
                    (Some (DatabaseError (Some err) [] query), ora\<lparr>conn := c2\<rparr>, b3))
           | (None, b2) \<Rightarrow>
               (case Oracle_SetVersion_insert ora tx version dirty b2 of
                  (Some err, c3, b3) \<Rightarrow> (Some err, ora\<lparr>conn := c3\<rparr>, b3)
                | (None, c3, b3) \<Rightarrow>
                    (case Tx_Commit tx b3 of
                       (Some err, c4, b4) \<Rightarrow>
                         (Some (DatabaseError (Some err) ''transaction commit failed'' []),
                          ora\<lparr>conn := c4\<rparr>, b4)
                     | (None, c4, b4) \<Rightarrow> (None, ora\<lparr>conn := c4\<rparr>, b4)))))"

text \<open>\<^verbatim>\<open>Version\<close> returns Go's triple \<^verbatim>\<open>(version, dirty, err)\<close>.\<close>

definition Oracle_Version ::
  "database_pkg \<Rightarrow> Oracle \<Rightarrow> backend \<Rightarrow> (int \<times> bool \<times> go_error option) \<times> Oracle \<times> backend" where
  "Oracle_Version pkg ora b =
     (let query = Oracle_Version_query ora in
      case Conn_QueryRowContext_Scan (conn ora) query (MigrationsTable (config ora)) b of
        (Inl err, c1, b1) \<Rightarrow>
          if err = ErrNoRows then ((NilVersion pkg, False, None), ora\<lparr>conn := c1\<rparr>, b1)
          else (case as_OraErr err of
                  Some m \<Rightarrow> ((NilVersion pkg, False, None), ora\<lparr>conn := c1\<rparr>, b1)
                | None \<Rightarrow>
                    ((0, False, Some (DatabaseError (Some err) [] query)),
                     ora\<lparr>conn := c1\<rparr>, b1))
      | (Inr (version, dirty), c1, b1) \<Rightarrow> ((version, dirty, None), ora\<lparr>conn := c1\<rparr>, b1))"

text \<open>
  The loop \<^verbatim>\<open>for tables.Next()\<close> of \<^verbatim>\<open>Drop\<close>, the same in both drivers, with the
  \<^verbatim>\<open>defer tables.Close()\<close> that follows a \<^verbatim>\<open>return err\<close> from inside it. The source
  never reads \<^verbatim>\<open>tables.Err()\<close>: when \<^verbatim>\<open>Next\<close> reports false because a fetch failed,
  the loop ends as it does after the last row, with the names read so far. The
  connection is the one the rows were opened on, as it is once they are closed.
\<close>

fun Drop_scan ::
  "string option list \<Rightarrow> string list \<Rightarrow> sql_Conn \<Rightarrow> backend
     \<Rightarrow> (go_error + string list) \<times> sql_Conn \<times> backend" where
  "Drop_scan [] tableNames c b =
     (case Rows_Close c b of (c1, b1) \<Rightarrow> (Inr tableNames, c1, b1))"
| "Drop_scan (r # rs) tableNames c b =
     (case Rows_Next b of
        (False, b1) \<Rightarrow> (case Rows_Close c b1 of (c2, b2) \<Rightarrow> (Inr tableNames, c2, b2))
      | (True, b1) \<Rightarrow>
          (case Rows_Scan r of
             Inl err \<Rightarrow> (case Rows_Close c b1 of (c2, b2) \<Rightarrow> (Inl err, c2, b2))
           | Inr tableName \<Rightarrow>
               Drop_scan rs
                 (if 0 < length tableName then tableNames @ [tableName] else tableNames)
                 c b1))"

fun join_lines :: "string list \<Rightarrow> string" where
  "join_lines [] = []"
| "join_lines [l] = l"
| "join_lines (l # ls) = l @ newline # join_lines ls"

text \<open>
  The stored procedures of the Oracle driver. In both, the condition
  \<^verbatim>\<open>table_name = TABLE_NAME\<close> of the \<^verbatim>\<open>SELECT\<close> compares the column with itself (inside
  a SQL statement of PL/SQL a column name takes precedence over a parameter of the same
  name), so the count is the number of tables of the schema:
  \<^verbatim>\<open>proc_dropifexists\<close> drops the table when the schema has any table, and
  \<^verbatim>\<open>proc_createifnotexists\<close> creates it when the schema has none.
\<close>

definition proc_dropifexists :: string where
  "proc_dropifexists = join_lines
     [''CREATE OR REPLACE'',
      ''procedure proc_dropifexists('',
      ''    TABLE_NAME in VARCHAR2'',
      '') is'',
      '' l_count NUMBER;'',
      ''BEGIN'',
      '' SELECT COUNT(1)'',
      '' INTO l_count'',
      '' FROM USER_TABLES'',
      '' WHERE table_name = TABLE_NAME;'',
      '' IF l_count > 0 THEN'',
      '' EXECUTE IMMEDIATE '' @ [squote] @ ''Drop table '' @ [squote] @ ''||'' @ [squote, dquote, squote]
        @ ''||TABLE_NAME||'' @ [squote, dquote, squote] @ ''||'' @ [squote]
        @ '' CASCADE CONSTRAINTS'' @ [squote] @ '';'',
      ''END IF;'',
      ''END;'']"

definition proc_createifnotexists :: string where
  "proc_createifnotexists = join_lines
     [''CREATE OR REPLACE'',
      tab # ''procedure proc_createifnotexists('',
      tab # tab # ''TABLE_NAME in VARCHAR2'',
      tab # '') authid current_user is'',
      tab # ''nCount NUMBER;'',
      tab # ''v_sql LONG;'',
      tab # ''begin'',
      tab # ''SELECT count(*) into nCount FROM user_tables where table_name = TABLE_NAME;'',
      tab # ''IF(nCount <= 0)'',
      tab # ''THEN'',
      tab # ''v_sql:='' @ [squote] @ ''create table '' @ [squote] @ ''||'' @ [squote, dquote, squote]
        @ ''||TABLE_NAME||'' @ [squote, dquote, squote] @ ''||'' @ [squote]
        @ '' (VERSION NUMBER(20) NOT NULL PRIMARY KEY, DIRTY NUMBER(1) NOT NULL)'' @ [squote] @ '';'',
      tab # ''execute immediate v_sql;'',
      tab # ''END IF;'',
      tab # ''end;'']"

fun Oracle_Drop_loop ::
  "Oracle \<Rightarrow> string list \<Rightarrow> backend \<Rightarrow> go_error option \<times> Oracle \<times> backend" where
  "Oracle_Drop_loop ora [] b = (None, ora, b)"
| "Oracle_Drop_loop ora (t # ts) b =
     (let query = ''BEGIN proc_dropifexists('' @ [squote] @ t @ [squote] @ ''); END;'' in
      case Conn_ExecContext (conn ora) query (DropIfSchemaNonEmpty t) b of
        (Some err, c1, b1) \<Rightarrow>
          (Some (DatabaseError (Some err) [] query), ora\<lparr>conn := c1\<rparr>, b1)
      | (None, c1, b1) \<Rightarrow> Oracle_Drop_loop (ora\<lparr>conn := c1\<rparr>) ts b1)"

definition Oracle_Drop ::
  "Oracle \<Rightarrow> backend \<Rightarrow> go_error option \<times> Oracle \<times> backend" where
  "Oracle_Drop ora b =
     (let query = ''SELECT TABLE_NAME FROM USER_TABLES'' in
      case Conn_QueryContext (conn ora) query None b of
        (Inl err, c1, b1) \<Rightarrow>
          (Some (DatabaseError (Some err) [] query), ora\<lparr>conn := c1\<rparr>, b1)
      | (Inr rows, c1, b1) \<Rightarrow>
          (case Drop_scan rows [] c1 b1 of
             (Inl err, c2, b2) \<Rightarrow> (Some err, ora\<lparr>conn := c2\<rparr>, b2)
           | (Inr tableNames, c2, b2) \<Rightarrow>
               (let query = proc_dropifexists in
                case Conn_ExecContext c2 query InstallProcedure b2 of
                  (Some err, c3, b3) \<Rightarrow>
                    (Some (DatabaseError (Some err) [] query), ora\<lparr>conn := c3\<rparr>, b3)
                | (None, c3, b3) \<Rightarrow>
                    if 0 < length tableNames then
                      Oracle_Drop_loop (ora\<lparr>conn := c3\<rparr>) tableNames b3
                    else (None, ora\<lparr>conn := c3\<rparr>, b3))))"

definition Oracle_ensureVersionTable_body ::
  "Oracle \<Rightarrow> backend \<Rightarrow> go_error option \<times> Oracle \<times> backend" where
  "Oracle_ensureVersionTable_body ora b =
     (let query = proc_createifnotexists in
      case Conn_ExecContext (conn ora) query InstallProcedure b of
        (Some err, c1, b1) \<Rightarrow>
          (Some (DatabaseError (Some err) [] query), ora\<lparr>conn := c1\<rparr>, b1)
      | (None, c1, b1) \<Rightarrow>
          (let query = ''BEGIN proc_createifnotexists('' @ [squote]
                       @ MigrationsTable (config ora) @ [squote] @ ''); END;'' in
           case Conn_ExecContext c1 query
                  (CreateIfSchemaEmpty (MigrationsTable (config ora))) b1 of
             (Some err, c2, b2) \<Rightarrow>
               (Some (DatabaseError (Some err) [] query), ora\<lparr>conn := c2\<rparr>, b2)
           | (None, c2, b2) \<Rightarrow> (None, ora\<lparr>conn := c2\<rparr>, b2)))"

text \<open>The deferred function runs \<^verbatim>\<open>Unlock\<close> after the body and merges its error.\<close>

definition Oracle_ensureVersionTable ::
  "database_pkg \<Rightarrow> Oracle \<Rightarrow> backend \<Rightarrow> go_error option \<times> Oracle \<times> backend" where
  "Oracle_ensureVersionTable pkg ora b =
     (case Oracle_Lock pkg ora b of
        (Some err, ora1, b1) \<Rightarrow> (Some err, ora1, b1)
      | (None, ora1, b1) \<Rightarrow>
          (case Oracle_ensureVersionTable_body ora1 b1 of
             (err, ora2, b2) \<Rightarrow>
               (case Oracle_Unlock pkg ora2 b2 of
                  (Some e, ora3, b3) \<Rightarrow>
                    (case err of
                       None \<Rightarrow> (Some e, ora3, b3)
                     | Some err1 \<Rightarrow> (Some (MultiError err1 e), ora3, b3))
                | (None, ora3, b3) \<Rightarrow> (err, ora3, b3))))"

text \<open>
  \<^verbatim>\<open>WithInstance\<close> gets a pointer to the caller's \<^verbatim>\<open>Config\<close> and writes through it;
  the second component of the result is the caller's \<^verbatim>\<open>Config\<close> after the call. The
  driver returned holds the same pointer.
\<close>

definition Oracle_WithInstance ::
  "database_pkg \<Rightarrow> sql_DB \<Rightarrow> Config option \<Rightarrow> backend
     \<Rightarrow> (go_error + Oracle) \<times> Config option \<times> backend" where
  "Oracle_WithInstance pkg instance config_arg b =
     (case config_arg of
        None \<Rightarrow> (Inl ErrNilConfig, None, b)
      | Some cfg \<Rightarrow>
          (case DB_Ping instance b of
             (Some err, b1) \<Rightarrow> (Inl err, Some cfg, b1)
           | (None, b1) \<Rightarrow>
               (let query = ''select sys_context('' @ [squote] @ ''userenv'' @ [squote] @ '',''
                            @ [squote] @ ''db_name'' @ [squote] @ '') from dual'' in
                case DB_QueryRow_Scan instance query CurrentDatabase b1 of
                  (Inl err, b2) \<Rightarrow> (Inl (DatabaseError (Some err) [] query), Some cfg, b2)
                | (Inr schemaName, b2) \<Rightarrow>
                    if length schemaName = 0 then (Inl ErrNoSchema, Some cfg, b2)
                    else
                      (let cfg1 = cfg\<lparr>SchemaName := schemaName\<rparr>;
                           cfg2 = (if length (MigrationsTable cfg1) = 0
                                   then cfg1\<lparr>MigrationsTable := DefaultMigrationsTable\<rparr>
                                   else cfg1) in
                       case DB_Conn instance b2 of
                         (Inl err, b3) \<Rightarrow> (Inl err, Some cfg2, b3)
                       | (Inr c, b3) \<Rightarrow>
                           (case Oracle_ensureVersionTable pkg
                                   \<lparr>conn = c, db = instance, isLocked = False, config = cfg2\<rparr> b3 of
                              (Some err, ora, b4) \<Rightarrow> (Inl err, Some cfg2, b4)
                            | (None, ora, b4) \<Rightarrow> (Inr ora, Some cfg2, b4))))))"

definition Oracle_Close ::
  "Oracle \<Rightarrow> backend \<Rightarrow> go_error option \<times> Oracle \<times> backend" where
  "Oracle_Close ora b =
     (case Conn_Close (conn ora) of
        (connErr, c1) \<Rightarrow>
          (case DB_Close (db ora) of
             (dbErr, d1) \<Rightarrow>
               if connErr \<noteq> None \<or> dbErr \<noteq> None
               then (Some (CloseError connErr dbErr), ora\<lparr>conn := c1, db := d1\<rparr>, b)
               else (None, ora\<lparr>conn := c1, db := d1\<rparr>, b)))"

section \<open>The MSSQL driver\<close>

text \<open>The MSSQL \<^verbatim>\<open>Config\<close> has the fields of the Oracle one and \<^verbatim>\<open>DatabaseName\<close>.\<close>

record Mssql_Config = Config +
  DatabaseName :: string

type_synonym Mssql = "Mssql_Config Driver"

definition Mssql_Lock ::
  "database_pkg \<Rightarrow> Mssql \<Rightarrow> backend \<Rightarrow> go_error option \<times> Mssql \<times> backend" where
  "Mssql_Lock pkg ms b =
     (if isLocked ms then (Some ErrLocked, ms, b)
      else case GenerateAdvisoryLockId pkg (DatabaseName (config ms)) [SchemaName (config ms)] of
             Inl err \<Rightarrow> (Some err, ms, b)
           | Inr aid \<Rightarrow> (None, ms\<lparr>isLocked := True\<rparr>, b))"

definition Mssql_Unlock ::
  "database_pkg \<Rightarrow> Mssql \<Rightarrow> backend \<Rightarrow> go_error option \<times> Mssql \<times> backend" where
  "Mssql_Unlock pkg ms b =
     (if \<not> isLocked ms then (None, ms, b)
      else case GenerateAdvisoryLockId pkg (DatabaseName (config ms)) [SchemaName (config ms)] of
             Inl err \<Rightarrow> (Some err, ms, b)
           | Inr aid \<Rightarrow> (None, ms\<lparr>isLocked := False\<rparr>, b))"

definition Mssql_Run ::
  "Mssql \<Rightarrow> reader \<Rightarrow> backend \<Rightarrow> go_error option \<times> Mssql \<times> backend" where
  "Mssql_Run ms migration b =
     (case ReadAll migration of
        (migr, Some err) \<Rightarrow> (Some err, ms, b)
      | (migr, None) \<Rightarrow>
          (let query = migr in
           case Conn_ExecContext (conn ms) query Script b of
             (Some err, c1, b1) \<Rightarrow>
               (case as_SQLError err of
                  Some message \<Rightarrow>
                    (Some (DatabaseError (Some err) message migr), ms\<lparr>conn := c1\<rparr>, b1)
                | None \<Rightarrow>
                    (Some (DatabaseError (Some err) ''migration failed'' migr),
                     ms\<lparr>conn := c1\<rparr>, b1))
           | (None, c1, b1) \<Rightarrow> (None, ms\<lparr>conn := c1\<rparr>, b1)))"

definition Mssql_truncate_query :: "Mssql \<Rightarrow> string" where
  "Mssql_truncate_query ms = ''TRUNCATE TABLE '' @ MigrationsTable (config ms)"

definition Mssql_insert_query :: "Mssql \<Rightarrow> int \<Rightarrow> bool \<Rightarrow> string" where
  "Mssql_insert_query ms version dirty =
     ''INSERT INTO '' @ MigrationsTable (config ms)
     @ '' (version, dirty) VALUES ('' @ itoa version @ '', '' @ [squote]
     @ itoa (sint (b2i dirty)) @ [squote] @ '')''"

definition Mssql_Version_query :: "Mssql \<Rightarrow> string" where
  "Mssql_Version_query ms = ''SELECT TOP 1 version, dirty FROM '' @ MigrationsTable (config ms)"

definition Mssql_SetVersion_insert ::
  "Mssql \<Rightarrow> sql_Tx \<Rightarrow> int \<Rightarrow> bool \<Rightarrow> backend \<Rightarrow> go_error option \<times> sql_Conn \<times> backend" where
  "Mssql_SetVersion_insert ms tx version dirty b =
     (if 0 \<le> version then
        (let query = Mssql_insert_query ms version dirty in
         case Tx_Exec tx query
                (AddRow (MigrationsTable (config ms)) version (sint (b2i dirty))) b of
           (Some err, b1) \<Rightarrow>
             (case Tx_Rollback tx b1 of
                (e, c2, b2) \<Rightarrow> (Some (DatabaseError (Some err) [] query), c2, b2))
         | (None, b1) \<Rightarrow> (None, tx_conn tx, b1))
      else (None, tx_conn tx, b))"

definition Mssql_SetVersion ::
  "Mssql \<Rightarrow> int \<Rightarrow> bool \<Rightarrow> backend \<Rightarrow> go_error option \<times> Mssql \<times> backend" where
  "Mssql_SetVersion ms version dirty b =
     (case Conn_BeginTx (conn ms) b of
        (Inl err, c1, b1) \<Rightarrow>
          (Some (DatabaseError (Some err) ''transaction start failed'' []),
           ms\<lparr>conn := c1\<rparr>, b1)
      | (Inr tx, c1, b1) \<Rightarrow>
          (let query = Mssql_truncate_query ms in
           case Tx_Exec tx query (ClearTable (MigrationsTable (config ms))) b1 of
             (Some err, b2) \<Rightarrow>
               (case Tx_Rollback tx b2 of
                  (e, c2, b3) \<Rightarrow>
                    (Some (DatabaseError (Some err) [] query), ms\<lparr>conn := c2\<rparr>, b3))
           | (None, b2) \<Rightarrow>
               (case Mssql_SetVersion_insert ms tx version dirty b2 of
                  (Some err, c3, b3) \<Rightarrow> (Some err, ms\<lparr>conn := c3\<rparr>, b3)
                | (None, c3, b3) \<Rightarrow>
                    (case Tx_Commit tx b3 of
                       (Some err, c4, b4) \<Rightarrow>
                         (Some (DatabaseError (Some err) ''transaction commit failed'' []),
                          ms\<lparr>conn := c4\<rparr>, b4)
                     | (None, c4, b4) \<Rightarrow> (None, ms\<lparr>conn := c4\<rparr>, b4)))))"

definition Mssql_Version ::
  "database_pkg \<Rightarrow> Mssql \<Rightarrow> backend \<Rightarrow> (int \<times> bool \<times> go_error option) \<times> Mssql \<times> backend" where
  "Mssql_Version pkg ms b =
     (let query = Mssql_Version_query ms in
      case Conn_QueryRowContext_Scan (conn ms) query (MigrationsTable (config ms)) b of
        (Inl err, c1, b1) \<Rightarrow>
          if err = ErrNoRows then ((NilVersion pkg, False, None), ms\<lparr>conn := c1\<rparr>, b1)
          else (case as_SQLError err of
                  Some m \<Rightarrow> ((NilVersion pkg, False, None), ms\<lparr>conn := c1\<rparr>, b1)
                | None \<Rightarrow>
                    ((0, False, Some (DatabaseError (Some err) [] query)),
                     ms\<lparr>conn := c1\<rparr>, b1))
      | (Inr (version, dirty), c1, b1) \<Rightarrow> ((version, dirty, None), ms\<lparr>conn := c1\<rparr>, b1))"

fun Mssql_Drop_loop ::
  "Mssql \<Rightarrow> string list \<Rightarrow> backend \<Rightarrow> go_error option \<times> Mssql \<times> backend" where
  "Mssql_Drop_loop ms [] b = (None, ms, b)"
| "Mssql_Drop_loop ms (t # ts) b =
     (let query = ''DROP TABLE IF EXISTS '' @ t in
      case Conn_ExecContext (conn ms) query (DropIfExists t) b of
        (Some err, c1, b1) \<Rightarrow>
          (Some (DatabaseError (Some err) [] query), ms\<lparr>conn := c1\<rparr>, b1)
      | (None, c1, b1) \<Rightarrow> Mssql_Drop_loop (ms\<lparr>conn := c1\<rparr>) ts b1)"

definition Mssql_Drop ::
  "Mssql \<Rightarrow> backend \<Rightarrow> go_error option \<times> Mssql \<times> backend" where
  "Mssql_Drop ms b =
     (let query = ''SELECT TABLE_NAME FROM INFORMATION_SCHEMA.TABLES WHERE TABLE_TYPE = ''
                  @ [squote] @ ''BASE TABLE'' @ [squote] @ '' AND TABLE_CATALOG='' @ [squote]
                  @ DatabaseName (config ms) @ [squote] in
      case Conn_QueryContext (conn ms) query (Some (DatabaseName (config ms))) b of
        (Inl err, c1, b1) \<Rightarrow>
          (Some (DatabaseError (Some err) [] query), ms\<lparr>conn := c1\<rparr>, b1)
      | (Inr rows, c1, b1) \<Rightarrow>
          (case Drop_scan rows [] c1 b1 of
             (Inl err, c2, b2) \<Rightarrow> (Some err, ms\<lparr>conn := c2\<rparr>, b2)
           | (Inr tableNames, c2, b2) \<Rightarrow>
               if 0 < length tableNames then
                 Mssql_Drop_loop (ms\<lparr>conn := c2\<rparr>) tableNames b2
               else (None, ms\<lparr>conn := c2\<rparr>, b2)))"

definition Mssql_ensureVersionTable_body ::
  "Mssql \<Rightarrow> backend \<Rightarrow> go_error option \<times> Mssql \<times> backend" where
  "Mssql_ensureVersionTable_body ms b =
     (let query = ''IF NOT EXISTS (SELECT * FROM sysobjects WHERE name='' @ [squote]
                  @ MigrationsTable (config ms) @ [squote] @ '' and xtype='' @ [squote] @ ''U''
                  @ [squote] @ '') '' @ ''CREATE TABLE '' @ MigrationsTable (config ms)
                  @ ''(version bigint not null, dirty bit not null, primary key (version))'' in
      case Conn_ExecContext (conn ms) query (CreateIfMissing (MigrationsTable (config ms))) b of
        (Some err, c1, b1) \<Rightarrow>
          (Some (DatabaseError (Some err) [] query), ms\<lparr>conn := c1\<rparr>, b1)
      | (None, c1, b1) \<Rightarrow> (None, ms\<lparr>conn := c1\<rparr>, b1))"

definition Mssql_ensureVersionTable ::
  "database_pkg \<Rightarrow> Mssql \<Rightarrow> backend \<Rightarrow> go_error option \<times> Mssql \<times> backend" where
  "Mssql_ensureVersionTable pkg ms b =
     (case Mssql_Lock pkg ms b of
        (Some err, ms1, b1) \<Rightarrow> (Some err, ms1, b1)
      | (None, ms1, b1) \<Rightarrow>
          (case Mssql_ensureVersionTable_body ms1 b1 of
             (err, ms2, b2) \<Rightarrow>
               (case Mssql_Unlock pkg ms2 b2 of
                  (Some e, ms3, b3) \<Rightarrow>
                    (case err of
                       None \<Rightarrow> (Some e, ms3, b3)
                     | Some err1 \<Rightarrow> (Some (MultiError err1 e), ms3, b3))
                | (None, ms3, b3) \<Rightarrow> (err, ms3, b3))))"

definition Mssql_WithInstance ::
  "database_pkg \<Rightarrow> sql_DB \<Rightarrow> Mssql_Config option \<Rightarrow> backend
     \<Rightarrow> (go_error + Mssql) \<times> Mssql_Config option \<times> backend" where
  "Mssql_WithInstance pkg instance config_arg b =
     (case config_arg of
        None \<Rightarrow> (Inl ErrNilConfig, None, b)
      | Some cfg \<Rightarrow>
          (case DB_Ping instance b of
             (Some err, b1) \<Rightarrow> (Inl err, Some cfg, b1)
           | (None, b1) \<Rightarrow>
               (let query = ''SELECT DB_NAME()'' in
                case DB_QueryRow_Scan instance query CurrentDatabase b1 of
                  (Inl err, b2) \<Rightarrow> (Inl (DatabaseError (Some err) [] query), Some cfg, b2)
                | (Inr databaseName, b2) \<Rightarrow>
                    if length databaseName = 0 then (Inl ErrNoDatabaseName, Some cfg, b2)
                    else
                      (let cfg1 = cfg\<lparr>DatabaseName := databaseName\<rparr>;
                           query = ''SELECT SCHEMA_NAME()'' in
                       case DB_QueryRow_Scan instance query CurrentSchema b2 of
                         (Inl err, b3) \<Rightarrow>
                           (Inl (DatabaseError (Some err) [] query), Some cfg1, b3)
                       | (Inr schemaName, b3) \<Rightarrow>
                           if length schemaName = 0 then (Inl ErrNoSchema, Some cfg1, b3)
                           else
                             (let cfg2 = cfg1\<lparr>SchemaName := schemaName\<rparr>;
                                  cfg3 = (if length (MigrationsTable cfg2) = 0
                                          then cfg2\<lparr>MigrationsTable := DefaultMigrationsTable\<rparr>
                                          else cfg2) in
                              case DB_Conn instance b3 of
                                (Inl err, b4) \<Rightarrow> (Inl err, Some cfg3, b4)
                              | (Inr c, b4) \<Rightarrow>
                                  (case Mssql_ensureVersionTable pkg
                                          \<lparr>conn = c, db = instance, isLocked = False,
                                           config = cfg3\<rparr> b4 of
                                     (Some err, ms, b5) \<Rightarrow> (Inl err, Some cfg3, b5)
                                   | (None, ms, b5) \<Rightarrow> (Inr ms, Some cfg3, b5)))))))"

definition Mssql_Close ::
  "Mssql \<Rightarrow> backend \<Rightarrow> go_error option \<times> Mssql \<times> backend" where
  "Mssql_Close ms b =
     (case Conn_Close (conn ms) of
        (connErr, c1) \<Rightarrow>
          (case DB_Close (db ms) of
             (dbErr, d1) \<Rightarrow>
               if connErr \<noteq> None \<or> dbErr \<noteq> None
               then (Some (CloseError connErr dbErr), ms\<lparr>conn := c1, db := d1\<rparr>, b)
               else (None, ms\<lparr>conn := c1, db := d1\<rparr>, b)))"

section \<open>Callers and example states\<close>

text \<open>A caller that issues a list of \<^verbatim>\<open>SetVersion\<close> calls, whatever each returns,
  and collects the errors.\<close>

fun Oracle_SetVersion_calls ::
  "Oracle \<Rightarrow> (int \<times> bool) list \<Rightarrow> backend \<Rightarrow> go_error option list \<times> backend" where
  "Oracle_SetVersion_calls ora [] b = ([], b)"
| "Oracle_SetVersion_calls ora ((v, d) # cs) b =
     (case Oracle_SetVersion ora v d b of
        (e, ora1, b1) \<Rightarrow>
          (case Oracle_SetVersion_calls ora1 cs b1 of (es, b2) \<Rightarrow> (e # es, b2)))"

fun Mssql_SetVersion_calls ::
  "Mssql \<Rightarrow> (int \<times> bool) list \<Rightarrow> backend \<Rightarrow> go_error option list \<times> backend" where
  "Mssql_SetVersion_calls ms [] b = ([], b)"
| "Mssql_SetVersion_calls ms ((v, d) # cs) b =
     (case Mssql_SetVersion ms v d b of
        (e, ms1, b1) \<Rightarrow>
          (case Mssql_SetVersion_calls ms1 cs b1 of (es, b2) \<Rightarrow> (e # es, b2)))"

text \<open>
  Conditions on the server under which a call cannot fail: \<open>next_ok\<close>, the next round
  trip is not hit by a fault; \<open>calls_ok n\<close>, none of the next \<open>n\<close> is; \<open>healthy\<close>, the
  connection is open, no fault is scheduled and the control table exists.
\<close>

definition next_ok :: "backend \<Rightarrow> bool" where
  "next_ok b = (case faults b of [] \<Rightarrow> True | f # fs \<Rightarrow> f = None)"

definition calls_ok :: "nat \<Rightarrow> backend \<Rightarrow> bool" where
  "calls_ok n b = list_all (\<lambda>f. f = None) (take n (faults b))"

definition healthy :: "('a Config_scheme) Driver \<Rightarrow> backend \<Rightarrow> bool" where
  "healthy drv b =
     (\<not> conn_closed (conn drv) \<and> faults b = [] \<and>
      map_of (tables b) (MigrationsTable (config drv)) \<noteq> None)"

text \<open>The payload and the tag an error carries, if it is a \<^verbatim>\<open>database.Error\<close>.\<close>

fun Query_of :: "go_error \<Rightarrow> string option" where
  "Query_of (DatabaseError orig err query) = Some query"
| "Query_of _ = None"

fun Err_of :: "go_error \<Rightarrow> string option" where
  "Err_of (DatabaseError orig err query) = Some err"
| "Err_of _ = None"

text \<open>
  A package \<^verbatim>\<open>database\<close> with the sentinel \<open>-1\<close> and an identifier function that
  never fails; an Oracle server, which commits on data definition, and a SQL Server,
  which does not, each with a control table holding \<open>(1, 0)\<close>, a user table, and no
  faults scheduled; a driver of each kind connected to its server.
\<close>

definition ex_pkg :: database_pkg where
  "ex_pkg = \<lparr>NilVersion = - 1,
             GenerateAdvisoryLockId = (\<lambda>name names. Inr (concat (names @ [name])))\<rparr>"

definition ex_oracle_server :: backend where
  "ex_oracle_server =
     \<lparr>tables = [(''schema_migrations'', [(1, 0)]), (''users'', [])],
      undo = None, ddl_commits = True,
      faults = [], issued = [], db_name = ''ORCL'', schema_name = ''SCOTT'',
      report = (\<lambda>c. case c of NoSuchTable \<Rightarrow> OraError 942 ''table or view does not exist''
                            | DuplicateKey \<Rightarrow> OraError 1 ''unique constraint violated''),
      script = (\<lambda>q ts. Inr ts)\<rparr>"

definition ex_sql_server :: backend where
  "ex_sql_server =
     \<lparr>tables = [(''schema_migrations'', [(1, 0)]), (''users'', [])],
      undo = None, ddl_commits = False,
      faults = [], issued = [], db_name = ''master'', schema_name = ''dbo'',
      report = (\<lambda>c. case c of NoSuchTable \<Rightarrow> MssqlError 208 ''Invalid object name''
                            | DuplicateKey \<Rightarrow> MssqlError 2627 ''Violation of PRIMARY KEY constraint''),
      script = (\<lambda>q ts. Inr ts)\<rparr>"

definition ex_ora :: Oracle where
  "ex_ora = \<lparr>conn = \<lparr>conn_closed = False\<rparr>, db = \<lparr>db_closed = False\<rparr>, isLocked = False,
            config = \<lparr>MigrationsTable = ''schema_migrations'', SchemaName = ''ORCL''\<rparr>\<rparr>"

definition ex_ms :: Mssql where
  "ex_ms = \<lparr>conn = \<lparr>conn_closed = False\<rparr>, db = \<lparr>db_closed = False\<rparr>, isLocked = False,
           config = \<lparr>MigrationsTable = ''schema_migrations'', SchemaName = ''dbo'',
                     DatabaseName = ''master''\<rparr>\<rparr>"

section \<open>Facts about the server and the client library\<close>

lemma respond_frame:
  "respond q b = (e, b1) \<Longrightarrow>
     tables b1 = tables b \<and> issued b1 = issued b @ [q] \<and> db_name b1 = db_name b \<and>
     schema_name b1 = schema_name b \<and> report b1 = report b \<and> script b1 = script b \<and>
     undo b1 = undo b \<and> ddl_commits b1 = ddl_commits b"
  by (auto simp: respond_def split: list.splits)

lemma respond_ok: "next_ok b \<Longrightarrow> fst (respond q b) = None"
  by (auto simp: respond_def next_ok_def split: list.splits)

lemma respond_nofault: "faults b = [] \<Longrightarrow> respond q b = (None, b\<lparr>issued := issued b @ [q]\<rparr>)"
  by (simp add: respond_def)

lemma respond_calls_ok:
  assumes "calls_ok (Suc n) b"
  shows "fst (respond q b) = None" and "calls_ok n (snd (respond q b))"
  using assms by (auto simp: respond_def calls_ok_def split: list.splits)

lemma healthy_next_ok: "healthy drv b \<Longrightarrow> next_ok b"
  by (simp add: healthy_def next_ok_def)

lemma sint_b2i: "sint (b2i d) = (if d then 1 else 0)"
  by (simp add: b2i_def)

lemma release_cases: "release c e = c \<or> (conn_closed (release c e) \<and> e = Some ErrBadConn)"
  by (simp add: release_def)

lemma release_None: "release c None = c"
  by (simp add: release_def)

lemma Conn_ExecContext_conn:
  "Conn_ExecContext c q eff b = (e, c1, b1) \<Longrightarrow>
     (c1 = c \<or> (conn_closed c1 \<and> e = Some ErrBadConn)) \<and> (e = None \<longrightarrow> c1 = c)"
  using release_cases [of c e]
  by (auto simp: Conn_ExecContext_def release_None split: if_splits prod.splits option.splits)

lemma Conn_QueryContext_conn:
  "Conn_QueryContext c q cat b = (r, c1, b1) \<Longrightarrow>
     (case r of Inr rows \<Rightarrow> c1 = c
              | Inl e \<Rightarrow> c1 = c \<or> (conn_closed c1 \<and> e = ErrBadConn))"
  by (auto simp: Conn_QueryContext_def release_def
      split: if_splits prod.splits option.splits sum.splits)

text \<open>Closing rows, and the loop over them, do nothing to the connection but close it.\<close>

lemma Rows_Close_conn: "Rows_Close c b = (c1, b1) \<Longrightarrow> c1 = c \<or> conn_closed c1"
  by (auto simp: Rows_Close_def release_def split: list.splits if_splits)

lemma Drop_scan_conn:
  "Drop_scan rs ns c b = (r, c1, b1) \<Longrightarrow> c1 = c \<or> conn_closed c1"
proof (induction rs arbitrary: ns b)
  case Nil
  then show ?case
    by (auto split: prod.splits dest!: Rows_Close_conn)
next
  case (Cons x rs)
  then show ?case
    by (auto split: prod.splits bool.splits sum.splits if_splits dest!: Rows_Close_conn)
qed

text \<open>
  A schedule of faults without \<^verbatim>\<open>driver.ErrBadConn\<close> stays without it, and then no
  call closes the connection.
\<close>

lemma respond_clean:
  "respond q b = (e, b1) \<Longrightarrow> Some ErrBadConn \<notin> set (faults b) \<Longrightarrow>
     e \<noteq> Some ErrBadConn \<and> Some ErrBadConn \<notin> set (faults b1) \<and> report b1 = report b \<and>
     tables b1 = tables b"
  by (auto simp: respond_def split: list.splits)

lemma Rows_Next_clean:
  "Rows_Next b = (x, b1) \<Longrightarrow> Some ErrBadConn \<notin> set (faults b) \<Longrightarrow>
     Some ErrBadConn \<notin> set (faults b1) \<and> report b1 = report b"
  by (auto simp: Rows_Next_def split: list.splits option.splits)

lemma Rows_Close_clean:
  "Rows_Close c b = (c1, b1) \<Longrightarrow> Some ErrBadConn \<notin> set (faults b) \<Longrightarrow>
     c1 = c \<and> Some ErrBadConn \<notin> set (faults b1) \<and> report b1 = report b"
  by (auto simp: Rows_Close_def release_def split: list.splits)

lemma Drop_scan_clean:
  "Drop_scan rs ns c b = (r, c1, b1) \<Longrightarrow> Some ErrBadConn \<notin> set (faults b) \<Longrightarrow>
     c1 = c \<and> Some ErrBadConn \<notin> set (faults b1) \<and> report b1 = report b"
proof (induction rs arbitrary: ns b)
  case Nil
  then show ?case
    by (auto split: prod.splits dest!: Rows_Close_clean)
next
  case (Cons x rs)
  obtain y b2 where n: "Rows_Next b = (y, b2)"
    by (metis prod.collapse)
  note n1 = Rows_Next_clean [OF n Cons.prems(2)]
  obtain c3 b3 where cl: "Rows_Close c b2 = (c3, b3)"
    by (metis prod.collapse)
  note k = Rows_Close_clean [OF cl conjunct1 [OF n1]]
  show ?case
  proof (cases y)
    case False
    with Cons.prems(1) n cl n1 k show ?thesis by auto
  next
    case True
    show ?thesis
    proof (cases "Rows_Scan x")
      case (Inl err)
      with Cons.prems(1) n cl n1 k True show ?thesis by auto
    next
      case (Inr name)
      with Cons.prems(1) n True
      have "Drop_scan rs (if 0 < length name then ns @ [name] else ns) c b2 = (r, c1, b1)"
        by simp
      from Cons.IH [OF this conjunct1 [OF n1]] n1 show ?thesis by simp
    qed
  qed
qed

lemma Conn_QueryContext_clean:
  "Conn_QueryContext c q cat b = (r, c1, b1) \<Longrightarrow> Some ErrBadConn \<notin> set (faults b) \<Longrightarrow>
     c1 = c \<and> Some ErrBadConn \<notin> set (faults b1) \<and> report b1 = report b"
  by (auto simp: Conn_QueryContext_def release_def
      split: if_splits prod.splits option.splits sum.splits dest!: respond_clean)

lemma Conn_ExecContext_clean_InstallProcedure:
  "Conn_ExecContext c q InstallProcedure b = (e, c1, b1) \<Longrightarrow>
   Some ErrBadConn \<notin> set (faults b) \<Longrightarrow>
     c1 = c \<and> Some ErrBadConn \<notin> set (faults b1) \<and> report b1 = report b"
  by (auto simp: Conn_ExecContext_def release_def
      split: if_splits prod.splits option.splits dest!: respond_clean)

lemma Conn_ExecContext_clean_DropIfExists:
  "Conn_ExecContext c q (DropIfExists t) b = (e, c1, b1) \<Longrightarrow>
   Some ErrBadConn \<notin> set (faults b) \<Longrightarrow>
     c1 = c \<and> Some ErrBadConn \<notin> set (faults b1) \<and> report b1 = report b"
  by (auto simp: Conn_ExecContext_def release_def
      split: if_splits prod.splits option.splits dest!: respond_clean)

lemma Conn_ExecContext_clean_DropIfSchemaNonEmpty:
  "Conn_ExecContext c q (DropIfSchemaNonEmpty t) b = (e, c1, b1) \<Longrightarrow>
   Some ErrBadConn \<notin> set (faults b) \<Longrightarrow> report b NoSuchTable \<noteq> ErrBadConn \<Longrightarrow>
     c1 = c \<and> Some ErrBadConn \<notin> set (faults b1) \<and> report b1 = report b"
  by (auto simp: Conn_ExecContext_def release_def
      split: if_splits prod.splits option.splits dest!: respond_clean)

text \<open>A call on the connection that ends with \<^verbatim>\<open>driver.ErrBadConn\<close> leaves it closed.\<close>

lemma Conn_ExecContext_bad:
  "Conn_ExecContext c q eff b = (Some ErrBadConn, c1, b1) \<Longrightarrow> conn_closed c1"
  by (auto simp: Conn_ExecContext_def release_def split: if_splits prod.splits option.splits)

lemma Conn_QueryContext_bad:
  "Conn_QueryContext c q cat b = (Inl ErrBadConn, c1, b1) \<Longrightarrow> conn_closed c1"
  by (auto simp: Conn_QueryContext_def release_def
      split: if_splits prod.splits option.splits sum.splits)

lemma Rows_Scan_Inl: "Rows_Scan r = Inl err \<Longrightarrow> Err_of err = None"
  by (auto simp: Rows_Scan_def split: option.splits)

lemma Drop_scan_Inl: "Drop_scan rs ns c b = (Inl err, c1, b1) \<Longrightarrow> Err_of err = None"
proof (induction rs arbitrary: ns b)
  case Nil
  then show ?case by (auto split: prod.splits)
next
  case (Cons x rs)
  then show ?case
    by (auto split: prod.splits bool.splits sum.splits if_splits dest!: Rows_Scan_Inl)
qed

lemma Conn_BeginTx_Inr:
  "Conn_BeginTx c b = (Inr tx, c1, b1) \<Longrightarrow>
     \<not> conn_closed c \<and> c1 = c \<and> tx_conn tx = c \<and> undo b1 = Some (tables b) \<and>
     tables b1 = tables b \<and> issued b1 = issued b @ [''BEGIN''] \<and>
     ddl_commits b1 = ddl_commits b"
  by (auto simp: Conn_BeginTx_def split: if_splits prod.splits option.splits
      dest!: respond_frame)

lemma Conn_BeginTx_Inl: "Conn_BeginTx c b = (Inl e, c1, b1) \<Longrightarrow> tables b1 = tables b"
  by (auto simp: Conn_BeginTx_def split: if_splits prod.splits option.splits
      dest!: respond_frame)

lemma Tx_Exec_ClearTable_Some:
  "Tx_Exec tx q (ClearTable t) b = (Some e, b1) \<Longrightarrow>
     tables b1 = tables b \<and> (undo b1 = undo b \<or> undo b1 = Some (tables b))"
  by (auto simp: Tx_Exec_def split: if_splits prod.splits option.splits dest!: respond_frame)

lemma Tx_Exec_ClearTable:
  "Tx_Exec tx q (ClearTable t) b = (None, b1) \<Longrightarrow>
     map_of (tables b) t \<noteq> None \<and> tables b1 = AList.update t [] (tables b) \<and>
     issued b1 = issued b @ [q] \<and>
     undo b1 = (if ddl_commits b then Some (tables b1) else undo b) \<and>
     ddl_commits b1 = ddl_commits b"
  by (auto simp: Tx_Exec_def split: if_splits prod.splits option.splits dest!: respond_frame)

lemma Tx_Exec_AddRow_Some:
  "Tx_Exec tx q (AddRow t v d) b = (Some e, b1) \<Longrightarrow>
     tables b1 = tables b \<and> undo b1 = undo b"
  by (auto simp: Tx_Exec_def split: if_splits prod.splits option.splits dest!: respond_frame)

lemma Tx_Exec_AddRow:
  "Tx_Exec tx q (AddRow t v d) b = (None, b1) \<Longrightarrow>
     (\<exists>rs. map_of (tables b) t = Some rs \<and>
           tables b1 = AList.update t (rs @ [(v, d)]) (tables b)) \<and>
     issued b1 = issued b @ [q] \<and> undo b1 = undo b"
  by (auto simp: Tx_Exec_def split: if_splits prod.splits option.splits dest!: respond_frame)

lemma Tx_Rollback_result:
  "Tx_Rollback tx b = (e, c1, b1) \<Longrightarrow>
     tables b1 = (case undo b of None \<Rightarrow> tables b | Some ts \<Rightarrow> ts) \<and>
     last (issued b1) = ''ROLLBACK''"
  by (auto simp: Tx_Rollback_def rolled_back_def split: prod.splits option.splits
      dest!: respond_frame)

lemma Tx_Commit_Some:
  "Tx_Commit tx b = (Some e, c1, b1) \<Longrightarrow>
     tables b1 = (case undo b of None \<Rightarrow> tables b | Some ts \<Rightarrow> ts)"
  by (auto simp: Tx_Commit_def rolled_back_def split: prod.splits option.splits
      dest!: respond_frame)

lemma Tx_Commit_None:
  "Tx_Commit tx b = (None, c1, b1) \<Longrightarrow>
     c1 = tx_conn tx \<and> tables b1 = tables b \<and> issued b1 = issued b @ [''COMMIT'']"
  by (auto simp: Tx_Commit_def split: prod.splits option.splits dest!: respond_frame)

lemma rows_of_tables: "tables b1 = tables b \<Longrightarrow> rows_of b1 t = rows_of b t"
  by (simp add: rows_of_def)

lemma rows_of_update: "rows_of (b\<lparr>tables := AList.update t rs (tables b)\<rparr>) t = rs"
  by (simp add: rows_of_def update_conv')

lemma DB_Ping_frame:
  "DB_Ping i b = (e, b1) \<Longrightarrow> db_name b1 = db_name b \<and> schema_name b1 = schema_name b"
  by (auto simp: DB_Ping_def split: if_splits dest!: respond_frame)

lemma DB_QueryRow_Scan_Inr:
  "DB_QueryRow_Scan i q what b = (Inr n, b1) \<Longrightarrow>
     n = (case what of CurrentDatabase \<Rightarrow> db_name b | CurrentSchema \<Rightarrow> schema_name b) \<and>
     db_name b1 = db_name b \<and> schema_name b1 = schema_name b"
  by (cases what)
    (auto simp: DB_QueryRow_Scan_def split: if_splits prod.splits option.splits
      dest!: respond_frame)

section \<open>Facts about the Oracle driver\<close>

lemma Oracle_insert_Some:
  "Oracle_SetVersion_insert ora tx v d b = (Some e, c, b1) \<Longrightarrow>
     tables b1 = (case undo b of None \<Rightarrow> tables b | Some ts \<Rightarrow> ts) \<and>
     last (issued b1) = ''ROLLBACK'' \<and> 0 \<le> v \<and>
     (\<exists>err. e = DatabaseError (Some err) [] (Oracle_insert_query ora v d))"
  by (auto simp: Oracle_SetVersion_insert_def Let_def
      split: if_splits prod.splits option.splits
      dest!: Tx_Exec_AddRow_Some Tx_Rollback_result)

lemma Oracle_insert_None:
  "Oracle_SetVersion_insert ora tx v d b = (None, c, b1) \<Longrightarrow>
     c = tx_conn tx \<and>
     (if 0 \<le> v then
        (\<exists>rs. map_of (tables b) (MigrationsTable (config ora)) = Some rs \<and>
              tables b1 = AList.update (MigrationsTable (config ora))
                            (rs @ [(v, sint (b2i d))]) (tables b)) \<and>
        issued b1 = issued b @ [Oracle_insert_query ora v d] \<and> undo b1 = undo b
      else b1 = b)"
  by (auto simp: Oracle_SetVersion_insert_def Let_def
      split: if_splits prod.splits option.splits dest!: Tx_Exec_AddRow)

lemma Oracle_SetVersion_frame:
  "config (fst (snd (Oracle_SetVersion ora v d b))) = config ora \<and>
   isLocked (fst (snd (Oracle_SetVersion ora v d b))) = isLocked ora \<and>
   db (fst (snd (Oracle_SetVersion ora v d b))) = db ora"
  by (simp add: Oracle_SetVersion_def Let_def split: prod.splits sum.splits option.splits)

lemma Oracle_SetVersion_driver:
  "Oracle_SetVersion ora v d b = (None, ora1, b1) \<Longrightarrow> ora1 = ora"
  by (auto simp: Oracle_SetVersion_def Let_def
      split: prod.splits sum.splits option.splits
      dest!: Conn_BeginTx_Inr Oracle_insert_None Tx_Commit_None)

lemma Oracle_SetVersion_error:
  assumes "Oracle_SetVersion ora v d b = (Some e, ora1, b1)"
  shows "tables b1 = tables b \<or>
         (ddl_commits b \<and> map_of (tables b) (MigrationsTable (config ora)) \<noteq> None \<and>
          tables b1 = AList.update (MigrationsTable (config ora)) [] (tables b))"
  using assms
  by (auto simp: Oracle_SetVersion_def Let_def
      split: prod.splits sum.splits option.splits if_splits
      dest!: Conn_BeginTx_Inl Conn_BeginTx_Inr Tx_Exec_ClearTable_Some Tx_Exec_ClearTable
        Oracle_insert_Some Oracle_insert_None Tx_Commit_Some Tx_Rollback_result)

lemma Oracle_SetVersion_rolled_back:
  assumes "Oracle_SetVersion ora v d b = (Some e, ora1, b1)" "Err_of e = Some []"
  shows "last (issued b1) = ''ROLLBACK''"
  using assms
  by (auto simp: Oracle_SetVersion_def Let_def
      split: prod.splits sum.splits option.splits
      dest!: Oracle_insert_Some Tx_Rollback_result)

lemma Oracle_SetVersion_success:
  assumes "Oracle_SetVersion ora v d b = (None, ora1, b1)"
  shows "rows_of b1 (MigrationsTable (config ora)) =
           (if 0 \<le> v then [(v, sint (b2i d))] else [])"
    and "issued b1 = issued b @ [''BEGIN'', Oracle_truncate_query ora]
           @ (if 0 \<le> v then [Oracle_insert_query ora v d] else []) @ [''COMMIT'']"
    and "\<not> conn_closed (conn ora)"
  using assms
  by (auto simp: Oracle_SetVersion_def Let_def rows_of_def update_conv'
      split: prod.splits sum.splits option.splits if_splits
      dest!: Conn_BeginTx_Inr Tx_Exec_ClearTable Oracle_insert_None Tx_Commit_None)

lemma Oracle_SetVersion_healthy:
  assumes "healthy ora b"
  shows "fst (Oracle_SetVersion ora v d b) = None"
    and "healthy ora (snd (snd (Oracle_SetVersion ora v d b)))"
  using assms
  by (auto simp: healthy_def Oracle_SetVersion_def Oracle_SetVersion_insert_def Let_def
        Conn_BeginTx_def Tx_Exec_def Tx_Commit_def respond_nofault update_conv'
      split: option.splits)

text \<open>What the failure of each of the two statements of \<^verbatim>\<open>SetVersion\<close> leads to.\<close>

lemma Oracle_SetVersion_truncate_fails:
  assumes "Conn_BeginTx (conn ora) b = (Inr tx, c1, b1)"
    "fst (Tx_Exec tx (Oracle_truncate_query ora) (ClearTable (MigrationsTable (config ora))) b1)
       = Some err"
  shows "fst (Oracle_SetVersion ora v d b) =
           Some (DatabaseError (Some err) [] (Oracle_truncate_query ora)) \<and>
         tables (snd (snd (Oracle_SetVersion ora v d b))) = tables b \<and>
         last (issued (snd (snd (Oracle_SetVersion ora v d b)))) = ''ROLLBACK''"
proof -
  obtain b2 where x: "Tx_Exec tx (Oracle_truncate_query ora)
      (ClearTable (MigrationsTable (config ora))) b1 = (Some err, b2)"
    using assms(2) by (metis prod.collapse)
  obtain e c2 b3 where r: "Tx_Rollback tx b2 = (e, c2, b3)"
    by (metis prod.collapse)
  from Conn_BeginTx_Inr [OF assms(1)] Tx_Exec_ClearTable_Some [OF x] Tx_Rollback_result [OF r]
  have "tables b3 = tables b" "last (issued b3) = ''ROLLBACK''"
    by auto
  with assms(1) x r show ?thesis
    by (simp add: Oracle_SetVersion_def Let_def)
qed

lemma Oracle_SetVersion_insert_fails:
  assumes "Conn_BeginTx (conn ora) b = (Inr tx, c1, b1)"
    "Tx_Exec tx (Oracle_truncate_query ora) (ClearTable (MigrationsTable (config ora))) b1
       = (None, b2)"
    "0 \<le> v"
    "fst (Tx_Exec tx (Oracle_insert_query ora v d)
            (AddRow (MigrationsTable (config ora)) v (sint (b2i d))) b2) = Some err"
  shows "fst (Oracle_SetVersion ora v d b) =
           Some (DatabaseError (Some err) [] (Oracle_insert_query ora v d)) \<and>
         tables (snd (snd (Oracle_SetVersion ora v d b))) =
           (if ddl_commits b
            then AList.update (MigrationsTable (config ora)) [] (tables b)
            else tables b) \<and>
         last (issued (snd (snd (Oracle_SetVersion ora v d b)))) = ''ROLLBACK''"
proof -
  obtain b3 where x: "Tx_Exec tx (Oracle_insert_query ora v d)
      (AddRow (MigrationsTable (config ora)) v (sint (b2i d))) b2 = (Some err, b3)"
    using assms(4) by (metis prod.collapse)
  obtain e c2 b4 where r: "Tx_Rollback tx b3 = (e, c2, b4)"
    by (metis prod.collapse)
  from Conn_BeginTx_Inr [OF assms(1)] Tx_Exec_ClearTable [OF assms(2)]
    Tx_Exec_AddRow_Some [OF x] Tx_Rollback_result [OF r]
  have "tables b4 = (if ddl_commits b
            then AList.update (MigrationsTable (config ora)) [] (tables b)
            else tables b)" "last (issued b4) = ''ROLLBACK''"
    by auto
  with assms(1,2,3) x r show ?thesis
    by (simp add: Oracle_SetVersion_def Oracle_SetVersion_insert_def Let_def)
qed

lemma Oracle_Version_row:
  assumes "\<not> conn_closed (conn ora)" "next_ok b"
    "rows_of b (MigrationsTable (config ora)) = (v, sint (b2i d)) # rs"
  shows "fst (Oracle_Version pkg ora b) = (v, d, None)"
proof -
  obtain b1 where r: "respond (Oracle_Version_query ora) b = (None, b1)"
    using respond_ok [OF assms(2)] by (metis prod.collapse)
  from respond_frame [OF r] assms(3)
  have "map_of (tables b1) (MigrationsTable (config ora)) = Some ((v, sint (b2i d)) # rs)"
    by (auto simp: rows_of_def split: option.splits)
  with r assms(1) show ?thesis
    by (simp add: Oracle_Version_def Conn_QueryRowContext_Scan_def Let_def sint_b2i)
qed

lemma Oracle_Version_no_row:
  assumes "\<not> conn_closed (conn ora)" "next_ok b"
    "map_of (tables b) (MigrationsTable (config ora)) = Some []"
  shows "fst (Oracle_Version pkg ora b) = (NilVersion pkg, False, None)"
proof -
  obtain b1 where r: "respond (Oracle_Version_query ora) b = (None, b1)"
    using respond_ok [OF assms(2)] by (metis prod.collapse)
  from respond_frame [OF r] assms(3)
  have "map_of (tables b1) (MigrationsTable (config ora)) = Some []"
    by simp
  with r assms(1) show ?thesis
    by (simp add: Oracle_Version_def Conn_QueryRowContext_Scan_def Let_def)
qed

lemma Oracle_Version_outcome:
  assumes "Conn_QueryRowContext_Scan (conn ora) (Oracle_Version_query ora)
             (MigrationsTable (config ora)) b = (r, c1, b1)"
  shows "Oracle_Version pkg ora b =
           ((case r of
               Inr (v, d) \<Rightarrow> (v, d, None)
             | Inl e \<Rightarrow>
                 if e = ErrNoRows \<or> as_OraErr e \<noteq> None then (NilVersion pkg, False, None)
                 else (0, False, Some (DatabaseError (Some e) [] (Oracle_Version_query ora)))),
            ora\<lparr>conn := c1\<rparr>, b1)"
  using assms
  by (auto simp: Oracle_Version_def Let_def split: sum.splits option.splits)

lemma Oracle_Version_fst:
  assumes "fst (Conn_QueryRowContext_Scan (conn ora) (Oracle_Version_query ora)
             (MigrationsTable (config ora)) b) = Inl e"
  shows "fst (Oracle_Version pkg ora b) =
           (if e = ErrNoRows \<or> as_OraErr e \<noteq> None then (NilVersion pkg, False, None)
            else (0, False, Some (DatabaseError (Some e) [] (Oracle_Version_query ora))))"
proof -
  obtain r c1 b1 where x: "Conn_QueryRowContext_Scan (conn ora) (Oracle_Version_query ora)
      (MigrationsTable (config ora)) b = (r, c1, b1)"
    by (metis prod.collapse)
  with assms have "r = Inl e" by simp
  with Oracle_Version_outcome [OF x, of pkg] show ?thesis by simp
qed

lemma Oracle_round_trip:
  assumes "Oracle_SetVersion ora v d b = (None, ora1, b1)" "0 \<le> v" "next_ok b1"
  shows "fst (Oracle_Version pkg ora1 b1) = (v, d, None)"
proof -
  have "ora1 = ora" using Oracle_SetVersion_driver [OF assms(1)] .
  moreover have "rows_of b1 (MigrationsTable (config ora)) = [(v, sint (b2i d))]"
    using Oracle_SetVersion_success(1) [OF assms(1)] assms(2) by simp
  moreover have "\<not> conn_closed (conn ora)"
    using Oracle_SetVersion_success(3) [OF assms(1)] .
  ultimately show ?thesis
    using Oracle_Version_row [of ora b1 v d "[]"] assms(3) by simp
qed

lemma Oracle_calls_1:
  assumes "healthy ora b" "0 \<le> v"
  shows "case Oracle_SetVersion_calls ora [(v, d)] b of
           (es, b1) \<Rightarrow> es = [None] \<and> fst (Oracle_Version pkg ora b1) = (v, d, None)"
proof -
  obtain e ora1 b1 where s: "Oracle_SetVersion ora v d b = (e, ora1, b1)"
    by (metis prod.collapse)
  have e: "e = None" using Oracle_SetVersion_healthy(1) [OF assms(1), of v d] s by simp
  have o: "ora1 = ora" using Oracle_SetVersion_driver [of ora v d b ora1 b1] s e by simp
  have "next_ok b1"
    using Oracle_SetVersion_healthy(2) [OF assms(1), of v d] s healthy_next_ok by fastforce
  then have "fst (Oracle_Version pkg ora b1) = (v, d, None)"
    using Oracle_round_trip [of ora v d b ora1 b1 pkg] s e o assms(2) by simp
  then show ?thesis using s e by simp
qed

lemma Oracle_calls_2:
  assumes "healthy ora b" "0 \<le> v2"
  shows "case Oracle_SetVersion_calls ora [(v1, d1), (v2, d2)] b of
           (es, b2) \<Rightarrow> es = [None, None] \<and> fst (Oracle_Version pkg ora b2) = (v2, d2, None)"
proof -
  obtain e ora1 b1 where s: "Oracle_SetVersion ora v1 d1 b = (e, ora1, b1)"
    by (metis prod.collapse)
  have e: "e = None" using Oracle_SetVersion_healthy(1) [OF assms(1), of v1 d1] s by simp
  have o: "ora1 = ora" using Oracle_SetVersion_driver [of ora v1 d1 b ora1 b1] s e by simp
  have h: "healthy ora b1" using Oracle_SetVersion_healthy(2) [OF assms(1), of v1 d1] s by simp
  from Oracle_calls_1 [OF h assms(2), where d = d2 and pkg = pkg] s e o show ?thesis
    by (simp split: prod.splits)
qed

lemma Oracle_SetVersion_rows:
  assumes "Oracle_SetVersion ora v d b = (e, ora1, b1)"
    "length (rows_of b (MigrationsTable (config ora))) \<le> 1"
  shows "length (rows_of b1 (MigrationsTable (config ora))) \<le> 1"
proof (cases e)
  case None
  with Oracle_SetVersion_success(1) [of ora v d b ora1 b1] assms(1) show ?thesis by simp
next
  case (Some err)
  with Oracle_SetVersion_error [of ora v d b err ora1 b1] assms show ?thesis
    by (auto simp: rows_of_def update_conv')
qed

lemma Oracle_calls_rows:
  "length (rows_of b (MigrationsTable (config ora))) \<le> 1 \<Longrightarrow>
     length (rows_of (snd (Oracle_SetVersion_calls ora cs b)) (MigrationsTable (config ora))) \<le> 1"
proof (induction cs arbitrary: ora b)
  case Nil
  then show ?case by simp
next
  case (Cons c cs)
  obtain v d where c: "c = (v, d)" by (cases c)
  obtain e ora1 b1 where s: "Oracle_SetVersion ora v d b = (e, ora1, b1)"
    by (metis prod.collapse)
  have o: "config ora1 = config ora" using Oracle_SetVersion_frame [of ora v d b] s by simp
  have "length (rows_of b1 (MigrationsTable (config ora1))) \<le> 1"
    using Oracle_SetVersion_rows [OF s Cons.prems] o by simp
  from Cons.IH [OF this] c s o show ?case by (auto split: prod.splits)
qed

lemma Oracle_Lock_frame:
  "Oracle_Lock pkg ora b = (e, ora1, b1) \<Longrightarrow>
     b1 = b \<and> config ora1 = config ora \<and> conn ora1 = conn ora \<and> db ora1 = db ora"
  by (auto simp: Oracle_Lock_def split: if_splits sum.splits)

lemma Oracle_Unlock_frame:
  "Oracle_Unlock pkg ora b = (e, ora1, b1) \<Longrightarrow>
     b1 = b \<and> config ora1 = config ora \<and> conn ora1 = conn ora \<and> db ora1 = db ora"
  by (auto simp: Oracle_Unlock_def split: if_splits sum.splits)

lemma Oracle_ensureVersionTable_body_frame:
  "Oracle_ensureVersionTable_body ora b = (e, ora1, b1) \<Longrightarrow>
     config ora1 = config ora \<and> db ora1 = db ora"
  by (auto simp: Oracle_ensureVersionTable_body_def Let_def split: prod.splits option.splits)

lemma Oracle_ensureVersionTable_frame:
  "Oracle_ensureVersionTable pkg ora b = (e, ora1, b1) \<Longrightarrow>
     config ora1 = config ora \<and> db ora1 = db ora"
  by (auto simp: Oracle_ensureVersionTable_def
      split: prod.splits option.splits
      dest!: Oracle_Lock_frame Oracle_Unlock_frame Oracle_ensureVersionTable_body_frame)

lemma Oracle_Run_read_error:
  "read_error migration = Some err \<Longrightarrow> Oracle_Run ora migration b = (Some err, ora, b)"
  by (simp add: Oracle_Run_def ReadAll_def)

lemma Oracle_Run_exec:
  assumes "read_error migration = None"
  shows "fst (Oracle_Run ora migration b) =
           (case fst (Conn_ExecContext (conn ora) (content migration) Script b) of
              None \<Rightarrow> None
            | Some err \<Rightarrow>
                Some (DatabaseError (Some err)
                        (case as_OraErr err of Some m \<Rightarrow> m | None \<Rightarrow> ''migration failed'')
                        (content migration)))"
  using assms
  by (auto simp: Oracle_Run_def ReadAll_def Let_def split: prod.splits option.splits)

lemma Oracle_Run_exec_error:
  assumes "read_error migration = None" "fst (Oracle_Run ora migration b) = Some e"
  shows "\<exists>orig. e = DatabaseError (Some orig)
                     (case as_OraErr orig of Some m \<Rightarrow> m | None \<Rightarrow> ''migration failed'')
                     (content migration)"
  using assms
  by (auto simp: Oracle_Run_def ReadAll_def Let_def split: prod.splits option.splits)

lemma Oracle_Drop_loop_frame:
  "Oracle_Drop_loop ora ts b = (e, ora1, b1) \<Longrightarrow>
     isLocked ora1 = isLocked ora \<and> db ora1 = db ora \<and> config ora1 = config ora \<and>
     (conn ora1 = conn ora \<or> conn_closed (conn ora1))"
proof (induction ts arbitrary: ora b)
  case Nil
  then show ?case by simp
next
  case (Cons t ts)
  obtain x c1 b2 where c: "Conn_ExecContext (conn ora) (''BEGIN proc_dropifexists('' @ [squote] @ t @ [squote] @ ''); END;'') (DropIfSchemaNonEmpty t) b = (x, c1, b2)"
    by (metis prod.collapse)
  show ?case
  proof (cases x)
    case None
    with Conn_ExecContext_conn [OF c] have "c1 = conn ora" by simp
    with Cons.prems c None Cons.IH [of "ora\<lparr>conn := c1\<rparr>" b2] show ?thesis
      by (simp add: Let_def)
  next
    case (Some err)
    with Cons.prems c Conn_ExecContext_conn [OF c] show ?thesis
      by (auto simp: Let_def)
  qed
qed

lemma Oracle_Drop_loop_clean:
  "Oracle_Drop_loop ora ts b = (e, ora1, b1) \<Longrightarrow> Some ErrBadConn \<notin> set (faults b) \<Longrightarrow>
   report b NoSuchTable \<noteq> ErrBadConn \<Longrightarrow>
   conn ora1 = conn ora"
proof (induction ts arbitrary: ora b)
  case Nil
  then show ?case by simp
next
  case (Cons t ts)
  obtain x c1 b2 where c: "Conn_ExecContext (conn ora) (''BEGIN proc_dropifexists('' @ [squote] @ t @ [squote] @ ''); END;'') (DropIfSchemaNonEmpty t) b = (x, c1, b2)"
    by (metis prod.collapse)
  note k = Conn_ExecContext_clean_DropIfSchemaNonEmpty [OF c Cons.prems(2-)]
  show ?case
  proof (cases x)
    case None
    with Cons.prems(1) c have "Oracle_Drop_loop (ora\<lparr>conn := c1\<rparr>) ts b2 = (e, ora1, b1)"
      by (simp add: Let_def)
    from Cons.IH [OF this] k Cons.prems(2-) show ?thesis by simp
  next
    case (Some err)
    with Cons.prems(1) c k show ?thesis
      by (auto simp: Let_def)
  qed
qed

lemma Oracle_Drop_loop_bad:
  "Oracle_Drop_loop ora ts b = (Some (DatabaseError (Some ErrBadConn) t q), ora1, b1) \<Longrightarrow>
     conn_closed (conn ora1)"
proof (induction ts arbitrary: ora b)
  case Nil
  then show ?case by simp
next
  case (Cons u ts)
  obtain x c1 b2 where c: "Conn_ExecContext (conn ora) (''BEGIN proc_dropifexists('' @ [squote] @ u @ [squote] @ ''); END;'') (DropIfSchemaNonEmpty u) b = (x, c1, b2)"
    by (metis prod.collapse)
  show ?case
  proof (cases x)
    case None
    with Cons.prems c
    have "Oracle_Drop_loop (ora\<lparr>conn := c1\<rparr>) ts b2 =
            (Some (DatabaseError (Some ErrBadConn) t q), ora1, b1)"
      by (simp add: Let_def)
    from Cons.IH [OF this] show ?thesis .
  next
    case (Some err)
    with Cons.prems c have "err = ErrBadConn" "conn ora1 = c1"
      by (auto simp: Let_def)
    with c Some Conn_ExecContext_bad show ?thesis by blast
  qed
qed

lemma Oracle_Drop_frame:
  "Oracle_Drop ora b = (e, ora1, b1) \<Longrightarrow>
     isLocked ora1 = isLocked ora \<and> db ora1 = db ora \<and> config ora1 = config ora \<and>
     (conn ora1 = conn ora \<or> conn_closed (conn ora1))"
  by (auto simp: Oracle_Drop_def Let_def
      split: prod.splits sum.splits option.splits if_splits
      dest!: Conn_QueryContext_conn Conn_ExecContext_conn Drop_scan_conn Oracle_Drop_loop_frame)

lemma Oracle_Drop_clean:
  assumes "Oracle_Drop ora b = (e, ora1, b1)" "Some ErrBadConn \<notin> set (faults b)"
    "report b NoSuchTable \<noteq> ErrBadConn"
  shows "conn ora1 = conn ora"
proof -
  obtain r c1 b2 where q: "Conn_QueryContext (conn ora) (''SELECT TABLE_NAME FROM USER_TABLES'') (None) b = (r, c1, b2)"
    by (metis prod.collapse)
  note k1 = Conn_QueryContext_clean [OF q assms(2)]
  show ?thesis
  proof (cases r)
    case (Inl err)
    with assms(1) q k1 show ?thesis
      by (auto simp: Oracle_Drop_def Let_def)
  next
    case (Inr rows)
    obtain s c2 b3 where sc: "Drop_scan rows [] c1 b2 = (s, c2, b3)"
      by (metis prod.collapse)
    note k2 = Drop_scan_clean [OF sc conjunct1 [OF conjunct2 [OF k1]]]
    show ?thesis
    proof (cases s)
      case (Inl err)
      with assms(1) q Inr sc k1 k2 show ?thesis
        by (auto simp: Oracle_Drop_def Let_def)
    next
      case (Inr names)
      obtain x c3 b4 where ex: "Conn_ExecContext c2 proc_dropifexists InstallProcedure b3 = (x, c3, b4)"
        by (metis prod.collapse)
      note k3 = Conn_ExecContext_clean_InstallProcedure [OF ex conjunct1 [OF conjunct2 [OF k2]]]
      show ?thesis
      proof (cases x)
        case None
        show ?thesis
        proof (cases "0 < length names")
          case True
          with assms(1) q \<open>r = Inr rows\<close> sc Inr ex None
          have l: "Oracle_Drop_loop (ora\<lparr>conn := c3\<rparr>) names b4 = (e, ora1, b1)"
            by (simp add: Oracle_Drop_def Let_def)
          from k1 k2 k3 assms(3) have "report b4 NoSuchTable \<noteq> ErrBadConn" by simp
          from Oracle_Drop_loop_clean [OF l conjunct1 [OF conjunct2 [OF k3]] this] k1 k2 k3
          show ?thesis by simp
        next
          case False
          with assms(1) q \<open>r = Inr rows\<close> sc Inr ex None k1 k2 k3 show ?thesis
            by (auto simp: Oracle_Drop_def Let_def)
        qed
      next
        case (Some err)
        with assms(1) q \<open>r = Inr rows\<close> sc Inr ex k1 k2 k3 show ?thesis
          by (auto simp: Oracle_Drop_def Let_def)
      qed
    qed
  qed
qed

lemma Oracle_Drop_bad:
  assumes "Oracle_Drop ora b = (Some (DatabaseError (Some ErrBadConn) t q), ora1, b1)"
  shows "conn_closed (conn ora1)"
proof -
  obtain r c1 b2 where qu: "Conn_QueryContext (conn ora) (''SELECT TABLE_NAME FROM USER_TABLES'') (None) b = (r, c1, b2)"
    by (metis prod.collapse)
  show ?thesis
  proof (cases r)
    case (Inl err)
    with assms qu have "err = ErrBadConn" "conn ora1 = c1"
      by (auto simp: Oracle_Drop_def Let_def)
    with qu Inl Conn_QueryContext_bad show ?thesis by blast
  next
    case (Inr rows)
    obtain s c2 b3 where sc: "Drop_scan rows [] c1 b2 = (s, c2, b3)"
      by (metis prod.collapse)
    show ?thesis
    proof (cases s)
      case (Inl err)
      with assms qu Inr sc have "err = DatabaseError (Some ErrBadConn) t q"
        by (auto simp: Oracle_Drop_def Let_def)
      moreover have "Err_of err = None"
        using sc Inl Drop_scan_Inl by blast
      ultimately show ?thesis by simp
    next
      case (Inr names)
      obtain x c3 b4 where ex: "Conn_ExecContext c2 proc_dropifexists InstallProcedure b3 = (x, c3, b4)"
        by (metis prod.collapse)
      show ?thesis
      proof (cases x)
        case None
        with assms qu \<open>r = Inr rows\<close> sc Inr ex
        have "Oracle_Drop_loop (ora\<lparr>conn := c3\<rparr>) names b4 =
                (Some (DatabaseError (Some ErrBadConn) t q), ora1, b1)"
          by (auto simp: Oracle_Drop_def Let_def split: if_splits)
        then show ?thesis by (rule Oracle_Drop_loop_bad)
      next
        case (Some err)
        with assms qu \<open>r = Inr rows\<close> sc Inr ex have "err = ErrBadConn" "conn ora1 = c3"
          by (auto simp: Oracle_Drop_def Let_def)
        with ex Some Conn_ExecContext_bad show ?thesis by blast
      qed
    qed
  qed
qed

lemma Oracle_WithInstance_done:
  assumes "fst (Oracle_WithInstance pkg handle (Some cfg) b) = Inr ora"
  shows "SchemaName (config ora) = db_name b \<and> db_name b \<noteq> [] \<and>
         MigrationsTable (config ora) =
           (if MigrationsTable cfg = [] then DefaultMigrationsTable else MigrationsTable cfg) \<and>
         fst (snd (Oracle_WithInstance pkg handle (Some cfg) b)) = Some (config ora)"
  using assms
  by (auto simp: Oracle_WithInstance_def Let_def
      split: option.splits prod.splits sum.splits if_splits
      dest!: DB_Ping_frame DB_QueryRow_Scan_Inr Oracle_ensureVersionTable_frame)

lemma Oracle_WithInstance_no_name:
  assumes "\<not> db_closed handle" "calls_ok 2 b" "db_name b = []"
  shows "fst (Oracle_WithInstance pkg handle (Some cfg) b) = Inl ErrNoSchema"
proof -
  have c: "calls_ok (Suc (Suc 0)) b" using assms(2) by (simp add: numeral_2_eq_2)
  obtain b1 where r1: "respond ''PING'' b = (None, b1)"
    using respond_calls_ok(1) [OF c] by (metis prod.collapse)
  have c1: "calls_ok (Suc 0) b1" using respond_calls_ok(2) [OF c, of "''PING''"] r1 by simp
  obtain b2 where r2: "respond (''select sys_context('' @ [squote] @ ''userenv'' @ [squote] @ '','' @ [squote] @ ''db_name'' @ [squote] @ '') from dual'') b1 = (None, b2)"
    using respond_calls_ok(1) [OF c1] by (metis prod.collapse)
  have "db_name b2 = []" using respond_frame [OF r1] respond_frame [OF r2] assms(3) by simp
  with r1 r2 assms(1) show ?thesis
    by (simp add: Oracle_WithInstance_def DB_Ping_def DB_QueryRow_Scan_def Let_def)
qed

lemma Oracle_Lock_Unlock_cycle:
  assumes "GenerateAdvisoryLockId pkg (SchemaName (config ora)) [] = Inr aid"
  shows "Oracle_Unlock pkg ora b = (None, ora\<lparr>isLocked := False\<rparr>, b)"
    and "Oracle_Lock pkg (ora\<lparr>isLocked := False\<rparr>) b = (None, ora\<lparr>isLocked := True\<rparr>, b)"
    and "Oracle_Lock pkg (ora\<lparr>isLocked := True\<rparr>) b = (Some ErrLocked, ora\<lparr>isLocked := True\<rparr>, b)"
  using assms by (cases ora; simp add: Oracle_Lock_def Oracle_Unlock_def)+

lemma Oracle_Lock_only_flag:
  "\<exists>l. fst (snd (Oracle_Lock pkg ora b)) = ora\<lparr>isLocked := l\<rparr>"
  "\<exists>l. fst (snd (Oracle_Unlock pkg ora b)) = ora\<lparr>isLocked := l\<rparr>"
proof -
  have i: "ora\<lparr>isLocked := isLocked ora\<rparr> = ora" by simp
  show "\<exists>l. fst (snd (Oracle_Lock pkg ora b)) = ora\<lparr>isLocked := l\<rparr>"
    by (cases "isLocked ora"; cases "GenerateAdvisoryLockId pkg (SchemaName (config ora)) []")
      (auto simp: Oracle_Lock_def intro: exI [of _ "isLocked ora"] exI [of _ True])
  show "\<exists>l. fst (snd (Oracle_Unlock pkg ora b)) = ora\<lparr>isLocked := l\<rparr>"
    by (cases "isLocked ora"; cases "GenerateAdvisoryLockId pkg (SchemaName (config ora)) []")
      (auto simp: Oracle_Unlock_def intro: exI [of _ "isLocked ora"] exI [of _ False])
qed

lemma Oracle_round_trip_snd:
  assumes "fst (Oracle_SetVersion ora v d b) = None" "0 \<le> v"
    "next_ok (snd (snd (Oracle_SetVersion ora v d b)))"
  shows "fst (Oracle_Version pkg ora (snd (snd (Oracle_SetVersion ora v d b)))) = (v, d, None)"
proof -
  obtain e ora1 b1 where s: "Oracle_SetVersion ora v d b = (e, ora1, b1)"
    by (metis prod.collapse)
  with assms(1) have n: "Oracle_SetVersion ora v d b = (None, ora1, b1)" by simp
  have o: "ora1 = ora" using Oracle_SetVersion_driver [OF n] .
  from Oracle_round_trip [OF n, of pkg] n o assms show ?thesis by simp
qed

lemma Oracle_SetVersion_success_snd:
  assumes "fst (Oracle_SetVersion ora v d b) = None"
  shows "rows_of (snd (snd (Oracle_SetVersion ora v d b))) (MigrationsTable (config ora)) =
           (if 0 \<le> v then [(v, if d then 1 else 0)] else []) \<and>
         issued (snd (snd (Oracle_SetVersion ora v d b))) =
           issued b @ [''BEGIN'', Oracle_truncate_query ora]
           @ (if 0 \<le> v then [Oracle_insert_query ora v d] else []) @ [''COMMIT'']"
proof -
  obtain e ora1 b1 where s: "Oracle_SetVersion ora v d b = (e, ora1, b1)"
    by (metis prod.collapse)
  with assms have n: "Oracle_SetVersion ora v d b = (None, ora1, b1)" by simp
  from Oracle_SetVersion_success(1,2) [OF n] s show ?thesis by (simp add: sint_b2i)
qed

lemma Oracle_SetVersion_rows_snd:
  assumes "fst (Oracle_SetVersion ora v d b) = None"
  shows "length (rows_of (snd (snd (Oracle_SetVersion ora v d b))) (MigrationsTable (config ora))) \<le> 1"
  using Oracle_SetVersion_success_snd [OF assms] by simp

section \<open>Facts about the MSSQL driver\<close>

lemma Mssql_insert_Some:
  "Mssql_SetVersion_insert ms tx v d b = (Some e, c, b1) \<Longrightarrow>
     tables b1 = (case undo b of None \<Rightarrow> tables b | Some ts \<Rightarrow> ts) \<and>
     last (issued b1) = ''ROLLBACK'' \<and> 0 \<le> v \<and>
     (\<exists>err. e = DatabaseError (Some err) [] (Mssql_insert_query ms v d))"
  by (auto simp: Mssql_SetVersion_insert_def Let_def
      split: if_splits prod.splits option.splits
      dest!: Tx_Exec_AddRow_Some Tx_Rollback_result)

lemma Mssql_insert_None:
  "Mssql_SetVersion_insert ms tx v d b = (None, c, b1) \<Longrightarrow>
     c = tx_conn tx \<and>
     (if 0 \<le> v then
        (\<exists>rs. map_of (tables b) (MigrationsTable (config ms)) = Some rs \<and>
              tables b1 = AList.update (MigrationsTable (config ms))
                            (rs @ [(v, sint (b2i d))]) (tables b)) \<and>
        issued b1 = issued b @ [Mssql_insert_query ms v d] \<and> undo b1 = undo b
      else b1 = b)"
  by (auto simp: Mssql_SetVersion_insert_def Let_def
      split: if_splits prod.splits option.splits dest!: Tx_Exec_AddRow)

lemma Mssql_SetVersion_frame:
  "config (fst (snd (Mssql_SetVersion ms v d b))) = config ms \<and>
   isLocked (fst (snd (Mssql_SetVersion ms v d b))) = isLocked ms \<and>
   db (fst (snd (Mssql_SetVersion ms v d b))) = db ms"
  by (simp add: Mssql_SetVersion_def Let_def split: prod.splits sum.splits option.splits)

lemma Mssql_SetVersion_driver:
  "Mssql_SetVersion ms v d b = (None, ms1, b1) \<Longrightarrow> ms1 = ms"
  by (auto simp: Mssql_SetVersion_def Let_def
      split: prod.splits sum.splits option.splits
      dest!: Conn_BeginTx_Inr Mssql_insert_None Tx_Commit_None)

lemma Mssql_SetVersion_error:
  assumes "Mssql_SetVersion ms v d b = (Some e, ms1, b1)"
  shows "tables b1 = tables b \<or>
         (ddl_commits b \<and> map_of (tables b) (MigrationsTable (config ms)) \<noteq> None \<and>
          tables b1 = AList.update (MigrationsTable (config ms)) [] (tables b))"
  using assms
  by (auto simp: Mssql_SetVersion_def Let_def
      split: prod.splits sum.splits option.splits if_splits
      dest!: Conn_BeginTx_Inl Conn_BeginTx_Inr Tx_Exec_ClearTable_Some Tx_Exec_ClearTable
        Mssql_insert_Some Mssql_insert_None Tx_Commit_Some Tx_Rollback_result)

lemma Mssql_SetVersion_rolled_back:
  assumes "Mssql_SetVersion ms v d b = (Some e, ms1, b1)" "Err_of e = Some []"
  shows "last (issued b1) = ''ROLLBACK''"
  using assms
  by (auto simp: Mssql_SetVersion_def Let_def
      split: prod.splits sum.splits option.splits
      dest!: Mssql_insert_Some Tx_Rollback_result)

lemma Mssql_SetVersion_success:
  assumes "Mssql_SetVersion ms v d b = (None, ms1, b1)"
  shows "rows_of b1 (MigrationsTable (config ms)) =
           (if 0 \<le> v then [(v, sint (b2i d))] else [])"
    and "issued b1 = issued b @ [''BEGIN'', Mssql_truncate_query ms]
           @ (if 0 \<le> v then [Mssql_insert_query ms v d] else []) @ [''COMMIT'']"
    and "\<not> conn_closed (conn ms)"
  using assms
  by (auto simp: Mssql_SetVersion_def Let_def rows_of_def update_conv'
      split: prod.splits sum.splits option.splits if_splits
      dest!: Conn_BeginTx_Inr Tx_Exec_ClearTable Mssql_insert_None Tx_Commit_None)

lemma Mssql_SetVersion_healthy:
  assumes "healthy ms b"
  shows "fst (Mssql_SetVersion ms v d b) = None"
    and "healthy ms (snd (snd (Mssql_SetVersion ms v d b)))"
  using assms
  by (auto simp: healthy_def Mssql_SetVersion_def Mssql_SetVersion_insert_def Let_def
        Conn_BeginTx_def Tx_Exec_def Tx_Commit_def respond_nofault update_conv'
      split: option.splits)

text \<open>What the failure of each of the two statements of \<^verbatim>\<open>SetVersion\<close> leads to.\<close>

lemma Mssql_SetVersion_truncate_fails:
  assumes "Conn_BeginTx (conn ms) b = (Inr tx, c1, b1)"
    "fst (Tx_Exec tx (Mssql_truncate_query ms) (ClearTable (MigrationsTable (config ms))) b1)
       = Some err"
  shows "fst (Mssql_SetVersion ms v d b) =
           Some (DatabaseError (Some err) [] (Mssql_truncate_query ms)) \<and>
         tables (snd (snd (Mssql_SetVersion ms v d b))) = tables b \<and>
         last (issued (snd (snd (Mssql_SetVersion ms v d b)))) = ''ROLLBACK''"
proof -
  obtain b2 where x: "Tx_Exec tx (Mssql_truncate_query ms)
      (ClearTable (MigrationsTable (config ms))) b1 = (Some err, b2)"
    using assms(2) by (metis prod.collapse)
  obtain e c2 b3 where r: "Tx_Rollback tx b2 = (e, c2, b3)"
    by (metis prod.collapse)
  from Conn_BeginTx_Inr [OF assms(1)] Tx_Exec_ClearTable_Some [OF x] Tx_Rollback_result [OF r]
  have "tables b3 = tables b" "last (issued b3) = ''ROLLBACK''"
    by auto
  with assms(1) x r show ?thesis
    by (simp add: Mssql_SetVersion_def Let_def)
qed

lemma Mssql_SetVersion_insert_fails:
  assumes "Conn_BeginTx (conn ms) b = (Inr tx, c1, b1)"
    "Tx_Exec tx (Mssql_truncate_query ms) (ClearTable (MigrationsTable (config ms))) b1
       = (None, b2)"
    "0 \<le> v"
    "fst (Tx_Exec tx (Mssql_insert_query ms v d)
            (AddRow (MigrationsTable (config ms)) v (sint (b2i d))) b2) = Some err"
  shows "fst (Mssql_SetVersion ms v d b) =
           Some (DatabaseError (Some err) [] (Mssql_insert_query ms v d)) \<and>
         tables (snd (snd (Mssql_SetVersion ms v d b))) =
           (if ddl_commits b
            then AList.update (MigrationsTable (config ms)) [] (tables b)
            else tables b) \<and>
         last (issued (snd (snd (Mssql_SetVersion ms v d b)))) = ''ROLLBACK''"
proof -
  obtain b3 where x: "Tx_Exec tx (Mssql_insert_query ms v d)
      (AddRow (MigrationsTable (config ms)) v (sint (b2i d))) b2 = (Some err, b3)"
    using assms(4) by (metis prod.collapse)
  obtain e c2 b4 where r: "Tx_Rollback tx b3 = (e, c2, b4)"
    by (metis prod.collapse)
  from Conn_BeginTx_Inr [OF assms(1)] Tx_Exec_ClearTable [OF assms(2)]
    Tx_Exec_AddRow_Some [OF x] Tx_Rollback_result [OF r]
  have "tables b4 = (if ddl_commits b
            then AList.update (MigrationsTable (config ms)) [] (tables b)
            else tables b)" "last (issued b4) = ''ROLLBACK''"
    by auto
  with assms(1,2,3) x r show ?thesis
    by (simp add: Mssql_SetVersion_def Mssql_SetVersion_insert_def Let_def)
qed

lemma Mssql_Version_row:
  assumes "\<not> conn_closed (conn ms)" "next_ok b"
    "rows_of b (MigrationsTable (config ms)) = (v, sint (b2i d)) # rs"
  shows "fst (Mssql_Version pkg ms b) = (v, d, None)"
proof -
  obtain b1 where r: "respond (Mssql_Version_query ms) b = (None, b1)"
    using respond_ok [OF assms(2)] by (metis prod.collapse)
  from respond_frame [OF r] assms(3)
  have "map_of (tables b1) (MigrationsTable (config ms)) = Some ((v, sint (b2i d)) # rs)"
    by (auto simp: rows_of_def split: option.splits)
  with r assms(1) show ?thesis
    by (simp add: Mssql_Version_def Conn_QueryRowContext_Scan_def Let_def sint_b2i)
qed

lemma Mssql_Version_no_row:
  assumes "\<not> conn_closed (conn ms)" "next_ok b"
    "map_of (tables b) (MigrationsTable (config ms)) = Some []"
  shows "fst (Mssql_Version pkg ms b) = (NilVersion pkg, False, None)"
proof -
  obtain b1 where r: "respond (Mssql_Version_query ms) b = (None, b1)"
    using respond_ok [OF assms(2)] by (metis prod.collapse)
  from respond_frame [OF r] assms(3)
  have "map_of (tables b1) (MigrationsTable (config ms)) = Some []"
    by simp
  with r assms(1) show ?thesis
    by (simp add: Mssql_Version_def Conn_QueryRowContext_Scan_def Let_def)
qed

lemma Mssql_Version_outcome:
  assumes "Conn_QueryRowContext_Scan (conn ms) (Mssql_Version_query ms)
             (MigrationsTable (config ms)) b = (r, c1, b1)"
  shows "Mssql_Version pkg ms b =
           ((case r of
               Inr (v, d) \<Rightarrow> (v, d, None)
             | Inl e \<Rightarrow>
                 if e = ErrNoRows \<or> as_SQLError e \<noteq> None then (NilVersion pkg, False, None)
                 else (0, False, Some (DatabaseError (Some e) [] (Mssql_Version_query ms)))),
            ms\<lparr>conn := c1\<rparr>, b1)"
  using assms
  by (auto simp: Mssql_Version_def Let_def split: sum.splits option.splits)

lemma Mssql_Version_fst:
  assumes "fst (Conn_QueryRowContext_Scan (conn ms) (Mssql_Version_query ms)
             (MigrationsTable (config ms)) b) = Inl e"
  shows "fst (Mssql_Version pkg ms b) =
           (if e = ErrNoRows \<or> as_SQLError e \<noteq> None then (NilVersion pkg, False, None)
            else (0, False, Some (DatabaseError (Some e) [] (Mssql_Version_query ms))))"
proof -
  obtain r c1 b1 where x: "Conn_QueryRowContext_Scan (conn ms) (Mssql_Version_query ms)
      (MigrationsTable (config ms)) b = (r, c1, b1)"
    by (metis prod.collapse)
  with assms have "r = Inl e" by simp
  with Mssql_Version_outcome [OF x, of pkg] show ?thesis by simp
qed

lemma Mssql_round_trip:
  assumes "Mssql_SetVersion ms v d b = (None, ms1, b1)" "0 \<le> v" "next_ok b1"
  shows "fst (Mssql_Version pkg ms1 b1) = (v, d, None)"
proof -
  have "ms1 = ms" using Mssql_SetVersion_driver [OF assms(1)] .
  moreover have "rows_of b1 (MigrationsTable (config ms)) = [(v, sint (b2i d))]"
    using Mssql_SetVersion_success(1) [OF assms(1)] assms(2) by simp
  moreover have "\<not> conn_closed (conn ms)"
    using Mssql_SetVersion_success(3) [OF assms(1)] .
  ultimately show ?thesis
    using Mssql_Version_row [of ms b1 v d "[]"] assms(3) by simp
qed

lemma Mssql_calls_1:
  assumes "healthy ms b" "0 \<le> v"
  shows "case Mssql_SetVersion_calls ms [(v, d)] b of
           (es, b1) \<Rightarrow> es = [None] \<and> fst (Mssql_Version pkg ms b1) = (v, d, None)"
proof -
  obtain e ms1 b1 where s: "Mssql_SetVersion ms v d b = (e, ms1, b1)"
    by (metis prod.collapse)
  have e: "e = None" using Mssql_SetVersion_healthy(1) [OF assms(1), of v d] s by simp
  have o: "ms1 = ms" using Mssql_SetVersion_driver [of ms v d b ms1 b1] s e by simp
  have "next_ok b1"
    using Mssql_SetVersion_healthy(2) [OF assms(1), of v d] s healthy_next_ok by fastforce
  then have "fst (Mssql_Version pkg ms b1) = (v, d, None)"
    using Mssql_round_trip [of ms v d b ms1 b1 pkg] s e o assms(2) by simp
  then show ?thesis using s e by simp
qed

lemma Mssql_calls_2:
  assumes "healthy ms b" "0 \<le> v2"
  shows "case Mssql_SetVersion_calls ms [(v1, d1), (v2, d2)] b of
           (es, b2) \<Rightarrow> es = [None, None] \<and> fst (Mssql_Version pkg ms b2) = (v2, d2, None)"
proof -
  obtain e ms1 b1 where s: "Mssql_SetVersion ms v1 d1 b = (e, ms1, b1)"
    by (metis prod.collapse)
  have e: "e = None" using Mssql_SetVersion_healthy(1) [OF assms(1), of v1 d1] s by simp
  have o: "ms1 = ms" using Mssql_SetVersion_driver [of ms v1 d1 b ms1 b1] s e by simp
  have h: "healthy ms b1" using Mssql_SetVersion_healthy(2) [OF assms(1), of v1 d1] s by simp
  from Mssql_calls_1 [OF h assms(2), where d = d2 and pkg = pkg] s e o show ?thesis
    by (simp split: prod.splits)
qed

lemma Mssql_SetVersion_rows:
  assumes "Mssql_SetVersion ms v d b = (e, ms1, b1)"
    "length (rows_of b (MigrationsTable (config ms))) \<le> 1"
  shows "length (rows_of b1 (MigrationsTable (config ms))) \<le> 1"
proof (cases e)
  case None
  with Mssql_SetVersion_success(1) [of ms v d b ms1 b1] assms(1) show ?thesis by simp
next
  case (Some err)
  with Mssql_SetVersion_error [of ms v d b err ms1 b1] assms show ?thesis
    by (auto simp: rows_of_def update_conv')
qed

lemma Mssql_calls_rows:
  "length (rows_of b (MigrationsTable (config ms))) \<le> 1 \<Longrightarrow>
     length (rows_of (snd (Mssql_SetVersion_calls ms cs b)) (MigrationsTable (config ms))) \<le> 1"
proof (induction cs arbitrary: ms b)
  case Nil
  then show ?case by simp
next
  case (Cons c cs)
  obtain v d where c: "c = (v, d)" by (cases c)
  obtain e ms1 b1 where s: "Mssql_SetVersion ms v d b = (e, ms1, b1)"
    by (metis prod.collapse)
  have o: "config ms1 = config ms" using Mssql_SetVersion_frame [of ms v d b] s by simp
  have "length (rows_of b1 (MigrationsTable (config ms1))) \<le> 1"
    using Mssql_SetVersion_rows [OF s Cons.prems] o by simp
  from Cons.IH [OF this] c s o show ?case by (auto split: prod.splits)
qed

lemma Mssql_Lock_frame:
  "Mssql_Lock pkg ms b = (e, ms1, b1) \<Longrightarrow>
     b1 = b \<and> config ms1 = config ms \<and> conn ms1 = conn ms \<and> db ms1 = db ms"
  by (auto simp: Mssql_Lock_def split: if_splits sum.splits)

lemma Mssql_Unlock_frame:
  "Mssql_Unlock pkg ms b = (e, ms1, b1) \<Longrightarrow>
     b1 = b \<and> config ms1 = config ms \<and> conn ms1 = conn ms \<and> db ms1 = db ms"
  by (auto simp: Mssql_Unlock_def split: if_splits sum.splits)

lemma Mssql_ensureVersionTable_body_frame:
  "Mssql_ensureVersionTable_body ms b = (e, ms1, b1) \<Longrightarrow>
     config ms1 = config ms \<and> db ms1 = db ms"
  by (auto simp: Mssql_ensureVersionTable_body_def Let_def split: prod.splits option.splits)

lemma Mssql_ensureVersionTable_frame:
  "Mssql_ensureVersionTable pkg ms b = (e, ms1, b1) \<Longrightarrow>
     config ms1 = config ms \<and> db ms1 = db ms"
  by (auto simp: Mssql_ensureVersionTable_def
      split: prod.splits option.splits
      dest!: Mssql_Lock_frame Mssql_Unlock_frame Mssql_ensureVersionTable_body_frame)

lemma Mssql_Run_read_error:
  "read_error migration = Some err \<Longrightarrow> Mssql_Run ms migration b = (Some err, ms, b)"
  by (simp add: Mssql_Run_def ReadAll_def)

lemma Mssql_Run_exec:
  assumes "read_error migration = None"
  shows "fst (Mssql_Run ms migration b) =
           (case fst (Conn_ExecContext (conn ms) (content migration) Script b) of
              None \<Rightarrow> None
            | Some err \<Rightarrow>
                Some (DatabaseError (Some err)
                        (case as_SQLError err of Some m \<Rightarrow> m | None \<Rightarrow> ''migration failed'')
                        (content migration)))"
  using assms
  by (auto simp: Mssql_Run_def ReadAll_def Let_def split: prod.splits option.splits)

lemma Mssql_Run_exec_error:
  assumes "read_error migration = None" "fst (Mssql_Run ms migration b) = Some e"
  shows "\<exists>orig. e = DatabaseError (Some orig)
                     (case as_SQLError orig of Some m \<Rightarrow> m | None \<Rightarrow> ''migration failed'')
                     (content migration)"
  using assms
  by (auto simp: Mssql_Run_def ReadAll_def Let_def split: prod.splits option.splits)

lemma Mssql_Drop_loop_frame:
  "Mssql_Drop_loop ms ts b = (e, ms1, b1) \<Longrightarrow>
     isLocked ms1 = isLocked ms \<and> db ms1 = db ms \<and> config ms1 = config ms \<and>
     (conn ms1 = conn ms \<or> conn_closed (conn ms1))"
proof (induction ts arbitrary: ms b)
  case Nil
  then show ?case by simp
next
  case (Cons t ts)
  obtain x c1 b2 where c: "Conn_ExecContext (conn ms) (''DROP TABLE IF EXISTS '' @ t) (DropIfExists t) b = (x, c1, b2)"
    by (metis prod.collapse)
  show ?case
  proof (cases x)
    case None
    with Conn_ExecContext_conn [OF c] have "c1 = conn ms" by simp
    with Cons.prems c None Cons.IH [of "ms\<lparr>conn := c1\<rparr>" b2] show ?thesis
      by (simp add: Let_def)
  next
    case (Some err)
    with Cons.prems c Conn_ExecContext_conn [OF c] show ?thesis
      by (auto simp: Let_def)
  qed
qed

lemma Mssql_Drop_loop_clean:
  "Mssql_Drop_loop ms ts b = (e, ms1, b1) \<Longrightarrow> Some ErrBadConn \<notin> set (faults b) \<Longrightarrow>
   conn ms1 = conn ms"
proof (induction ts arbitrary: ms b)
  case Nil
  then show ?case by simp
next
  case (Cons t ts)
  obtain x c1 b2 where c: "Conn_ExecContext (conn ms) (''DROP TABLE IF EXISTS '' @ t) (DropIfExists t) b = (x, c1, b2)"
    by (metis prod.collapse)
  note k = Conn_ExecContext_clean_DropIfExists [OF c Cons.prems(2-)]
  show ?case
  proof (cases x)
    case None
    with Cons.prems(1) c have "Mssql_Drop_loop (ms\<lparr>conn := c1\<rparr>) ts b2 = (e, ms1, b1)"
      by (simp add: Let_def)
    from Cons.IH [OF this] k Cons.prems(2-) show ?thesis by simp
  next
    case (Some err)
    with Cons.prems(1) c k show ?thesis
      by (auto simp: Let_def)
  qed
qed

lemma Mssql_Drop_loop_bad:
  "Mssql_Drop_loop ms ts b = (Some (DatabaseError (Some ErrBadConn) t q), ms1, b1) \<Longrightarrow>
     conn_closed (conn ms1)"
proof (induction ts arbitrary: ms b)
  case Nil
  then show ?case by simp
next
  case (Cons u ts)
  obtain x c1 b2 where c: "Conn_ExecContext (conn ms) (''DROP TABLE IF EXISTS '' @ u) (DropIfExists u) b = (x, c1, b2)"
    by (metis prod.collapse)
  show ?case
  proof (cases x)
    case None
    with Cons.prems c
    have "Mssql_Drop_loop (ms\<lparr>conn := c1\<rparr>) ts b2 =
            (Some (DatabaseError (Some ErrBadConn) t q), ms1, b1)"
      by (simp add: Let_def)
    from Cons.IH [OF this] show ?thesis .
  next
    case (Some err)
    with Cons.prems c have "err = ErrBadConn" "conn ms1 = c1"
      by (auto simp: Let_def)
    with c Some Conn_ExecContext_bad show ?thesis by blast
  qed
qed

lemma Mssql_Drop_frame:
  "Mssql_Drop ms b = (e, ms1, b1) \<Longrightarrow>
     isLocked ms1 = isLocked ms \<and> db ms1 = db ms \<and> config ms1 = config ms \<and>
     (conn ms1 = conn ms \<or> conn_closed (conn ms1))"
  by (auto simp: Mssql_Drop_def Let_def
      split: prod.splits sum.splits option.splits if_splits
      dest!: Conn_QueryContext_conn Conn_ExecContext_conn Drop_scan_conn Mssql_Drop_loop_frame)

lemma Mssql_Drop_clean:
  assumes "Mssql_Drop ms b = (e, ms1, b1)" "Some ErrBadConn \<notin> set (faults b)"
  shows "conn ms1 = conn ms"
proof -
  obtain r c1 b2 where q: "Conn_QueryContext (conn ms) (''SELECT TABLE_NAME FROM INFORMATION_SCHEMA.TABLES WHERE TABLE_TYPE = '' @ [squote] @ ''BASE TABLE'' @ [squote] @ '' AND TABLE_CATALOG='' @ [squote] @ DatabaseName (config ms) @ [squote]) (Some (DatabaseName (config ms))) b = (r, c1, b2)"
    by (metis prod.collapse)
  note k1 = Conn_QueryContext_clean [OF q assms(2)]
  show ?thesis
  proof (cases r)
    case (Inl err)
    with assms(1) q k1 show ?thesis
      by (auto simp: Mssql_Drop_def Let_def)
  next
    case (Inr rows)
    obtain s c2 b3 where sc: "Drop_scan rows [] c1 b2 = (s, c2, b3)"
      by (metis prod.collapse)
    note k2 = Drop_scan_clean [OF sc conjunct1 [OF conjunct2 [OF k1]]]
    show ?thesis
    proof (cases s)
      case (Inl err)
      with assms(1) q Inr sc k1 k2 show ?thesis
        by (auto simp: Mssql_Drop_def Let_def)
    next
      case (Inr names)
      show ?thesis
      proof (cases "0 < length names")
        case True
        with assms(1) q \<open>r = Inr rows\<close> sc Inr
        have l: "Mssql_Drop_loop (ms\<lparr>conn := c2\<rparr>) names b3 = (e, ms1, b1)"
          by (simp add: Mssql_Drop_def Let_def)
        from Mssql_Drop_loop_clean [OF l conjunct1 [OF conjunct2 [OF k2]]] k1 k2
        show ?thesis by simp
      next
        case False
        with assms(1) q \<open>r = Inr rows\<close> sc Inr k1 k2 show ?thesis
          by (auto simp: Mssql_Drop_def Let_def)
      qed
    qed
  qed
qed

lemma Mssql_Drop_bad:
  assumes "Mssql_Drop ms b = (Some (DatabaseError (Some ErrBadConn) t q), ms1, b1)"
  shows "conn_closed (conn ms1)"
proof -
  obtain r c1 b2 where qu: "Conn_QueryContext (conn ms) (''SELECT TABLE_NAME FROM INFORMATION_SCHEMA.TABLES WHERE TABLE_TYPE = '' @ [squote] @ ''BASE TABLE'' @ [squote] @ '' AND TABLE_CATALOG='' @ [squote] @ DatabaseName (config ms) @ [squote]) (Some (DatabaseName (config ms))) b = (r, c1, b2)"
    by (metis prod.collapse)
  show ?thesis
  proof (cases r)
    case (Inl err)
    with assms qu have "err = ErrBadConn" "conn ms1 = c1"
      by (auto simp: Mssql_Drop_def Let_def)
    with qu Inl Conn_QueryContext_bad show ?thesis by blast
  next
    case (Inr rows)
    obtain s c2 b3 where sc: "Drop_scan rows [] c1 b2 = (s, c2, b3)"
      by (metis prod.collapse)
    show ?thesis
    proof (cases s)
      case (Inl err)
      with assms qu Inr sc have "err = DatabaseError (Some ErrBadConn) t q"
        by (auto simp: Mssql_Drop_def Let_def)
      moreover have "Err_of err = None"
        using sc Inl Drop_scan_Inl by blast
      ultimately show ?thesis by simp
    next
      case (Inr names)
      with assms qu \<open>r = Inr rows\<close> sc
      have "Mssql_Drop_loop (ms\<lparr>conn := c2\<rparr>) names b3 =
              (Some (DatabaseError (Some ErrBadConn) t q), ms1, b1)"
        by (auto simp: Mssql_Drop_def Let_def split: if_splits)
      then show ?thesis by (rule Mssql_Drop_loop_bad)
    qed
  qed
qed

lemma Mssql_WithInstance_done:
  assumes "fst (Mssql_WithInstance pkg handle (Some cfg) b) = Inr ms"
  shows "DatabaseName (config ms) = db_name b \<and> db_name b \<noteq> [] \<and> SchemaName (config ms) = schema_name b \<and> schema_name b \<noteq> [] \<and>
         MigrationsTable (config ms) =
           (if MigrationsTable cfg = [] then DefaultMigrationsTable else MigrationsTable cfg) \<and>
         fst (snd (Mssql_WithInstance pkg handle (Some cfg) b)) = Some (config ms)"
  using assms
  by (auto simp: Mssql_WithInstance_def Let_def
      split: option.splits prod.splits sum.splits if_splits
      dest!: DB_Ping_frame DB_QueryRow_Scan_Inr Mssql_ensureVersionTable_frame)

lemma Mssql_WithInstance_no_name:
  assumes "\<not> db_closed handle" "calls_ok 2 b" "db_name b = []"
  shows "fst (Mssql_WithInstance pkg handle (Some cfg) b) = Inl ErrNoDatabaseName"
proof -
  have c: "calls_ok (Suc (Suc 0)) b" using assms(2) by (simp add: numeral_2_eq_2)
  obtain b1 where r1: "respond ''PING'' b = (None, b1)"
    using respond_calls_ok(1) [OF c] by (metis prod.collapse)
  have c1: "calls_ok (Suc 0) b1" using respond_calls_ok(2) [OF c, of "''PING''"] r1 by simp
  obtain b2 where r2: "respond ''SELECT DB_NAME()'' b1 = (None, b2)"
    using respond_calls_ok(1) [OF c1] by (metis prod.collapse)
  have "db_name b2 = []" using respond_frame [OF r1] respond_frame [OF r2] assms(3) by simp
  with r1 r2 assms(1) show ?thesis
    by (simp add: Mssql_WithInstance_def DB_Ping_def DB_QueryRow_Scan_def Let_def)
qed

lemma Mssql_Lock_Unlock_cycle:
  assumes "GenerateAdvisoryLockId pkg (DatabaseName (config ms)) [SchemaName (config ms)] = Inr aid"
  shows "Mssql_Unlock pkg ms b = (None, ms\<lparr>isLocked := False\<rparr>, b)"
    and "Mssql_Lock pkg (ms\<lparr>isLocked := False\<rparr>) b = (None, ms\<lparr>isLocked := True\<rparr>, b)"
    and "Mssql_Lock pkg (ms\<lparr>isLocked := True\<rparr>) b = (Some ErrLocked, ms\<lparr>isLocked := True\<rparr>, b)"
  using assms by (cases ms; simp add: Mssql_Lock_def Mssql_Unlock_def)+

lemma Mssql_Lock_only_flag:
  "\<exists>l. fst (snd (Mssql_Lock pkg ms b)) = ms\<lparr>isLocked := l\<rparr>"
  "\<exists>l. fst (snd (Mssql_Unlock pkg ms b)) = ms\<lparr>isLocked := l\<rparr>"
proof -
  have i: "ms\<lparr>isLocked := isLocked ms\<rparr> = ms" by simp
  show "\<exists>l. fst (snd (Mssql_Lock pkg ms b)) = ms\<lparr>isLocked := l\<rparr>"
    by (cases "isLocked ms"; cases "GenerateAdvisoryLockId pkg (DatabaseName (config ms)) [SchemaName (config ms)]")
      (auto simp: Mssql_Lock_def intro: exI [of _ "isLocked ms"] exI [of _ True])
  show "\<exists>l. fst (snd (Mssql_Unlock pkg ms b)) = ms\<lparr>isLocked := l\<rparr>"
    by (cases "isLocked ms"; cases "GenerateAdvisoryLockId pkg (DatabaseName (config ms)) [SchemaName (config ms)]")
      (auto simp: Mssql_Unlock_def intro: exI [of _ "isLocked ms"] exI [of _ False])
qed

lemma Mssql_round_trip_snd:
  assumes "fst (Mssql_SetVersion ms v d b) = None" "0 \<le> v"
    "next_ok (snd (snd (Mssql_SetVersion ms v d b)))"
  shows "fst (Mssql_Version pkg ms (snd (snd (Mssql_SetVersion ms v d b)))) = (v, d, None)"
proof -
  obtain e ms1 b1 where s: "Mssql_SetVersion ms v d b = (e, ms1, b1)"
    by (metis prod.collapse)
  with assms(1) have n: "Mssql_SetVersion ms v d b = (None, ms1, b1)" by simp
  have o: "ms1 = ms" using Mssql_SetVersion_driver [OF n] .
  from Mssql_round_trip [OF n, of pkg] n o assms show ?thesis by simp
qed

lemma Mssql_SetVersion_success_snd:
  assumes "fst (Mssql_SetVersion ms v d b) = None"
  shows "rows_of (snd (snd (Mssql_SetVersion ms v d b))) (MigrationsTable (config ms)) =
           (if 0 \<le> v then [(v, if d then 1 else 0)] else []) \<and>
         issued (snd (snd (Mssql_SetVersion ms v d b))) =
           issued b @ [''BEGIN'', Mssql_truncate_query ms]
           @ (if 0 \<le> v then [Mssql_insert_query ms v d] else []) @ [''COMMIT'']"
proof -
  obtain e ms1 b1 where s: "Mssql_SetVersion ms v d b = (e, ms1, b1)"
    by (metis prod.collapse)
  with assms have n: "Mssql_SetVersion ms v d b = (None, ms1, b1)" by simp
  from Mssql_SetVersion_success(1,2) [OF n] s show ?thesis by (simp add: sint_b2i)
qed

lemma Mssql_SetVersion_rows_snd:
  assumes "fst (Mssql_SetVersion ms v d b) = None"
  shows "length (rows_of (snd (snd (Mssql_SetVersion ms v d b))) (MigrationsTable (config ms))) \<le> 1"
  using Mssql_SetVersion_success_snd [OF assms] by simp

lemma Mssql_WithInstance_no_schema:
  assumes "\<not> db_closed handle" "calls_ok 3 b" "db_name b \<noteq> []" "schema_name b = []"
  shows "fst (Mssql_WithInstance pkg handle (Some cfg) b) = Inl ErrNoSchema"
proof -
  have c: "calls_ok (Suc (Suc (Suc 0))) b" using assms(2) by (simp add: numeral_3_eq_3)
  obtain b1 where r1: "respond ''PING'' b = (None, b1)"
    using respond_calls_ok(1) [OF c] by (metis prod.collapse)
  have c1: "calls_ok (Suc (Suc 0)) b1"
    using respond_calls_ok(2) [OF c, of "''PING''"] r1 by simp
  obtain b2 where r2: "respond ''SELECT DB_NAME()'' b1 = (None, b2)"
    using respond_calls_ok(1) [OF c1] by (metis prod.collapse)
  have c2: "calls_ok (Suc 0) b2"
    using respond_calls_ok(2) [OF c1, of "''SELECT DB_NAME()''"] r2 by simp
  obtain b3 where r3: "respond ''SELECT SCHEMA_NAME()'' b2 = (None, b3)"
    using respond_calls_ok(1) [OF c2] by (metis prod.collapse)
  have "db_name b2 \<noteq> []" "schema_name b3 = []"
    using respond_frame [OF r1] respond_frame [OF r2] respond_frame [OF r3] assms(3,4)
    by simp_all
  with r1 r2 r3 assms(1) show ?thesis
    by (simp add: Mssql_WithInstance_def DB_Ping_def DB_QueryRow_Scan_def Let_def)
qed

section \<open>The claims\<close>

text \<open>
  C1 (round trip and overwrite). On a healthy server, \<^verbatim>\<open>SetVersion(v, d)\<close> with
  \<open>v \<ge> 0\<close> returns no error and \<^verbatim>\<open>Version()\<close> then returns exactly \<open>(v, d)\<close>;
  after \<^verbatim>\<open>SetVersion(v1, d1)\<close> and \<^verbatim>\<open>SetVersion(v2, d2)\<close> with \<open>v2 \<ge> 0\<close>, whatever
  \<open>v1\<close> is, \<^verbatim>\<open>Version()\<close> returns exactly \<open>(v2, d2)\<close>. More generally, under any
  schedule of faults: whenever \<^verbatim>\<open>SetVersion(v, d)\<close> with \<open>v \<ge> 0\<close> returns no error
  and the query of \<^verbatim>\<open>Version()\<close> is not hit by a fault, \<^verbatim>\<open>Version()\<close> returns
  \<open>(v, d)\<close>, so the last successful write wins. Both drivers.
\<close>

theorem SetVersion_then_Version_round_trip:
  "(healthy ora b \<and> 0 \<le> v \<longrightarrow>
      (case Oracle_SetVersion_calls ora [(v, d)] b of
         (es, b1) \<Rightarrow> es = [None] \<and> fst (Oracle_Version pkg ora b1) = (v, d, None))) \<and>
   (healthy ora b \<and> 0 \<le> v2 \<longrightarrow>
      (case Oracle_SetVersion_calls ora [(v1, d1), (v2, d2)] b of
         (es, b2) \<Rightarrow> es = [None, None] \<and> fst (Oracle_Version pkg ora b2) = (v2, d2, None))) \<and>
   (fst (Oracle_SetVersion ora v d b) = None \<and> 0 \<le> v \<and>
    next_ok (snd (snd (Oracle_SetVersion ora v d b))) \<longrightarrow>
      fst (Oracle_Version pkg ora (snd (snd (Oracle_SetVersion ora v d b)))) = (v, d, None)) \<and>
   (healthy ms c \<and> 0 \<le> v \<longrightarrow>
      (case Mssql_SetVersion_calls ms [(v, d)] c of
         (es, b1) \<Rightarrow> es = [None] \<and> fst (Mssql_Version pkg ms b1) = (v, d, None))) \<and>
   (healthy ms c \<and> 0 \<le> v2 \<longrightarrow>
      (case Mssql_SetVersion_calls ms [(v1, d1), (v2, d2)] c of
         (es, b2) \<Rightarrow> es = [None, None] \<and> fst (Mssql_Version pkg ms b2) = (v2, d2, None))) \<and>
   (fst (Mssql_SetVersion ms v d c) = None \<and> 0 \<le> v \<and>
    next_ok (snd (snd (Mssql_SetVersion ms v d c))) \<longrightarrow>
      fst (Mssql_Version pkg ms (snd (snd (Mssql_SetVersion ms v d c)))) = (v, d, None))"
  by (intro conjI impI; elim conjE;
      (rule Oracle_calls_1 Oracle_calls_2 Oracle_round_trip_snd
            Mssql_calls_1 Mssql_calls_2 Mssql_round_trip_snd; assumption))

theorem SetVersion_then_Version_round_trip_witness:
  "healthy ex_ora ex_oracle_server \<and>
   (0::int) \<le> 7 \<and>
   (case Oracle_SetVersion_calls ex_ora [(7, True)] ex_oracle_server of
      (es, b1) \<Rightarrow> es = [None] \<and> fst (Oracle_Version ex_pkg ex_ora b1) = (7, True, None)) \<and>
   (0::int) \<le> 3 \<and>
   (case Oracle_SetVersion_calls ex_ora [(- 1, False), (3, False)] ex_oracle_server of
      (es, b2) \<Rightarrow> es = [None, None] \<and> fst (Oracle_Version ex_pkg ex_ora b2) = (3, False, None)) \<and>
   fst (Oracle_SetVersion ex_ora 7 True ex_oracle_server) = None \<and>
   next_ok (snd (snd (Oracle_SetVersion ex_ora 7 True ex_oracle_server))) \<and>
   fst (Oracle_Version ex_pkg ex_ora (snd (snd (Oracle_SetVersion ex_ora 7 True ex_oracle_server)))) = (7, True, None) \<and>
   healthy ex_ms ex_sql_server \<and>
   (case Mssql_SetVersion_calls ex_ms [(7, True)] ex_sql_server of
      (es, b1) \<Rightarrow> es = [None] \<and> fst (Mssql_Version ex_pkg ex_ms b1) = (7, True, None)) \<and>
   (case Mssql_SetVersion_calls ex_ms [(- 1, False), (3, False)] ex_sql_server of
      (es, b2) \<Rightarrow> es = [None, None] \<and> fst (Mssql_Version ex_pkg ex_ms b2) = (3, False, None)) \<and>
   fst (Mssql_SetVersion ex_ms 7 True ex_sql_server) = None \<and>
   next_ok (snd (snd (Mssql_SetVersion ex_ms 7 True ex_sql_server))) \<and>
   fst (Mssql_Version ex_pkg ex_ms (snd (snd (Mssql_SetVersion ex_ms 7 True ex_sql_server)))) = (7, True, None)"
proof -
  have ho: "healthy ex_ora ex_oracle_server"
    by (simp add: healthy_def ex_ora_def ex_oracle_server_def)
  have hm: "healthy ex_ms ex_sql_server"
    by (simp add: healthy_def ex_ms_def ex_sql_server_def)
  have z: "(0::int) \<le> 7" "(0::int) \<le> 3" by simp_all
  have so: "fst (Oracle_SetVersion ex_ora 7 True ex_oracle_server) = None"
    using Oracle_SetVersion_healthy(1) [OF ho] .
  have sm: "fst (Mssql_SetVersion ex_ms 7 True ex_sql_server) = None"
    using Mssql_SetVersion_healthy(1) [OF hm] .
  have no: "next_ok (snd (snd (Oracle_SetVersion ex_ora 7 True ex_oracle_server)))"
    using Oracle_SetVersion_healthy(2) [OF ho] healthy_next_ok by blast
  have nm: "next_ok (snd (snd (Mssql_SetVersion ex_ms 7 True ex_sql_server)))"
    using Mssql_SetVersion_healthy(2) [OF hm] healthy_next_ok by blast
  note t = SetVersion_then_Version_round_trip
    [where ora = ex_ora and b = ex_oracle_server and ms = ex_ms and c = ex_sql_server
       and pkg = ex_pkg and v = 7 and d = True and ?v1.0 = "- 1" and ?d1.0 = False
       and ?v2.0 = 3 and ?d2.0 = False]
  from t ho hm z so sm no nm show ?thesis by simp
qed

text \<open>
  C2 as stated fails: a negative version other than the sentinel clears the table and
  inserts no row. With the sentinel \<open>-1\<close>, \<^verbatim>\<open>SetVersion(-2, true)\<close> succeeds on the
  example servers and leaves the control table empty.
\<close>

theorem SetVersion_negative_version_counterexample:
  "- 2 \<noteq> NilVersion ex_pkg \<and>
   fst (Oracle_SetVersion ex_ora (- 2) True ex_oracle_server) = None \<and>
   rows_of ex_oracle_server ''schema_migrations'' = [(1, 0)] \<and>
   rows_of (snd (snd (Oracle_SetVersion ex_ora (- 2) True ex_oracle_server))) ''schema_migrations'' = [] \<and>
   fst (Mssql_SetVersion ex_ms (- 2) True ex_sql_server) = None \<and>
   rows_of ex_sql_server ''schema_migrations'' = [(1, 0)] \<and>
   rows_of (snd (snd (Mssql_SetVersion ex_ms (- 2) True ex_sql_server))) ''schema_migrations'' = []"
  by (simp add: Oracle_SetVersion_def Oracle_SetVersion_insert_def
      Mssql_SetVersion_def Mssql_SetVersion_insert_def Let_def
      Conn_BeginTx_def Tx_Exec_def Tx_Commit_def respond_def release_def rolled_back_def rows_of_def
      ex_pkg_def ex_ora_def ex_ms_def ex_oracle_server_def ex_sql_server_def
      Oracle_truncate_query_def Mssql_truncate_query_def)

text \<open>
  C2, amended. \<^verbatim>\<open>SetVersion(version, dirty)\<close> first clears the control table and then
  inserts exactly one row \<open>(version, dirty)\<close> if and only if \<open>version \<ge> 0\<close>: on a
  healthy server the call returns no error, and whenever it returns no error the
  control table holds exactly that row when \<open>version \<ge> 0\<close> and no row when
  \<open>version < 0\<close>, the statements issued being \<^verbatim>\<open>BEGIN\<close>, the \<^verbatim>\<open>TRUNCATE\<close>, the
  \<^verbatim>\<open>INSERT\<close> only when \<open>version \<ge> 0\<close>, and \<^verbatim>\<open>COMMIT\<close>. Both drivers.
\<close>

theorem SetVersion_inserts_iff_version_nonnegative:
  "(healthy ora b \<longrightarrow> fst (Oracle_SetVersion ora v d b) = None) \<and>
   (fst (Oracle_SetVersion ora v d b) = None \<longrightarrow>
      rows_of (snd (snd (Oracle_SetVersion ora v d b))) (MigrationsTable (config ora)) =
        (if 0 \<le> v then [(v, if d then 1 else 0)] else []) \<and>
      issued (snd (snd (Oracle_SetVersion ora v d b))) =
        issued b @ [''BEGIN'', Oracle_truncate_query ora]
        @ (if 0 \<le> v then [Oracle_insert_query ora v d] else []) @ [''COMMIT'']) \<and>
   (healthy ms c \<longrightarrow> fst (Mssql_SetVersion ms v d c) = None) \<and>
   (fst (Mssql_SetVersion ms v d c) = None \<longrightarrow>
      rows_of (snd (snd (Mssql_SetVersion ms v d c))) (MigrationsTable (config ms)) =
        (if 0 \<le> v then [(v, if d then 1 else 0)] else []) \<and>
      issued (snd (snd (Mssql_SetVersion ms v d c))) =
        issued c @ [''BEGIN'', Mssql_truncate_query ms]
        @ (if 0 \<le> v then [Mssql_insert_query ms v d] else []) @ [''COMMIT''])"
  by (intro conjI impI;
      (rule Oracle_SetVersion_healthy(1) Mssql_SetVersion_healthy(1), assumption
       | (drule Oracle_SetVersion_success_snd, blast)
       | (drule Mssql_SetVersion_success_snd, blast)))

theorem SetVersion_inserts_iff_version_nonnegative_witness:
  "healthy ex_ora ex_oracle_server \<and>
   fst (Oracle_SetVersion ex_ora (- 2) True ex_oracle_server) = None \<and>
   rows_of (snd (snd (Oracle_SetVersion ex_ora (- 2) True ex_oracle_server))) (MigrationsTable (config ex_ora)) = [] \<and>
   issued (snd (snd (Oracle_SetVersion ex_ora (- 2) True ex_oracle_server))) =
     issued ex_oracle_server @ [''BEGIN'', Oracle_truncate_query ex_ora] @ [''COMMIT''] \<and>
   fst (Oracle_SetVersion ex_ora 5 True ex_oracle_server) = None \<and>
   rows_of (snd (snd (Oracle_SetVersion ex_ora 5 True ex_oracle_server))) (MigrationsTable (config ex_ora)) = [(5, 1)] \<and>
   issued (snd (snd (Oracle_SetVersion ex_ora 5 True ex_oracle_server))) =
     issued ex_oracle_server @ [''BEGIN'', Oracle_truncate_query ex_ora] @ [Oracle_insert_query ex_ora 5 True] @ [''COMMIT''] \<and>
   healthy ex_ms ex_sql_server \<and>
   fst (Mssql_SetVersion ex_ms (- 2) True ex_sql_server) = None \<and>
   rows_of (snd (snd (Mssql_SetVersion ex_ms (- 2) True ex_sql_server))) (MigrationsTable (config ex_ms)) = [] \<and>
   issued (snd (snd (Mssql_SetVersion ex_ms (- 2) True ex_sql_server))) =
     issued ex_sql_server @ [''BEGIN'', Mssql_truncate_query ex_ms] @ [''COMMIT''] \<and>
   fst (Mssql_SetVersion ex_ms 5 True ex_sql_server) = None \<and>
   rows_of (snd (snd (Mssql_SetVersion ex_ms 5 True ex_sql_server))) (MigrationsTable (config ex_ms)) = [(5, 1)] \<and>
   issued (snd (snd (Mssql_SetVersion ex_ms 5 True ex_sql_server))) =
     issued ex_sql_server @ [''BEGIN'', Mssql_truncate_query ex_ms] @ [Mssql_insert_query ex_ms 5 True] @ [''COMMIT'']"
proof -
  have ho: "healthy ex_ora ex_oracle_server"
    by (simp add: healthy_def ex_ora_def ex_oracle_server_def)
  have hm: "healthy ex_ms ex_sql_server"
    by (simp add: healthy_def ex_ms_def ex_sql_server_def)
  note t1 = SetVersion_inserts_iff_version_nonnegative
    [where ora = ex_ora and b = ex_oracle_server and ms = ex_ms and c = ex_sql_server
       and v = "- 2" and d = True]
  note t2 = SetVersion_inserts_iff_version_nonnegative
    [where ora = ex_ora and b = ex_oracle_server and ms = ex_ms and c = ex_sql_server
       and v = 5 and d = True]
  from t1 t2 ho hm show ?thesis by simp
qed

text \<open>
  C3 (atomic replace). \<^verbatim>\<open>SetVersion\<close> clears the control table and inserts the new
  record inside one transaction, and sends \<^verbatim>\<open>ROLLBACK\<close> when either statement fails.
  On a SQL Server that keeps the previous Version Record. On an Oracle server
  \<^verbatim>\<open>TRUNCATE TABLE\<close> has committed by the time the \<^verbatim>\<open>INSERT\<close> fails, and the
  \<^verbatim>\<open>ROLLBACK\<close> brings nothing back: with the record \<open>(1, 0)\<close> stored,
  \<^verbatim>\<open>SetVersion(5, true)\<close> whose \<^verbatim>\<open>INSERT\<close> the server refuses returns the error of
  the insert and leaves the control table cleared, the half-written state. The MSSQL
  driver, where the same statement fails, leaves its table as it was.
\<close>

theorem Oracle_SetVersion_failed_insert_leaves_cleared_table:
  "rows_of (ex_oracle_server\<lparr>faults := [None, None, Some (OraError 1653 ''unable to extend table'')]\<rparr>) ''schema_migrations'' = [(1, 0)] \<and>
   fst (Oracle_SetVersion ex_ora 5 True (ex_oracle_server\<lparr>faults := [None, None, Some (OraError 1653 ''unable to extend table'')]\<rparr>)) =
     Some (DatabaseError (Some (OraError 1653 ''unable to extend table'')) []
             (Oracle_insert_query ex_ora 5 True)) \<and>
   issued (snd (snd (Oracle_SetVersion ex_ora 5 True (ex_oracle_server\<lparr>faults := [None, None, Some (OraError 1653 ''unable to extend table'')]\<rparr>)))) =
     [''BEGIN'', Oracle_truncate_query ex_ora, Oracle_insert_query ex_ora 5 True, ''ROLLBACK''] \<and>
   rows_of (snd (snd (Oracle_SetVersion ex_ora 5 True (ex_oracle_server\<lparr>faults := [None, None, Some (OraError 1653 ''unable to extend table'')]\<rparr>)))) ''schema_migrations'' = [] \<and>
   tables (snd (snd (Oracle_SetVersion ex_ora 5 True (ex_oracle_server\<lparr>faults := [None, None, Some (OraError 1653 ''unable to extend table'')]\<rparr>)))) = [(''schema_migrations'', []), (''users'', [])] \<and>
   rows_of (ex_sql_server\<lparr>faults := [None, None, Some (MssqlError 1105 ''Could not allocate space'')]\<rparr>) ''schema_migrations'' = [(1, 0)] \<and>
   fst (Mssql_SetVersion ex_ms 5 True (ex_sql_server\<lparr>faults := [None, None, Some (MssqlError 1105 ''Could not allocate space'')]\<rparr>)) =
     Some (DatabaseError (Some (MssqlError 1105 ''Could not allocate space'')) []
             (Mssql_insert_query ex_ms 5 True)) \<and>
   issued (snd (snd (Mssql_SetVersion ex_ms 5 True (ex_sql_server\<lparr>faults := [None, None, Some (MssqlError 1105 ''Could not allocate space'')]\<rparr>)))) =
     [''BEGIN'', Mssql_truncate_query ex_ms, Mssql_insert_query ex_ms 5 True, ''ROLLBACK''] \<and>
   rows_of (snd (snd (Mssql_SetVersion ex_ms 5 True (ex_sql_server\<lparr>faults := [None, None, Some (MssqlError 1105 ''Could not allocate space'')]\<rparr>)))) ''schema_migrations'' = [(1, 0)] \<and>
   tables (snd (snd (Mssql_SetVersion ex_ms 5 True (ex_sql_server\<lparr>faults := [None, None, Some (MssqlError 1105 ''Could not allocate space'')]\<rparr>)))) = tables (ex_sql_server\<lparr>faults := [None, None, Some (MssqlError 1105 ''Could not allocate space'')]\<rparr>)"
  by (simp add: Oracle_SetVersion_def Oracle_SetVersion_insert_def Mssql_SetVersion_def
      Mssql_SetVersion_insert_def Let_def Conn_BeginTx_def Tx_Exec_def Tx_Rollback_def
      respond_def release_def rolled_back_def rows_of_def ex_ora_def ex_ms_def
      ex_oracle_server_def ex_sql_server_def)

text \<open>
  C4 (at most one Version Record). If the control table holds at most one row (as it
  does when the driver has just created it, or when it is absent), then after any
  sequence of \<^verbatim>\<open>SetVersion\<close> calls, under any schedule of faults and whatever each
  call returns, it holds at most one row; and after every \<^verbatim>\<open>SetVersion\<close> that returns
  no error it holds at most one row, whatever it held before. Both drivers.
\<close>

theorem at_most_one_version_record:
  "(length (rows_of b (MigrationsTable (config ora))) \<le> 1 \<longrightarrow>
      length (rows_of (snd (Oracle_SetVersion_calls ora cs b)) (MigrationsTable (config ora))) \<le> 1) \<and>
   (fst (Oracle_SetVersion ora v d b) = None \<longrightarrow>
      length (rows_of (snd (snd (Oracle_SetVersion ora v d b))) (MigrationsTable (config ora))) \<le> 1) \<and>
   (length (rows_of c (MigrationsTable (config ms))) \<le> 1 \<longrightarrow>
      length (rows_of (snd (Mssql_SetVersion_calls ms cs c)) (MigrationsTable (config ms))) \<le> 1) \<and>
   (fst (Mssql_SetVersion ms v d c) = None \<longrightarrow>
      length (rows_of (snd (snd (Mssql_SetVersion ms v d c))) (MigrationsTable (config ms))) \<le> 1)"
  by (intro conjI; rule impI;
      (rule Oracle_calls_rows Mssql_calls_rows Oracle_SetVersion_rows_snd
            Mssql_SetVersion_rows_snd, assumption))

theorem at_most_one_version_record_witness:
  "length (rows_of (ex_oracle_server\<lparr>faults := [None, None, None, None, None, None, Some ErrConnDone]\<rparr>) (MigrationsTable (config ex_ora))) \<le> 1 \<and>
   length (rows_of (snd (Oracle_SetVersion_calls ex_ora [(1, False), (2, True), (- 1, False), (3, True)] (ex_oracle_server\<lparr>faults := [None, None, None, None, None, None, Some ErrConnDone]\<rparr>))) (MigrationsTable (config ex_ora))) \<le> 1 \<and>
   fst (Oracle_SetVersion ex_ora 9 False ex_oracle_server) = None \<and>
   length (rows_of (snd (snd (Oracle_SetVersion ex_ora 9 False ex_oracle_server))) (MigrationsTable (config ex_ora))) \<le> 1 \<and>
   length (rows_of (ex_sql_server\<lparr>faults := [None, None, None, None, None, None, Some ErrConnDone]\<rparr>) (MigrationsTable (config ex_ms))) \<le> 1 \<and>
   length (rows_of (snd (Mssql_SetVersion_calls ex_ms [(1, False), (2, True), (- 1, False), (3, True)] (ex_sql_server\<lparr>faults := [None, None, None, None, None, None, Some ErrConnDone]\<rparr>))) (MigrationsTable (config ex_ms))) \<le> 1 \<and>
   fst (Mssql_SetVersion ex_ms 9 False ex_sql_server) = None \<and>
   length (rows_of (snd (snd (Mssql_SetVersion ex_ms 9 False ex_sql_server))) (MigrationsTable (config ex_ms))) \<le> 1"
proof -
  have ro: "length (rows_of (ex_oracle_server\<lparr>faults := [None, None, None, None, None, None, Some ErrConnDone]\<rparr>) (MigrationsTable (config ex_ora))) \<le> 1"
    by (simp add: rows_of_def ex_ora_def ex_oracle_server_def)
  have rm: "length (rows_of (ex_sql_server\<lparr>faults := [None, None, None, None, None, None, Some ErrConnDone]\<rparr>) (MigrationsTable (config ex_ms))) \<le> 1"
    by (simp add: rows_of_def ex_ms_def ex_sql_server_def)
  have ho: "healthy ex_ora ex_oracle_server"
    by (simp add: healthy_def ex_ora_def ex_oracle_server_def)
  have hm: "healthy ex_ms ex_sql_server"
    by (simp add: healthy_def ex_ms_def ex_sql_server_def)
  have so: "fst (Oracle_SetVersion ex_ora 9 False ex_oracle_server) = None"
    using Oracle_SetVersion_healthy(1) [OF ho] .
  have sm: "fst (Mssql_SetVersion ex_ms 9 False ex_sql_server) = None"
    using Mssql_SetVersion_healthy(1) [OF hm] .
  note t1 = at_most_one_version_record
    [where ora = ex_ora and b = "(ex_oracle_server\<lparr>faults := [None, None, None, None, None, None, Some ErrConnDone]\<rparr>)" and ms = ex_ms
       and c = "(ex_sql_server\<lparr>faults := [None, None, None, None, None, None, Some ErrConnDone]\<rparr>)" and cs = "[(1, False), (2, True), (- 1, False), (3, True)]"]
  note t2 = at_most_one_version_record
    [where ora = ex_ora and b = ex_oracle_server and ms = ex_ms and c = ex_sql_server
       and v = 9 and d = False]
  from t1 t2 ro rm so sm show ?thesis by blast
qed

text \<open>
  C5 (the lock is a binary state machine). \<^verbatim>\<open>Lock()\<close> on a locked instance fails with
  \<^verbatim>\<open>ErrLocked\<close> and changes nothing; \<^verbatim>\<open>Unlock()\<close> on an unlocked instance returns
  no error and changes nothing; and where the computation of the lock identifier
  succeeds, \<^verbatim>\<open>Unlock()\<close> returns no error and leaves the flag cleared, a \<^verbatim>\<open>Lock()\<close>
  after it returns no error and sets the flag, and a second \<^verbatim>\<open>Lock()\<close> without an
  \<^verbatim>\<open>Unlock()\<close> in between fails with \<^verbatim>\<open>ErrLocked\<close>. Both drivers.
\<close>

theorem Lock_is_a_binary_state_machine:
  "(isLocked ora \<longrightarrow> Oracle_Lock pkg ora b = (Some ErrLocked, ora, b)) \<and>
   (\<not> isLocked ora \<longrightarrow> Oracle_Unlock pkg ora b = (None, ora, b)) \<and>
   (GenerateAdvisoryLockId pkg (SchemaName (config ora)) [] = Inr aid \<longrightarrow>
      Oracle_Unlock pkg ora b = (None, ora\<lparr>isLocked := False\<rparr>, b) \<and>
      Oracle_Lock pkg (ora\<lparr>isLocked := False\<rparr>) b = (None, ora\<lparr>isLocked := True\<rparr>, b) \<and>
      Oracle_Lock pkg (ora\<lparr>isLocked := True\<rparr>) b =
        (Some ErrLocked, ora\<lparr>isLocked := True\<rparr>, b)) \<and>
   (isLocked ms \<longrightarrow> Mssql_Lock pkg ms c = (Some ErrLocked, ms, c)) \<and>
   (\<not> isLocked ms \<longrightarrow> Mssql_Unlock pkg ms c = (None, ms, c)) \<and>
   (GenerateAdvisoryLockId pkg (DatabaseName (config ms)) [SchemaName (config ms)] = Inr mid \<longrightarrow>
      Mssql_Unlock pkg ms c = (None, ms\<lparr>isLocked := False\<rparr>, c) \<and>
      Mssql_Lock pkg (ms\<lparr>isLocked := False\<rparr>) c = (None, ms\<lparr>isLocked := True\<rparr>, c) \<and>
      Mssql_Lock pkg (ms\<lparr>isLocked := True\<rparr>) c =
        (Some ErrLocked, ms\<lparr>isLocked := True\<rparr>, c))"
proof -
  have uo: "\<not> isLocked ora \<Longrightarrow> Oracle_Unlock pkg ora b = (None, ora, b)"
    by (simp add: Oracle_Unlock_def)
  have um: "\<not> isLocked ms \<Longrightarrow> Mssql_Unlock pkg ms c = (None, ms, c)"
    by (simp add: Mssql_Unlock_def)
  have lo: "isLocked ora \<Longrightarrow> Oracle_Lock pkg ora b = (Some ErrLocked, ora, b)"
    by (simp add: Oracle_Lock_def)
  have lm: "isLocked ms \<Longrightarrow> Mssql_Lock pkg ms c = (Some ErrLocked, ms, c)"
    by (simp add: Mssql_Lock_def)
  show ?thesis
    using uo um lo lm Oracle_Lock_Unlock_cycle [of pkg ora aid b]
      Mssql_Lock_Unlock_cycle [of pkg ms mid c]
    by blast
qed

theorem Lock_is_a_binary_state_machine_witness:
  "isLocked (ex_ora\<lparr>isLocked := True\<rparr>) \<and>
   Oracle_Lock ex_pkg (ex_ora\<lparr>isLocked := True\<rparr>) ex_oracle_server =
     (Some ErrLocked, ex_ora\<lparr>isLocked := True\<rparr>, ex_oracle_server) \<and>
   \<not> isLocked ex_ora \<and>
   Oracle_Unlock ex_pkg ex_ora ex_oracle_server = (None, ex_ora, ex_oracle_server) \<and>
   GenerateAdvisoryLockId ex_pkg (SchemaName (config ex_ora)) [] = Inr ''ORCL'' \<and>
   Oracle_Unlock ex_pkg (ex_ora\<lparr>isLocked := True\<rparr>) ex_oracle_server = (None, ex_ora\<lparr>isLocked := False\<rparr>, ex_oracle_server) \<and>
   Oracle_Lock ex_pkg (ex_ora\<lparr>isLocked := False\<rparr>) ex_oracle_server = (None, ex_ora\<lparr>isLocked := True\<rparr>, ex_oracle_server) \<and>
   isLocked (ex_ms\<lparr>isLocked := True\<rparr>) \<and>
   Mssql_Lock ex_pkg (ex_ms\<lparr>isLocked := True\<rparr>) ex_sql_server =
     (Some ErrLocked, ex_ms\<lparr>isLocked := True\<rparr>, ex_sql_server) \<and>
   \<not> isLocked ex_ms \<and>
   Mssql_Unlock ex_pkg ex_ms ex_sql_server = (None, ex_ms, ex_sql_server) \<and>
   GenerateAdvisoryLockId ex_pkg (DatabaseName (config ex_ms)) [SchemaName (config ex_ms)] = Inr ''dbomaster'' \<and>
   Mssql_Unlock ex_pkg (ex_ms\<lparr>isLocked := True\<rparr>) ex_sql_server = (None, ex_ms\<lparr>isLocked := False\<rparr>, ex_sql_server) \<and>
   Mssql_Lock ex_pkg (ex_ms\<lparr>isLocked := False\<rparr>) ex_sql_server = (None, ex_ms\<lparr>isLocked := True\<rparr>, ex_sql_server)"
proof -
  have lo: "isLocked (ex_ora\<lparr>isLocked := True\<rparr>)" "\<not> isLocked ex_ora"
    by (simp_all add: ex_ora_def)
  have lm: "isLocked (ex_ms\<lparr>isLocked := True\<rparr>)" "\<not> isLocked ex_ms"
    by (simp_all add: ex_ms_def)
  have go: "GenerateAdvisoryLockId ex_pkg (SchemaName (config ex_ora)) [] = Inr ''ORCL''"
    by (simp add: ex_pkg_def ex_ora_def)
  have gm: "GenerateAdvisoryLockId ex_pkg (DatabaseName (config ex_ms)) [SchemaName (config ex_ms)]
              = Inr ''dbomaster''"
    by (simp add: ex_pkg_def ex_ms_def)
  have go': "GenerateAdvisoryLockId ex_pkg (SchemaName (config (ex_ora\<lparr>isLocked := True\<rparr>))) []
               = Inr ''ORCL''"
    using go by simp
  have gm': "GenerateAdvisoryLockId ex_pkg (DatabaseName (config (ex_ms\<lparr>isLocked := True\<rparr>)))
               [SchemaName (config (ex_ms\<lparr>isLocked := True\<rparr>))] = Inr ''dbomaster''"
    using gm by simp
  note t1 = Lock_is_a_binary_state_machine
    [where ora = "ex_ora\<lparr>isLocked := True\<rparr>" and b = ex_oracle_server
       and ms = "ex_ms\<lparr>isLocked := True\<rparr>" and c = ex_sql_server and pkg = ex_pkg
       and aid = "''ORCL''" and mid = "''dbomaster''"]
  note t2 = Lock_is_a_binary_state_machine
    [where ora = ex_ora and b = ex_oracle_server and ms = ex_ms and c = ex_sql_server
       and pkg = ex_pkg]
  from t1 t2 lo lm go gm go' gm' show ?thesis by simp
qed

text \<open>
  C6 (\<^verbatim>\<open>Version\<close>: sentinel or wrapped error). \<^verbatim>\<open>Version()\<close> returns
  \<open>(NilVersion, false)\<close> and no error when the control table holds no row, and when
  the query fails with \<^verbatim>\<open>sql.ErrNoRows\<close> or with any error that implements the vendor
  error interface; when the query fails with any other error \<open>e\<close>, it returns
  \<open>(0, false)\<close> and the error \<^verbatim>\<open>database.Error{OrigErr: e, Query: query}\<close>. Both
  drivers.
\<close>

theorem Version_sentinel_or_wrapped_error:
  "(\<not> conn_closed (conn ora) \<and> next_ok b \<and>
    map_of (tables b) (MigrationsTable (config ora)) = Some [] \<longrightarrow>
      fst (Oracle_Version pkg ora b) = (NilVersion pkg, False, None)) \<and>
   (fst (Conn_QueryRowContext_Scan (conn ora) (Oracle_Version_query ora)
           (MigrationsTable (config ora)) b) = Inl e \<and>
    (e = ErrNoRows \<or> as_OraErr e \<noteq> None) \<longrightarrow>
      fst (Oracle_Version pkg ora b) = (NilVersion pkg, False, None)) \<and>
   (fst (Conn_QueryRowContext_Scan (conn ora) (Oracle_Version_query ora)
           (MigrationsTable (config ora)) b) = Inl e \<and>
    e \<noteq> ErrNoRows \<and> as_OraErr e = None \<longrightarrow>
      fst (Oracle_Version pkg ora b) =
        (0, False, Some (DatabaseError (Some e) [] (Oracle_Version_query ora)))) \<and>
   (\<not> conn_closed (conn ms) \<and> next_ok c \<and>
    map_of (tables c) (MigrationsTable (config ms)) = Some [] \<longrightarrow>
      fst (Mssql_Version pkg ms c) = (NilVersion pkg, False, None)) \<and>
   (fst (Conn_QueryRowContext_Scan (conn ms) (Mssql_Version_query ms)
           (MigrationsTable (config ms)) c) = Inl f \<and>
    (f = ErrNoRows \<or> as_SQLError f \<noteq> None) \<longrightarrow>
      fst (Mssql_Version pkg ms c) = (NilVersion pkg, False, None)) \<and>
   (fst (Conn_QueryRowContext_Scan (conn ms) (Mssql_Version_query ms)
           (MigrationsTable (config ms)) c) = Inl f \<and>
    f \<noteq> ErrNoRows \<and> as_SQLError f = None \<longrightarrow>
      fst (Mssql_Version pkg ms c) =
        (0, False, Some (DatabaseError (Some f) [] (Mssql_Version_query ms))))"
proof -
  have o1: "\<not> conn_closed (conn ora) \<and> next_ok b \<and>
      map_of (tables b) (MigrationsTable (config ora)) = Some [] \<Longrightarrow>
      fst (Oracle_Version pkg ora b) = (NilVersion pkg, False, None)"
    using Oracle_Version_no_row by blast
  have m1: "\<not> conn_closed (conn ms) \<and> next_ok c \<and>
      map_of (tables c) (MigrationsTable (config ms)) = Some [] \<Longrightarrow>
      fst (Mssql_Version pkg ms c) = (NilVersion pkg, False, None)"
    using Mssql_Version_no_row by blast
  have o2: "fst (Conn_QueryRowContext_Scan (conn ora) (Oracle_Version_query ora)
             (MigrationsTable (config ora)) b) = Inl e \<Longrightarrow>
      fst (Oracle_Version pkg ora b) =
        (if e = ErrNoRows \<or> as_OraErr e \<noteq> None then (NilVersion pkg, False, None)
         else (0, False, Some (DatabaseError (Some e) [] (Oracle_Version_query ora))))"
    by (rule Oracle_Version_fst)
  have m2: "fst (Conn_QueryRowContext_Scan (conn ms) (Mssql_Version_query ms)
             (MigrationsTable (config ms)) c) = Inl f \<Longrightarrow>
      fst (Mssql_Version pkg ms c) =
        (if f = ErrNoRows \<or> as_SQLError f \<noteq> None then (NilVersion pkg, False, None)
         else (0, False, Some (DatabaseError (Some f) [] (Mssql_Version_query ms))))"
    by (rule Mssql_Version_fst)
  show ?thesis
    by (intro conjI impI) (simp_all add: o1 m1 o2 m2)
qed

theorem Version_sentinel_or_wrapped_error_witness:
  "\<not> conn_closed (conn ex_ora) \<and>
   next_ok (ex_oracle_server\<lparr>tables := [(''schema_migrations'', [])]\<rparr>) \<and>
   map_of (tables (ex_oracle_server\<lparr>tables := [(''schema_migrations'', [])]\<rparr>)) (MigrationsTable (config ex_ora)) = Some [] \<and>
   fst (Oracle_Version ex_pkg ex_ora (ex_oracle_server\<lparr>tables := [(''schema_migrations'', [])]\<rparr>)) = (NilVersion ex_pkg, False, None) \<and>
   fst (Conn_QueryRowContext_Scan (conn ex_ora) (Oracle_Version_query ex_ora)
        (MigrationsTable (config ex_ora)) (ex_oracle_server\<lparr>tables := []\<rparr>)) = Inl (OraError 942 ''table or view does not exist'') \<and>
   as_OraErr (OraError 942 ''table or view does not exist'') \<noteq> None \<and>
   fst (Oracle_Version ex_pkg ex_ora (ex_oracle_server\<lparr>tables := []\<rparr>)) = (NilVersion ex_pkg, False, None) \<and>
   fst (Conn_QueryRowContext_Scan (conn ex_ora) (Oracle_Version_query ex_ora)
        (MigrationsTable (config ex_ora)) (ex_oracle_server\<lparr>faults := [Some (PlainError ''driver: bad connection'')]\<rparr>)) = Inl (PlainError ''driver: bad connection'') \<and>
   PlainError ''driver: bad connection'' \<noteq> ErrNoRows \<and>
   as_OraErr (PlainError ''driver: bad connection'') = None \<and>
   fst (Oracle_Version ex_pkg ex_ora (ex_oracle_server\<lparr>faults := [Some (PlainError ''driver: bad connection'')]\<rparr>)) =
     (0, False, Some (DatabaseError (Some (PlainError ''driver: bad connection'')) []
                        (Oracle_Version_query ex_ora))) \<and>
   \<not> conn_closed (conn ex_ms) \<and>
   next_ok (ex_sql_server\<lparr>tables := [(''schema_migrations'', [])]\<rparr>) \<and>
   map_of (tables (ex_sql_server\<lparr>tables := [(''schema_migrations'', [])]\<rparr>)) (MigrationsTable (config ex_ms)) = Some [] \<and>
   fst (Mssql_Version ex_pkg ex_ms (ex_sql_server\<lparr>tables := [(''schema_migrations'', [])]\<rparr>)) = (NilVersion ex_pkg, False, None) \<and>
   fst (Conn_QueryRowContext_Scan (conn ex_ms) (Mssql_Version_query ex_ms)
        (MigrationsTable (config ex_ms)) (ex_sql_server\<lparr>tables := []\<rparr>)) = Inl (MssqlError 208 ''Invalid object name'') \<and>
   as_SQLError (MssqlError 208 ''Invalid object name'') \<noteq> None \<and>
   fst (Mssql_Version ex_pkg ex_ms (ex_sql_server\<lparr>tables := []\<rparr>)) = (NilVersion ex_pkg, False, None) \<and>
   fst (Conn_QueryRowContext_Scan (conn ex_ms) (Mssql_Version_query ex_ms)
        (MigrationsTable (config ex_ms)) (ex_sql_server\<lparr>faults := [Some (PlainError ''driver: bad connection'')]\<rparr>)) = Inl (PlainError ''driver: bad connection'') \<and>
   as_SQLError (PlainError ''driver: bad connection'') = None \<and>
   fst (Mssql_Version ex_pkg ex_ms (ex_sql_server\<lparr>faults := [Some (PlainError ''driver: bad connection'')]\<rparr>)) =
     (0, False, Some (DatabaseError (Some (PlainError ''driver: bad connection'')) []
                        (Mssql_Version_query ex_ms)))"
proof -
  have ao: "\<not> conn_closed (conn ex_ora)" "next_ok (ex_oracle_server\<lparr>tables := [(''schema_migrations'', [])]\<rparr>)"
    "map_of (tables (ex_oracle_server\<lparr>tables := [(''schema_migrations'', [])]\<rparr>)) (MigrationsTable (config ex_ora)) = Some []"
    by (simp_all add: ex_ora_def ex_oracle_server_def next_ok_def)
  have bo: "fst (Conn_QueryRowContext_Scan (conn ex_ora) (Oracle_Version_query ex_ora)
        (MigrationsTable (config ex_ora)) (ex_oracle_server\<lparr>tables := []\<rparr>)) = Inl (OraError 942 ''table or view does not exist'')"
    by (simp add: Conn_QueryRowContext_Scan_def respond_def release_def rolled_back_def ex_ora_def ex_oracle_server_def)
  have co: "fst (Conn_QueryRowContext_Scan (conn ex_ora) (Oracle_Version_query ex_ora)
        (MigrationsTable (config ex_ora)) (ex_oracle_server\<lparr>faults := [Some (PlainError ''driver: bad connection'')]\<rparr>)) = Inl (PlainError ''driver: bad connection'')"
    by (simp add: Conn_QueryRowContext_Scan_def respond_def release_def rolled_back_def ex_ora_def ex_oracle_server_def)
  have do: "as_OraErr (OraError 942 ''table or view does not exist'') \<noteq> None" "PlainError ''driver: bad connection'' \<noteq> ErrNoRows"
    "as_OraErr (PlainError ''driver: bad connection'') = None"
    by simp_all
  have am: "\<not> conn_closed (conn ex_ms)" "next_ok (ex_sql_server\<lparr>tables := [(''schema_migrations'', [])]\<rparr>)"
    "map_of (tables (ex_sql_server\<lparr>tables := [(''schema_migrations'', [])]\<rparr>)) (MigrationsTable (config ex_ms)) = Some []"
    by (simp_all add: ex_ms_def ex_sql_server_def next_ok_def)
  have bm: "fst (Conn_QueryRowContext_Scan (conn ex_ms) (Mssql_Version_query ex_ms)
        (MigrationsTable (config ex_ms)) (ex_sql_server\<lparr>tables := []\<rparr>)) = Inl (MssqlError 208 ''Invalid object name'')"
    by (simp add: Conn_QueryRowContext_Scan_def respond_def release_def rolled_back_def ex_ms_def ex_sql_server_def)
  have cm: "fst (Conn_QueryRowContext_Scan (conn ex_ms) (Mssql_Version_query ex_ms)
        (MigrationsTable (config ex_ms)) (ex_sql_server\<lparr>faults := [Some (PlainError ''driver: bad connection'')]\<rparr>)) = Inl (PlainError ''driver: bad connection'')"
    by (simp add: Conn_QueryRowContext_Scan_def respond_def release_def rolled_back_def ex_ms_def ex_sql_server_def)
  have dm: "as_SQLError (MssqlError 208 ''Invalid object name'') \<noteq> None" "PlainError ''driver: bad connection'' \<noteq> ErrNoRows"
    "as_SQLError (PlainError ''driver: bad connection'') = None"
    by simp_all
  note t1 = Version_sentinel_or_wrapped_error
    [where ora = ex_ora and b = "(ex_oracle_server\<lparr>tables := [(''schema_migrations'', [])]\<rparr>)" and ms = ex_ms
       and c = "(ex_sql_server\<lparr>tables := [(''schema_migrations'', [])]\<rparr>)" and pkg = ex_pkg]
  note t2 = Version_sentinel_or_wrapped_error
    [where ora = ex_ora and b = "(ex_oracle_server\<lparr>tables := []\<rparr>)" and ms = ex_ms
       and c = "(ex_sql_server\<lparr>tables := []\<rparr>)" and pkg = ex_pkg
       and e = "OraError 942 ''table or view does not exist''" and f = "MssqlError 208 ''Invalid object name''"]
  note t3 = Version_sentinel_or_wrapped_error
    [where ora = ex_ora and b = "(ex_oracle_server\<lparr>faults := [Some (PlainError ''driver: bad connection'')]\<rparr>)" and ms = ex_ms
       and c = "(ex_sql_server\<lparr>faults := [Some (PlainError ''driver: bad connection'')]\<rparr>)" and pkg = ex_pkg
       and e = "PlainError ''driver: bad connection''"
       and f = "PlainError ''driver: bad connection''"]
  from t1 t2 t3 ao bo co do am bm cm dm show ?thesis by simp
qed

text \<open>
  C7 (\<^verbatim>\<open>WithInstance\<close> discovers the identity). Whenever \<^verbatim>\<open>WithInstance\<close> returns a
  driver, the \<^verbatim>\<open>Config\<close> of the driver, which is the caller's \<^verbatim>\<open>Config\<close>, holds the
  names the server reported (\<^verbatim>\<open>SchemaName\<close> for Oracle, \<^verbatim>\<open>DatabaseName\<close> and
  \<^verbatim>\<open>SchemaName\<close> for MSSQL), whatever the caller had supplied there, these names are
  not empty, and \<^verbatim>\<open>MigrationsTable\<close> is the supplied name, or
  \<^verbatim>\<open>"schema_migrations"\<close> when none was supplied. When the ping and the query go
  through and the server reports an empty name, the Oracle driver fails with
  \<^verbatim>\<open>ErrNoSchema\<close> and the MSSQL driver with \<^verbatim>\<open>ErrNoDatabaseName\<close> (with
  \<^verbatim>\<open>ErrNoSchema\<close> when its database name is there and its schema name is empty).
\<close>

theorem WithInstance_stores_discovered_identity:
  "(fst (Oracle_WithInstance pkg handle (Some cfg) b) = Inr ora \<longrightarrow>
      SchemaName (config ora) = db_name b \<and> db_name b \<noteq> [] \<and>
      MigrationsTable (config ora) =
        (if MigrationsTable cfg = [] then DefaultMigrationsTable else MigrationsTable cfg) \<and>
      fst (snd (Oracle_WithInstance pkg handle (Some cfg) b)) = Some (config ora)) \<and>
   (\<not> db_closed handle \<and> calls_ok 2 b \<and> db_name b = [] \<longrightarrow>
      fst (Oracle_WithInstance pkg handle (Some cfg) b) = Inl ErrNoSchema) \<and>
   (fst (Mssql_WithInstance pkg mhandle (Some mcfg) c) = Inr ms \<longrightarrow>
      DatabaseName (config ms) = db_name c \<and> db_name c \<noteq> [] \<and> SchemaName (config ms) = schema_name c \<and> schema_name c \<noteq> [] \<and>
      MigrationsTable (config ms) =
        (if MigrationsTable mcfg = [] then DefaultMigrationsTable else MigrationsTable mcfg) \<and>
      fst (snd (Mssql_WithInstance pkg mhandle (Some mcfg) c)) = Some (config ms)) \<and>
   (\<not> db_closed mhandle \<and> calls_ok 2 c \<and> db_name c = [] \<longrightarrow>
      fst (Mssql_WithInstance pkg mhandle (Some mcfg) c) = Inl ErrNoDatabaseName) \<and>
   (\<not> db_closed mhandle \<and> calls_ok 3 c \<and> db_name c \<noteq> [] \<and> schema_name c = [] \<longrightarrow>
      fst (Mssql_WithInstance pkg mhandle (Some mcfg) c) = Inl ErrNoSchema)"
proof -
  have o2: "\<not> db_closed handle \<and> calls_ok 2 b \<and> db_name b = [] \<Longrightarrow>
      fst (Oracle_WithInstance pkg handle (Some cfg) b) = Inl ErrNoSchema"
    using Oracle_WithInstance_no_name by blast
  have m2: "\<not> db_closed mhandle \<and> calls_ok 2 c \<and> db_name c = [] \<Longrightarrow>
      fst (Mssql_WithInstance pkg mhandle (Some mcfg) c) = Inl ErrNoDatabaseName"
    using Mssql_WithInstance_no_name by blast
  have m3: "\<not> db_closed mhandle \<and> calls_ok 3 c \<and> db_name c \<noteq> [] \<and> schema_name c = [] \<Longrightarrow>
      fst (Mssql_WithInstance pkg mhandle (Some mcfg) c) = Inl ErrNoSchema"
    using Mssql_WithInstance_no_schema by blast
  show ?thesis
    using Oracle_WithInstance_done [of pkg handle cfg b ora]
      Mssql_WithInstance_done [of pkg mhandle mcfg c ms] o2 m2 m3
    by blast
qed

theorem WithInstance_stores_discovered_identity_witness:
  "fst (Oracle_WithInstance ex_pkg \<lparr>db_closed = False\<rparr> (Some \<lparr>MigrationsTable = [], SchemaName = ''elsewhere''\<rparr>) ex_oracle_server) = Inr ex_ora \<and>
   SchemaName (config ex_ora) = db_name ex_oracle_server \<and> db_name ex_oracle_server \<noteq> [] \<and>
   MigrationsTable (config ex_ora) = DefaultMigrationsTable \<and>
   fst (snd (Oracle_WithInstance ex_pkg \<lparr>db_closed = False\<rparr> (Some \<lparr>MigrationsTable = [], SchemaName = ''elsewhere''\<rparr>) ex_oracle_server)) = Some (config ex_ora) \<and>
   \<not> db_closed \<lparr>db_closed = False\<rparr> \<and>
   calls_ok 2 (ex_oracle_server\<lparr>db_name := []\<rparr>) \<and>
   db_name (ex_oracle_server\<lparr>db_name := []\<rparr>) = [] \<and>
   fst (Oracle_WithInstance ex_pkg \<lparr>db_closed = False\<rparr> (Some \<lparr>MigrationsTable = [], SchemaName = ''elsewhere''\<rparr>) (ex_oracle_server\<lparr>db_name := []\<rparr>)) = Inl ErrNoSchema \<and>
   fst (Mssql_WithInstance ex_pkg \<lparr>db_closed = False\<rparr> (Some \<lparr>MigrationsTable = [], SchemaName = ''elsewhere'', DatabaseName = ''other''\<rparr>) ex_sql_server) = Inr ex_ms \<and>
   DatabaseName (config ex_ms) = db_name ex_sql_server \<and> db_name ex_sql_server \<noteq> [] \<and> SchemaName (config ex_ms) = schema_name ex_sql_server \<and> schema_name ex_sql_server \<noteq> [] \<and>
   MigrationsTable (config ex_ms) = DefaultMigrationsTable \<and>
   fst (snd (Mssql_WithInstance ex_pkg \<lparr>db_closed = False\<rparr> (Some \<lparr>MigrationsTable = [], SchemaName = ''elsewhere'', DatabaseName = ''other''\<rparr>) ex_sql_server)) = Some (config ex_ms) \<and>
   calls_ok 2 (ex_sql_server\<lparr>db_name := []\<rparr>) \<and>
   db_name (ex_sql_server\<lparr>db_name := []\<rparr>) = [] \<and>
   fst (Mssql_WithInstance ex_pkg \<lparr>db_closed = False\<rparr> (Some \<lparr>MigrationsTable = [], SchemaName = ''elsewhere'', DatabaseName = ''other''\<rparr>) (ex_sql_server\<lparr>db_name := []\<rparr>)) = Inl ErrNoDatabaseName \<and>
   calls_ok 3 (ex_sql_server\<lparr>schema_name := []\<rparr>) \<and>
   db_name (ex_sql_server\<lparr>schema_name := []\<rparr>) \<noteq> [] \<and>
   schema_name (ex_sql_server\<lparr>schema_name := []\<rparr>) = [] \<and>
   fst (Mssql_WithInstance ex_pkg \<lparr>db_closed = False\<rparr> (Some \<lparr>MigrationsTable = [], SchemaName = ''elsewhere'', DatabaseName = ''other''\<rparr>) (ex_sql_server\<lparr>schema_name := []\<rparr>)) = Inl ErrNoSchema"
proof -
  have ro: "fst (Oracle_WithInstance ex_pkg \<lparr>db_closed = False\<rparr> (Some \<lparr>MigrationsTable = [], SchemaName = ''elsewhere''\<rparr>) ex_oracle_server) = Inr ex_ora"
    by (simp add: Oracle_WithInstance_def DB_Ping_def DB_QueryRow_Scan_def DB_Conn_def
        Oracle_ensureVersionTable_def Oracle_ensureVersionTable_body_def Oracle_Lock_def Oracle_Unlock_def
        Conn_ExecContext_def respond_def release_def rolled_back_def Let_def DefaultMigrationsTable_def
        ex_pkg_def ex_ora_def ex_oracle_server_def)
  have no: "\<not> db_closed \<lparr>db_closed = False\<rparr>" "calls_ok 2 (ex_oracle_server\<lparr>db_name := []\<rparr>)" "db_name (ex_oracle_server\<lparr>db_name := []\<rparr>) = []"
    by (simp_all add: calls_ok_def ex_oracle_server_def)
  have rm: "fst (Mssql_WithInstance ex_pkg \<lparr>db_closed = False\<rparr> (Some \<lparr>MigrationsTable = [], SchemaName = ''elsewhere'', DatabaseName = ''other''\<rparr>) ex_sql_server) = Inr ex_ms"
    by (simp add: Mssql_WithInstance_def DB_Ping_def DB_QueryRow_Scan_def DB_Conn_def
        Mssql_ensureVersionTable_def Mssql_ensureVersionTable_body_def Mssql_Lock_def Mssql_Unlock_def
        Conn_ExecContext_def respond_def release_def rolled_back_def Let_def DefaultMigrationsTable_def
        ex_pkg_def ex_ms_def ex_sql_server_def)
  have nm: "\<not> db_closed \<lparr>db_closed = False\<rparr>" "calls_ok 2 (ex_sql_server\<lparr>db_name := []\<rparr>)" "db_name (ex_sql_server\<lparr>db_name := []\<rparr>) = []"
    by (simp_all add: calls_ok_def ex_sql_server_def)
  have s: "calls_ok 3 (ex_sql_server\<lparr>schema_name := []\<rparr>)" "db_name (ex_sql_server\<lparr>schema_name := []\<rparr>) \<noteq> []"
    "schema_name (ex_sql_server\<lparr>schema_name := []\<rparr>) = []"
    by (simp_all add: calls_ok_def ex_sql_server_def)
  have i: "MigrationsTable \<lparr>MigrationsTable = [], SchemaName = ''elsewhere''\<rparr> = []"
    "MigrationsTable \<lparr>MigrationsTable = [], SchemaName = ''elsewhere'', DatabaseName = ''other''\<rparr> = []"
    by simp_all
  note t1 = WithInstance_stores_discovered_identity
    [where pkg = ex_pkg and handle = "\<lparr>db_closed = False\<rparr>" and mhandle = "\<lparr>db_closed = False\<rparr>"
       and cfg = "\<lparr>MigrationsTable = [], SchemaName = ''elsewhere''\<rparr>" and mcfg = "\<lparr>MigrationsTable = [], SchemaName = ''elsewhere'', DatabaseName = ''other''\<rparr>"
       and b = ex_oracle_server and c = ex_sql_server and ora = ex_ora and ms = ex_ms]
  note t2 = WithInstance_stores_discovered_identity
    [where pkg = ex_pkg and handle = "\<lparr>db_closed = False\<rparr>" and mhandle = "\<lparr>db_closed = False\<rparr>"
       and cfg = "\<lparr>MigrationsTable = [], SchemaName = ''elsewhere''\<rparr>" and mcfg = "\<lparr>MigrationsTable = [], SchemaName = ''elsewhere'', DatabaseName = ''other''\<rparr>"
       and b = "(ex_oracle_server\<lparr>db_name := []\<rparr>)" and c = "(ex_sql_server\<lparr>db_name := []\<rparr>)"]
  note t3 = WithInstance_stores_discovered_identity
    [where pkg = ex_pkg and mhandle = "\<lparr>db_closed = False\<rparr>"
       and mcfg = "\<lparr>MigrationsTable = [], SchemaName = ''elsewhere'', DatabaseName = ''other''\<rparr>" and c = "(ex_sql_server\<lparr>schema_name := []\<rparr>)"]
  have c1: "fst (Oracle_WithInstance ex_pkg \<lparr>db_closed = False\<rparr> (Some \<lparr>MigrationsTable = [], SchemaName = ''elsewhere''\<rparr>) ex_oracle_server) = Inr ex_ora \<and>
     SchemaName (config ex_ora) = db_name ex_oracle_server \<and> db_name ex_oracle_server \<noteq> [] \<and>
     MigrationsTable (config ex_ora) = DefaultMigrationsTable \<and>
     fst (snd (Oracle_WithInstance ex_pkg \<lparr>db_closed = False\<rparr> (Some \<lparr>MigrationsTable = [], SchemaName = ''elsewhere''\<rparr>) ex_oracle_server)) = Some (config ex_ora) \<and>
     fst (Mssql_WithInstance ex_pkg \<lparr>db_closed = False\<rparr> (Some \<lparr>MigrationsTable = [], SchemaName = ''elsewhere'', DatabaseName = ''other''\<rparr>) ex_sql_server) = Inr ex_ms \<and>
     DatabaseName (config ex_ms) = db_name ex_sql_server \<and> db_name ex_sql_server \<noteq> [] \<and> SchemaName (config ex_ms) = schema_name ex_sql_server \<and> schema_name ex_sql_server \<noteq> [] \<and>
     MigrationsTable (config ex_ms) = DefaultMigrationsTable \<and>
     fst (snd (Mssql_WithInstance ex_pkg \<lparr>db_closed = False\<rparr> (Some \<lparr>MigrationsTable = [], SchemaName = ''elsewhere'', DatabaseName = ''other''\<rparr>) ex_sql_server)) = Some (config ex_ms)"
    using t1 ro rm i by simp
  have c2: "\<not> db_closed \<lparr>db_closed = False\<rparr> \<and>
     calls_ok 2 (ex_oracle_server\<lparr>db_name := []\<rparr>) \<and>
     db_name (ex_oracle_server\<lparr>db_name := []\<rparr>) = [] \<and>
     fst (Oracle_WithInstance ex_pkg \<lparr>db_closed = False\<rparr> (Some \<lparr>MigrationsTable = [], SchemaName = ''elsewhere''\<rparr>) (ex_oracle_server\<lparr>db_name := []\<rparr>)) = Inl ErrNoSchema \<and>
     calls_ok 2 (ex_sql_server\<lparr>db_name := []\<rparr>) \<and>
     db_name (ex_sql_server\<lparr>db_name := []\<rparr>) = [] \<and>
     fst (Mssql_WithInstance ex_pkg \<lparr>db_closed = False\<rparr> (Some \<lparr>MigrationsTable = [], SchemaName = ''elsewhere'', DatabaseName = ''other''\<rparr>) (ex_sql_server\<lparr>db_name := []\<rparr>)) = Inl ErrNoDatabaseName"
    using t2 no nm by simp
  have c3: "fst (Mssql_WithInstance ex_pkg \<lparr>db_closed = False\<rparr> (Some \<lparr>MigrationsTable = [], SchemaName = ''elsewhere'', DatabaseName = ''other''\<rparr>) (ex_sql_server\<lparr>schema_name := []\<rparr>)) = Inl ErrNoSchema"
    using t3 s nm(1) by simp
  from c1 c2 c3 s show ?thesis by simp
qed

text \<open>
  C8 as stated fails where it says "every error \<^verbatim>\<open>Run\<close> returns": when the payload
  cannot be read to the end, \<^verbatim>\<open>Run\<close> returns the read error as it is, with no
  payload and no tag attached.
\<close>

theorem Run_read_error_counterexample:
  "fst (Oracle_Run ex_ora \<lparr>content = ''CREATE TA'', read_error = Some (PlainError ''unexpected EOF'')\<rparr> ex_oracle_server) = Some (PlainError ''unexpected EOF'') \<and>
   Query_of (PlainError ''unexpected EOF'') = None \<and>
   Err_of (PlainError ''unexpected EOF'') = None \<and>
   fst (Mssql_Run ex_ms \<lparr>content = ''CREATE TA'', read_error = Some (PlainError ''unexpected EOF'')\<rparr> ex_sql_server) = Some (PlainError ''unexpected EOF'')"
  by (simp add: Oracle_Run_def Mssql_Run_def ReadAll_def)

text \<open>
  C8, amended. When the payload has been read to the end, \<^verbatim>\<open>Run\<close> returns nil if
  executing it succeeds, and otherwise a \<^verbatim>\<open>database.Error\<close> that carries the original
  raw payload bytes and the very error the execution returned, tagged with the vendor
  message when that error implements the vendor error interface and with
  \<^verbatim>\<open>"migration failed"\<close> otherwise. A failure to read the payload to the end is
  returned as the read error itself, with nothing attached, and then nothing is executed
  and nothing changes. Both drivers.
\<close>

theorem Run_error_carries_payload_unless_read_fails:
  "(read_error migration = None \<and>
    fst (Conn_ExecContext (conn ora) (content migration) Script b) = Some x \<longrightarrow>
      fst (Oracle_Run ora migration b) =
        Some (DatabaseError (Some x)
                (case as_OraErr x of Some msg \<Rightarrow> msg | None \<Rightarrow> ''migration failed'')
                (content migration))) \<and>
   (read_error migration = None \<and>
    fst (Conn_ExecContext (conn ora) (content migration) Script b) = None \<longrightarrow>
      fst (Oracle_Run ora migration b) = None) \<and>
   (read_error migration = None \<and> fst (Oracle_Run ora migration b) = Some e \<longrightarrow>
      Query_of e = Some (content migration) \<and>
      (\<exists>orig. e = DatabaseError (Some orig)
                   (case as_OraErr orig of Some m \<Rightarrow> m | None \<Rightarrow> ''migration failed'')
                   (content migration))) \<and>
   (read_error migration = Some err \<longrightarrow> Oracle_Run ora migration b = (Some err, ora, b)) \<and>
   (read_error mmigration = None \<and>
    fst (Conn_ExecContext (conn ms) (content mmigration) Script c) = Some y \<longrightarrow>
      fst (Mssql_Run ms mmigration c) =
        Some (DatabaseError (Some y)
                (case as_SQLError y of Some msg \<Rightarrow> msg | None \<Rightarrow> ''migration failed'')
                (content mmigration))) \<and>
   (read_error mmigration = None \<and>
    fst (Conn_ExecContext (conn ms) (content mmigration) Script c) = None \<longrightarrow>
      fst (Mssql_Run ms mmigration c) = None) \<and>
   (read_error mmigration = None \<and> fst (Mssql_Run ms mmigration c) = Some f \<longrightarrow>
      Query_of f = Some (content mmigration) \<and>
      (\<exists>orig. f = DatabaseError (Some orig)
                   (case as_SQLError orig of Some m \<Rightarrow> m | None \<Rightarrow> ''migration failed'')
                   (content mmigration))) \<and>
   (read_error mmigration = Some merr \<longrightarrow> Mssql_Run ms mmigration c = (Some merr, ms, c))"
proof -
  have o: "read_error migration = None \<and> fst (Oracle_Run ora migration b) = Some e \<Longrightarrow>
      \<exists>orig. e = DatabaseError (Some orig)
                   (case as_OraErr orig of Some m \<Rightarrow> m | None \<Rightarrow> ''migration failed'')
                   (content migration)"
    using Oracle_Run_exec_error by blast
  have m: "read_error mmigration = None \<and> fst (Mssql_Run ms mmigration c) = Some f \<Longrightarrow>
      \<exists>orig. f = DatabaseError (Some orig)
                   (case as_SQLError orig of Some m \<Rightarrow> m | None \<Rightarrow> ''migration failed'')
                   (content mmigration)"
    using Mssql_Run_exec_error by blast
  have q: "\<And>x orig t p. x = DatabaseError (Some orig) t p \<Longrightarrow> Query_of x = Some p"
    by simp
  have xo: "read_error migration = None \<Longrightarrow>
      fst (Oracle_Run ora migration b) =
        (case fst (Conn_ExecContext (conn ora) (content migration) Script b) of
           None \<Rightarrow> None
         | Some err \<Rightarrow>
             Some (DatabaseError (Some err)
                     (case as_OraErr err of Some m \<Rightarrow> m | None \<Rightarrow> ''migration failed'')
                     (content migration)))"
    by (rule Oracle_Run_exec)
  have xm: "read_error mmigration = None \<Longrightarrow>
      fst (Mssql_Run ms mmigration c) =
        (case fst (Conn_ExecContext (conn ms) (content mmigration) Script c) of
           None \<Rightarrow> None
         | Some err \<Rightarrow>
             Some (DatabaseError (Some err)
                     (case as_SQLError err of Some m \<Rightarrow> m | None \<Rightarrow> ''migration failed'')
                     (content mmigration)))"
    by (rule Mssql_Run_exec)
  have o1: "read_error migration = None \<and>
      fst (Conn_ExecContext (conn ora) (content migration) Script b) = Some x \<longrightarrow>
      fst (Oracle_Run ora migration b) =
        Some (DatabaseError (Some x)
                (case as_OraErr x of Some msg \<Rightarrow> msg | None \<Rightarrow> ''migration failed'')
                (content migration))"
    using xo by simp
  have o2: "read_error migration = None \<and>
      fst (Conn_ExecContext (conn ora) (content migration) Script b) = None \<longrightarrow>
      fst (Oracle_Run ora migration b) = None"
    using xo by simp
  have m1: "read_error mmigration = None \<and>
      fst (Conn_ExecContext (conn ms) (content mmigration) Script c) = Some y \<longrightarrow>
      fst (Mssql_Run ms mmigration c) =
        Some (DatabaseError (Some y)
                (case as_SQLError y of Some msg \<Rightarrow> msg | None \<Rightarrow> ''migration failed'')
                (content mmigration))"
    using xm by simp
  have m2: "read_error mmigration = None \<and>
      fst (Conn_ExecContext (conn ms) (content mmigration) Script c) = None \<longrightarrow>
      fst (Mssql_Run ms mmigration c) = None"
    using xm by simp
  have o3: "read_error migration = None \<and> fst (Oracle_Run ora migration b) = Some e \<longrightarrow>
      Query_of e = Some (content migration) \<and>
      (\<exists>orig. e = DatabaseError (Some orig)
                   (case as_OraErr orig of Some m \<Rightarrow> m | None \<Rightarrow> ''migration failed'')
                   (content migration))"
    using o q by blast
  have m3: "read_error mmigration = None \<and> fst (Mssql_Run ms mmigration c) = Some f \<longrightarrow>
      Query_of f = Some (content mmigration) \<and>
      (\<exists>orig. f = DatabaseError (Some orig)
                   (case as_SQLError orig of Some m \<Rightarrow> m | None \<Rightarrow> ''migration failed'')
                   (content mmigration))"
    using m q by blast
  have o4: "read_error migration = Some err \<longrightarrow> Oracle_Run ora migration b = (Some err, ora, b)"
    using Oracle_Run_read_error [of migration err ora b] by blast
  have m4: "read_error mmigration = Some merr \<longrightarrow>
      Mssql_Run ms mmigration c = (Some merr, ms, c)"
    using Mssql_Run_read_error [of mmigration merr ms c] by blast
  from o1 o2 o3 o4 m1 m2 m3 m4 show ?thesis
    by (intro conjI)
qed

theorem Run_error_carries_payload_unless_read_fails_witness:
  "read_error \<lparr>content = ''CREATE TABLE t (id INT)'', read_error = None\<rparr> = None \<and>
   fst (Conn_ExecContext (conn ex_ora) (content \<lparr>content = ''CREATE TABLE t (id INT)'', read_error = None\<rparr>) Script (ex_oracle_server\<lparr>faults := [Some (OraError 942 ''table or view does not exist'')]\<rparr>)) = Some (OraError 942 ''table or view does not exist'') \<and>
   fst (Oracle_Run ex_ora \<lparr>content = ''CREATE TABLE t (id INT)'', read_error = None\<rparr> (ex_oracle_server\<lparr>faults := [Some (OraError 942 ''table or view does not exist'')]\<rparr>)) =
     Some (DatabaseError (Some (OraError 942 ''table or view does not exist'')) ''table or view does not exist'' ''CREATE TABLE t (id INT)'') \<and>
   Query_of (DatabaseError (Some (OraError 942 ''table or view does not exist'')) ''table or view does not exist'' ''CREATE TABLE t (id INT)'') =
     Some (content \<lparr>content = ''CREATE TABLE t (id INT)'', read_error = None\<rparr>) \<and>
   fst (Conn_ExecContext (conn ex_ora) (content \<lparr>content = ''CREATE TABLE t (id INT)'', read_error = None\<rparr>) Script (ex_oracle_server\<lparr>faults := [Some (PlainError ''connection reset by peer'')]\<rparr>)) = Some (PlainError ''connection reset by peer'') \<and>
   fst (Oracle_Run ex_ora \<lparr>content = ''CREATE TABLE t (id INT)'', read_error = None\<rparr> (ex_oracle_server\<lparr>faults := [Some (PlainError ''connection reset by peer'')]\<rparr>)) =
     Some (DatabaseError (Some (PlainError ''connection reset by peer'')) ''migration failed'' ''CREATE TABLE t (id INT)'') \<and>
   fst (Conn_ExecContext (conn ex_ora) (content \<lparr>content = ''CREATE TABLE t (id INT)'', read_error = None\<rparr>) Script ex_oracle_server) = None \<and>
   fst (Oracle_Run ex_ora \<lparr>content = ''CREATE TABLE t (id INT)'', read_error = None\<rparr> ex_oracle_server) = None \<and>
   read_error \<lparr>content = ''CREATE TA'', read_error = Some (PlainError ''unexpected EOF'')\<rparr> = Some (PlainError ''unexpected EOF'') \<and>
   Oracle_Run ex_ora \<lparr>content = ''CREATE TA'', read_error = Some (PlainError ''unexpected EOF'')\<rparr> ex_oracle_server = (Some (PlainError ''unexpected EOF''), ex_ora, ex_oracle_server) \<and>
   fst (Conn_ExecContext (conn ex_ms) (content \<lparr>content = ''CREATE TABLE t (id INT)'', read_error = None\<rparr>) Script (ex_sql_server\<lparr>faults := [Some (MssqlError 208 ''Invalid object name'')]\<rparr>)) = Some (MssqlError 208 ''Invalid object name'') \<and>
   fst (Mssql_Run ex_ms \<lparr>content = ''CREATE TABLE t (id INT)'', read_error = None\<rparr> (ex_sql_server\<lparr>faults := [Some (MssqlError 208 ''Invalid object name'')]\<rparr>)) =
     Some (DatabaseError (Some (MssqlError 208 ''Invalid object name'')) ''Invalid object name'' ''CREATE TABLE t (id INT)'') \<and>
   Query_of (DatabaseError (Some (MssqlError 208 ''Invalid object name'')) ''Invalid object name'' ''CREATE TABLE t (id INT)'') =
     Some (content \<lparr>content = ''CREATE TABLE t (id INT)'', read_error = None\<rparr>) \<and>
   fst (Conn_ExecContext (conn ex_ms) (content \<lparr>content = ''CREATE TABLE t (id INT)'', read_error = None\<rparr>) Script (ex_sql_server\<lparr>faults := [Some (PlainError ''connection reset by peer'')]\<rparr>)) = Some (PlainError ''connection reset by peer'') \<and>
   fst (Mssql_Run ex_ms \<lparr>content = ''CREATE TABLE t (id INT)'', read_error = None\<rparr> (ex_sql_server\<lparr>faults := [Some (PlainError ''connection reset by peer'')]\<rparr>)) =
     Some (DatabaseError (Some (PlainError ''connection reset by peer'')) ''migration failed'' ''CREATE TABLE t (id INT)'') \<and>
   fst (Conn_ExecContext (conn ex_ms) (content \<lparr>content = ''CREATE TABLE t (id INT)'', read_error = None\<rparr>) Script ex_sql_server) = None \<and>
   fst (Mssql_Run ex_ms \<lparr>content = ''CREATE TABLE t (id INT)'', read_error = None\<rparr> ex_sql_server) = None \<and>
   Mssql_Run ex_ms \<lparr>content = ''CREATE TA'', read_error = Some (PlainError ''unexpected EOF'')\<rparr> ex_sql_server = (Some (PlainError ''unexpected EOF''), ex_ms, ex_sql_server)"
proof -
  have ev: "fst (Conn_ExecContext (conn ex_ora) (content \<lparr>content = ''CREATE TABLE t (id INT)'', read_error = None\<rparr>) Script (ex_oracle_server\<lparr>faults := [Some (OraError 942 ''table or view does not exist'')]\<rparr>)) = Some (OraError 942 ''table or view does not exist'')"
    "fst (Conn_ExecContext (conn ex_ms) (content \<lparr>content = ''CREATE TABLE t (id INT)'', read_error = None\<rparr>) Script (ex_sql_server\<lparr>faults := [Some (MssqlError 208 ''Invalid object name'')]\<rparr>)) = Some (MssqlError 208 ''Invalid object name'')"
    by (simp_all add: Conn_ExecContext_def respond_def release_def Let_def
        ex_ora_def ex_ms_def ex_oracle_server_def ex_sql_server_def)
  have ep: "fst (Conn_ExecContext (conn ex_ora) (content \<lparr>content = ''CREATE TABLE t (id INT)'', read_error = None\<rparr>) Script (ex_oracle_server\<lparr>faults := [Some (PlainError ''connection reset by peer'')]\<rparr>)) = Some (PlainError ''connection reset by peer'')"
    "fst (Conn_ExecContext (conn ex_ms) (content \<lparr>content = ''CREATE TABLE t (id INT)'', read_error = None\<rparr>) Script (ex_sql_server\<lparr>faults := [Some (PlainError ''connection reset by peer'')]\<rparr>)) = Some (PlainError ''connection reset by peer'')"
    by (simp_all add: Conn_ExecContext_def respond_def release_def Let_def
        ex_ora_def ex_ms_def ex_oracle_server_def ex_sql_server_def)
  have en: "fst (Conn_ExecContext (conn ex_ora) (content \<lparr>content = ''CREATE TABLE t (id INT)'', read_error = None\<rparr>) Script ex_oracle_server) = None"
    "fst (Conn_ExecContext (conn ex_ms) (content \<lparr>content = ''CREATE TABLE t (id INT)'', read_error = None\<rparr>) Script ex_sql_server) = None"
    by (simp_all add: Conn_ExecContext_def respond_def release_def Let_def
        ex_ora_def ex_ms_def ex_oracle_server_def ex_sql_server_def)
  have r: "read_error \<lparr>content = ''CREATE TABLE t (id INT)'', read_error = None\<rparr> = None"
    "read_error \<lparr>content = ''CREATE TA'', read_error = Some (PlainError ''unexpected EOF'')\<rparr> = Some (PlainError ''unexpected EOF'')"
    by simp_all
  note t1 = Run_error_carries_payload_unless_read_fails
    [where ora = ex_ora and ms = ex_ms and b = "(ex_oracle_server\<lparr>faults := [Some (OraError 942 ''table or view does not exist'')]\<rparr>)" and c = "(ex_sql_server\<lparr>faults := [Some (MssqlError 208 ''Invalid object name'')]\<rparr>)"
       and migration = "\<lparr>content = ''CREATE TABLE t (id INT)'', read_error = None\<rparr>" and mmigration = "\<lparr>content = ''CREATE TABLE t (id INT)'', read_error = None\<rparr>"
       and x = "OraError 942 ''table or view does not exist''" and y = "MssqlError 208 ''Invalid object name''"]
  note t2 = Run_error_carries_payload_unless_read_fails
    [where ora = ex_ora and ms = ex_ms and b = "(ex_oracle_server\<lparr>faults := [Some (PlainError ''connection reset by peer'')]\<rparr>)" and c = "(ex_sql_server\<lparr>faults := [Some (PlainError ''connection reset by peer'')]\<rparr>)"
       and migration = "\<lparr>content = ''CREATE TABLE t (id INT)'', read_error = None\<rparr>" and mmigration = "\<lparr>content = ''CREATE TABLE t (id INT)'', read_error = None\<rparr>"
       and x = "PlainError ''connection reset by peer''" and y = "PlainError ''connection reset by peer''"]
  note t3 = Run_error_carries_payload_unless_read_fails
    [where ora = ex_ora and ms = ex_ms and b = "ex_oracle_server" and c = "ex_sql_server"
       and migration = "\<lparr>content = ''CREATE TABLE t (id INT)'', read_error = None\<rparr>" and mmigration = "\<lparr>content = ''CREATE TABLE t (id INT)'', read_error = None\<rparr>"]
  note t4 = Run_error_carries_payload_unless_read_fails
    [where ora = ex_ora and ms = ex_ms and b = "ex_oracle_server" and c = "ex_sql_server"
       and migration = "\<lparr>content = ''CREATE TA'', read_error = Some (PlainError ''unexpected EOF'')\<rparr>" and mmigration = "\<lparr>content = ''CREATE TA'', read_error = Some (PlainError ''unexpected EOF'')\<rparr>"
       and err = "PlainError ''unexpected EOF''" and merr = "PlainError ''unexpected EOF''"]
  have v: "fst (Oracle_Run ex_ora \<lparr>content = ''CREATE TABLE t (id INT)'', read_error = None\<rparr> (ex_oracle_server\<lparr>faults := [Some (OraError 942 ''table or view does not exist'')]\<rparr>)) =
     Some (DatabaseError (Some (OraError 942 ''table or view does not exist'')) ''table or view does not exist'' ''CREATE TABLE t (id INT)'')"
    "fst (Mssql_Run ex_ms \<lparr>content = ''CREATE TABLE t (id INT)'', read_error = None\<rparr> (ex_sql_server\<lparr>faults := [Some (MssqlError 208 ''Invalid object name'')]\<rparr>)) =
     Some (DatabaseError (Some (MssqlError 208 ''Invalid object name'')) ''Invalid object name'' ''CREATE TABLE t (id INT)'')"
    using t1 ev r by simp_all
  have p: "fst (Oracle_Run ex_ora \<lparr>content = ''CREATE TABLE t (id INT)'', read_error = None\<rparr> (ex_oracle_server\<lparr>faults := [Some (PlainError ''connection reset by peer'')]\<rparr>)) =
     Some (DatabaseError (Some (PlainError ''connection reset by peer'')) ''migration failed'' ''CREATE TABLE t (id INT)'')"
    "fst (Mssql_Run ex_ms \<lparr>content = ''CREATE TABLE t (id INT)'', read_error = None\<rparr> (ex_sql_server\<lparr>faults := [Some (PlainError ''connection reset by peer'')]\<rparr>)) =
     Some (DatabaseError (Some (PlainError ''connection reset by peer'')) ''migration failed'' ''CREATE TABLE t (id INT)'')"
    using t2 ep r by simp_all
  have n: "fst (Oracle_Run ex_ora \<lparr>content = ''CREATE TABLE t (id INT)'', read_error = None\<rparr> ex_oracle_server) = None"
    "fst (Mssql_Run ex_ms \<lparr>content = ''CREATE TABLE t (id INT)'', read_error = None\<rparr> ex_sql_server) = None"
    using t3 en r by simp_all
  have e: "Oracle_Run ex_ora \<lparr>content = ''CREATE TA'', read_error = Some (PlainError ''unexpected EOF'')\<rparr> ex_oracle_server = (Some (PlainError ''unexpected EOF''), ex_ora, ex_oracle_server)"
    "Mssql_Run ex_ms \<lparr>content = ''CREATE TA'', read_error = Some (PlainError ''unexpected EOF'')\<rparr> ex_sql_server = (Some (PlainError ''unexpected EOF''), ex_ms, ex_sql_server)"
    using t4 r by simp_all
  from ev ep en r v p n e show ?thesis by simp
qed

text \<open>
  C9 as stated fails where it says the connection is still open after a \<^verbatim>\<open>Drop\<close> that
  fails: when the query for the table names ends with \<^verbatim>\<open>driver.ErrBadConn\<close>, the
  client library closes the connection before \<^verbatim>\<open>Drop\<close> returns the error.
\<close>

theorem Drop_bad_connection_counterexample:
  "\<not> conn_closed (conn ex_ora) \<and>
   fst (Oracle_Drop ex_ora (ex_oracle_server\<lparr>faults := [Some ErrBadConn]\<rparr>)) =
     Some (DatabaseError (Some ErrBadConn) [] ''SELECT TABLE_NAME FROM USER_TABLES'') \<and>
   conn_closed (conn (fst (snd (Oracle_Drop ex_ora (ex_oracle_server\<lparr>faults := [Some ErrBadConn]\<rparr>))))) \<and>
   \<not> conn_closed (conn ex_ms) \<and>
   fst (Mssql_Drop ex_ms (ex_sql_server\<lparr>faults := [Some ErrBadConn]\<rparr>)) =
     Some (DatabaseError (Some ErrBadConn) []
       (''SELECT TABLE_NAME FROM INFORMATION_SCHEMA.TABLES WHERE TABLE_TYPE = '' @ [squote] @
        ''BASE TABLE'' @ [squote] @ '' AND TABLE_CATALOG='' @ [squote] @ ''master'' @ [squote])) \<and>
   conn_closed (conn (fst (snd (Mssql_Drop ex_ms (ex_sql_server\<lparr>faults := [Some ErrBadConn]\<rparr>)))))"
  by (simp add: Oracle_Drop_def Mssql_Drop_def Conn_QueryContext_def respond_def release_def
      Let_def ex_ora_def ex_ms_def ex_oracle_server_def ex_sql_server_def)

text \<open>
  C9, amended. After \<^verbatim>\<open>Drop()\<close>, whether it returns an error or not and under any
  schedule of faults, the \<^verbatim>\<open>isLocked\<close> flag has the value it had before and the pool
  handle is the one the driver had, in the state it was in; \<^verbatim>\<open>Drop\<close> itself never
  closes the connection, and the connection is the one the driver had, open if it was
  open, whenever none of the round trips of \<^verbatim>\<open>Drop\<close> ends with
  \<^verbatim>\<open>driver.ErrBadConn\<close>. When \<^verbatim>\<open>Drop\<close> returns a \<^verbatim>\<open>database.Error\<close> that wraps
  \<^verbatim>\<open>driver.ErrBadConn\<close>, the client library has closed the connection; in no case
  does anything else happen to it. Both drivers.
\<close>

theorem Drop_keeps_lock_and_handles_unless_bad_connection:
  "isLocked (fst (snd (Oracle_Drop ora b))) = isLocked ora \<and>
   db (fst (snd (Oracle_Drop ora b))) = db ora \<and>
   (conn (fst (snd (Oracle_Drop ora b))) = conn ora \<or> conn_closed (conn (fst (snd (Oracle_Drop ora b))))) \<and>
   (Some ErrBadConn \<notin> set (faults b) \<and> report b NoSuchTable \<noteq> ErrBadConn \<longrightarrow>
      conn (fst (snd (Oracle_Drop ora b))) = conn ora) \<and>
   (fst (Oracle_Drop ora b) = Some (DatabaseError (Some ErrBadConn) [] q) \<longrightarrow>
      conn_closed (conn (fst (snd (Oracle_Drop ora b))))) \<and>
   isLocked (fst (snd (Mssql_Drop ms c))) = isLocked ms \<and>
   db (fst (snd (Mssql_Drop ms c))) = db ms \<and>
   (conn (fst (snd (Mssql_Drop ms c))) = conn ms \<or> conn_closed (conn (fst (snd (Mssql_Drop ms c))))) \<and>
   (Some ErrBadConn \<notin> set (faults c) \<longrightarrow>
      conn (fst (snd (Mssql_Drop ms c))) = conn ms) \<and>
   (fst (Mssql_Drop ms c) = Some (DatabaseError (Some ErrBadConn) [] p) \<longrightarrow>
      conn_closed (conn (fst (snd (Mssql_Drop ms c)))))"
proof -
  obtain e ora1 b1 where o: "Oracle_Drop ora b = (e, ora1, b1)"
    by (metis prod.collapse)
  obtain f ms1 c1 where m: "Mssql_Drop ms c = (f, ms1, c1)"
    by (metis prod.collapse)
  have oc: "Some ErrBadConn \<notin> set (faults b) \<and> report b NoSuchTable \<noteq> ErrBadConn \<longrightarrow>
      conn ora1 = conn ora"
    using Oracle_Drop_clean [OF o] by blast
  have mc: "Some ErrBadConn \<notin> set (faults c) \<longrightarrow> conn ms1 = conn ms"
    using Mssql_Drop_clean [OF m] by blast
  have ob: "e = Some (DatabaseError (Some ErrBadConn) [] q) \<longrightarrow> conn_closed (conn ora1)"
    using Oracle_Drop_bad o by blast
  have mb: "f = Some (DatabaseError (Some ErrBadConn) [] p) \<longrightarrow> conn_closed (conn ms1)"
    using Mssql_Drop_bad m by blast
  from Oracle_Drop_frame [OF o] Mssql_Drop_frame [OF m] oc mc ob mb o m show ?thesis
    by simp
qed

theorem Drop_keeps_lock_and_handles_unless_bad_connection_witness:
  "Some ErrBadConn \<notin> set (faults ex_oracle_server) \<and>
   report ex_oracle_server NoSuchTable \<noteq> ErrBadConn \<and>
   Some ErrBadConn \<notin> set (faults (ex_oracle_server\<lparr>faults := [None, None, None, None, None, None, Some (OraError 54 ''resource busy'')]\<rparr>)) \<and>
   report (ex_oracle_server\<lparr>faults := [None, None, None, None, None, None, Some (OraError 54 ''resource busy'')]\<rparr>) NoSuchTable \<noteq> ErrBadConn \<and>
   fst (Oracle_Drop (ex_ora\<lparr>isLocked := True\<rparr>) ex_oracle_server) = None \<and>
   tables (snd (snd (Oracle_Drop (ex_ora\<lparr>isLocked := True\<rparr>) ex_oracle_server))) = [] \<and>
   fst (Oracle_Drop (ex_ora\<lparr>isLocked := True\<rparr>) (ex_oracle_server\<lparr>faults := [None, None, None, None, None, None, Some (OraError 54 ''resource busy'')]\<rparr>)) \<noteq> None \<and>
   tables (snd (snd (Oracle_Drop (ex_ora\<lparr>isLocked := True\<rparr>) (ex_oracle_server\<lparr>faults := [None, None, None, None, None, None, Some (OraError 54 ''resource busy'')]\<rparr>)))) = [(''users'', [])] \<and>
   isLocked (fst (snd (Oracle_Drop (ex_ora\<lparr>isLocked := True\<rparr>) ex_oracle_server))) \<and>
   \<not> conn_closed (conn (fst (snd (Oracle_Drop (ex_ora\<lparr>isLocked := True\<rparr>) ex_oracle_server)))) \<and>
   conn (fst (snd (Oracle_Drop (ex_ora\<lparr>isLocked := True\<rparr>) ex_oracle_server))) = conn (ex_ora\<lparr>isLocked := True\<rparr>) \<and>
   \<not> db_closed (db (fst (snd (Oracle_Drop (ex_ora\<lparr>isLocked := True\<rparr>) ex_oracle_server)))) \<and>
   isLocked (fst (snd (Oracle_Drop (ex_ora\<lparr>isLocked := True\<rparr>) (ex_oracle_server\<lparr>faults := [None, None, None, None, None, None, Some (OraError 54 ''resource busy'')]\<rparr>)))) \<and>
   \<not> conn_closed (conn (fst (snd (Oracle_Drop (ex_ora\<lparr>isLocked := True\<rparr>) (ex_oracle_server\<lparr>faults := [None, None, None, None, None, None, Some (OraError 54 ''resource busy'')]\<rparr>))))) \<and>
   conn (fst (snd (Oracle_Drop (ex_ora\<lparr>isLocked := True\<rparr>) (ex_oracle_server\<lparr>faults := [None, None, None, None, None, None, Some (OraError 54 ''resource busy'')]\<rparr>)))) = conn (ex_ora\<lparr>isLocked := True\<rparr>) \<and>
   \<not> db_closed (db (fst (snd (Oracle_Drop (ex_ora\<lparr>isLocked := True\<rparr>) (ex_oracle_server\<lparr>faults := [None, None, None, None, None, None, Some (OraError 54 ''resource busy'')]\<rparr>))))) \<and>
   fst (Oracle_Drop (ex_ora\<lparr>isLocked := True\<rparr>) (ex_oracle_server\<lparr>faults := [None, None, None, None, None, Some ErrBadConn]\<rparr>)) =
     Some (DatabaseError (Some ErrBadConn) []
       (''BEGIN proc_dropifexists('' @ [squote] @ ''schema_migrations'' @ [squote] @ ''); END;'')) \<and>
   conn_closed (conn (fst (snd (Oracle_Drop (ex_ora\<lparr>isLocked := True\<rparr>) (ex_oracle_server\<lparr>faults := [None, None, None, None, None, Some ErrBadConn]\<rparr>))))) \<and>
   isLocked (fst (snd (Oracle_Drop (ex_ora\<lparr>isLocked := True\<rparr>) (ex_oracle_server\<lparr>faults := [None, None, None, None, None, Some ErrBadConn]\<rparr>)))) \<and>
   \<not> db_closed (db (fst (snd (Oracle_Drop (ex_ora\<lparr>isLocked := True\<rparr>) (ex_oracle_server\<lparr>faults := [None, None, None, None, None, Some ErrBadConn]\<rparr>))))) \<and>
   Some ErrBadConn \<notin> set (faults ex_sql_server) \<and>
   Some ErrBadConn \<notin> set (faults (ex_sql_server\<lparr>faults := [None, None, None, None, None, Some (MssqlError 3701 ''Cannot drop the table'')]\<rparr>)) \<and>
   fst (Mssql_Drop (ex_ms\<lparr>isLocked := True\<rparr>) ex_sql_server) = None \<and>
   tables (snd (snd (Mssql_Drop (ex_ms\<lparr>isLocked := True\<rparr>) ex_sql_server))) = [] \<and>
   fst (Mssql_Drop (ex_ms\<lparr>isLocked := True\<rparr>) (ex_sql_server\<lparr>faults := [None, None, None, None, None, Some (MssqlError 3701 ''Cannot drop the table'')]\<rparr>)) \<noteq> None \<and>
   tables (snd (snd (Mssql_Drop (ex_ms\<lparr>isLocked := True\<rparr>) (ex_sql_server\<lparr>faults := [None, None, None, None, None, Some (MssqlError 3701 ''Cannot drop the table'')]\<rparr>)))) = [(''users'', [])] \<and>
   isLocked (fst (snd (Mssql_Drop (ex_ms\<lparr>isLocked := True\<rparr>) ex_sql_server))) \<and>
   \<not> conn_closed (conn (fst (snd (Mssql_Drop (ex_ms\<lparr>isLocked := True\<rparr>) ex_sql_server)))) \<and>
   conn (fst (snd (Mssql_Drop (ex_ms\<lparr>isLocked := True\<rparr>) ex_sql_server))) = conn (ex_ms\<lparr>isLocked := True\<rparr>) \<and>
   \<not> db_closed (db (fst (snd (Mssql_Drop (ex_ms\<lparr>isLocked := True\<rparr>) ex_sql_server)))) \<and>
   isLocked (fst (snd (Mssql_Drop (ex_ms\<lparr>isLocked := True\<rparr>) (ex_sql_server\<lparr>faults := [None, None, None, None, None, Some (MssqlError 3701 ''Cannot drop the table'')]\<rparr>)))) \<and>
   \<not> conn_closed (conn (fst (snd (Mssql_Drop (ex_ms\<lparr>isLocked := True\<rparr>) (ex_sql_server\<lparr>faults := [None, None, None, None, None, Some (MssqlError 3701 ''Cannot drop the table'')]\<rparr>))))) \<and>
   conn (fst (snd (Mssql_Drop (ex_ms\<lparr>isLocked := True\<rparr>) (ex_sql_server\<lparr>faults := [None, None, None, None, None, Some (MssqlError 3701 ''Cannot drop the table'')]\<rparr>)))) = conn (ex_ms\<lparr>isLocked := True\<rparr>) \<and>
   \<not> db_closed (db (fst (snd (Mssql_Drop (ex_ms\<lparr>isLocked := True\<rparr>) (ex_sql_server\<lparr>faults := [None, None, None, None, None, Some (MssqlError 3701 ''Cannot drop the table'')]\<rparr>))))) \<and>
   fst (Mssql_Drop (ex_ms\<lparr>isLocked := True\<rparr>) (ex_sql_server\<lparr>faults := [None, None, None, None, Some ErrBadConn]\<rparr>)) =
     Some (DatabaseError (Some ErrBadConn) [] ''DROP TABLE IF EXISTS schema_migrations'') \<and>
   conn_closed (conn (fst (snd (Mssql_Drop (ex_ms\<lparr>isLocked := True\<rparr>) (ex_sql_server\<lparr>faults := [None, None, None, None, Some ErrBadConn]\<rparr>))))) \<and>
   isLocked (fst (snd (Mssql_Drop (ex_ms\<lparr>isLocked := True\<rparr>) (ex_sql_server\<lparr>faults := [None, None, None, None, Some ErrBadConn]\<rparr>)))) \<and>
   \<not> db_closed (db (fst (snd (Mssql_Drop (ex_ms\<lparr>isLocked := True\<rparr>) (ex_sql_server\<lparr>faults := [None, None, None, None, Some ErrBadConn]\<rparr>)))))"
proof -
  have ho: "Some ErrBadConn \<notin> set (faults ex_oracle_server)"
    "report ex_oracle_server NoSuchTable \<noteq> ErrBadConn"
    "Some ErrBadConn \<notin> set (faults (ex_oracle_server\<lparr>faults := [None, None, None, None, None, None, Some (OraError 54 ''resource busy'')]\<rparr>))"
    "report (ex_oracle_server\<lparr>faults := [None, None, None, None, None, None, Some (OraError 54 ''resource busy'')]\<rparr>) NoSuchTable \<noteq> ErrBadConn"
    by (simp_all add: ex_oracle_server_def)
  have hm: "Some ErrBadConn \<notin> set (faults ex_sql_server)"
    "Some ErrBadConn \<notin> set (faults (ex_sql_server\<lparr>faults := [None, None, None, None, None, Some (MssqlError 3701 ''Cannot drop the table'')]\<rparr>))"
    by (simp_all add: ex_sql_server_def)
  have eo: "fst (Oracle_Drop (ex_ora\<lparr>isLocked := True\<rparr>) ex_oracle_server) = None"
    "tables (snd (snd (Oracle_Drop (ex_ora\<lparr>isLocked := True\<rparr>) ex_oracle_server))) = []"
    "fst (Oracle_Drop (ex_ora\<lparr>isLocked := True\<rparr>) (ex_oracle_server\<lparr>faults := [None, None, None, None, None, None, Some (OraError 54 ''resource busy'')]\<rparr>)) \<noteq> None"
    "tables (snd (snd (Oracle_Drop (ex_ora\<lparr>isLocked := True\<rparr>) (ex_oracle_server\<lparr>faults := [None, None, None, None, None, None, Some (OraError 54 ''resource busy'')]\<rparr>)))) = [(''users'', [])]"
    by (simp_all add: Oracle_Drop_def Conn_QueryContext_def Rows_Next_def Rows_Scan_def Rows_Close_def
        Conn_ExecContext_def respond_def release_def Let_def ex_ora_def ex_oracle_server_def)
  have em: "fst (Mssql_Drop (ex_ms\<lparr>isLocked := True\<rparr>) ex_sql_server) = None"
    "tables (snd (snd (Mssql_Drop (ex_ms\<lparr>isLocked := True\<rparr>) ex_sql_server))) = []"
    "fst (Mssql_Drop (ex_ms\<lparr>isLocked := True\<rparr>) (ex_sql_server\<lparr>faults := [None, None, None, None, None, Some (MssqlError 3701 ''Cannot drop the table'')]\<rparr>)) \<noteq> None"
    "tables (snd (snd (Mssql_Drop (ex_ms\<lparr>isLocked := True\<rparr>) (ex_sql_server\<lparr>faults := [None, None, None, None, None, Some (MssqlError 3701 ''Cannot drop the table'')]\<rparr>)))) = [(''users'', [])]"
    by (simp_all add: Mssql_Drop_def Conn_QueryContext_def Rows_Next_def Rows_Scan_def Rows_Close_def
        Conn_ExecContext_def respond_def release_def Let_def ex_ms_def ex_sql_server_def)
  have bo: "fst (Oracle_Drop (ex_ora\<lparr>isLocked := True\<rparr>) (ex_oracle_server\<lparr>faults := [None, None, None, None, None, Some ErrBadConn]\<rparr>)) =
     Some (DatabaseError (Some ErrBadConn) []
       (''BEGIN proc_dropifexists('' @ [squote] @ ''schema_migrations'' @ [squote] @ ''); END;''))"
    by (simp add: Oracle_Drop_def Conn_QueryContext_def Rows_Next_def Rows_Scan_def Rows_Close_def
        Conn_ExecContext_def respond_def release_def Let_def ex_ora_def ex_oracle_server_def)
  have bm: "fst (Mssql_Drop (ex_ms\<lparr>isLocked := True\<rparr>) (ex_sql_server\<lparr>faults := [None, None, None, None, Some ErrBadConn]\<rparr>)) =
     Some (DatabaseError (Some ErrBadConn) [] ''DROP TABLE IF EXISTS schema_migrations'')"
    by (simp add: Mssql_Drop_def Conn_QueryContext_def Rows_Next_def Rows_Scan_def Rows_Close_def
        Conn_ExecContext_def respond_def release_def Let_def ex_ms_def ex_sql_server_def)
  have lo: "isLocked (ex_ora\<lparr>isLocked := True\<rparr>)"
    "\<not> conn_closed (conn (ex_ora\<lparr>isLocked := True\<rparr>))"
    "\<not> db_closed (db (ex_ora\<lparr>isLocked := True\<rparr>))"
    by (simp_all add: ex_ora_def)
  have lm: "isLocked (ex_ms\<lparr>isLocked := True\<rparr>)"
    "\<not> conn_closed (conn (ex_ms\<lparr>isLocked := True\<rparr>))"
    "\<not> db_closed (db (ex_ms\<lparr>isLocked := True\<rparr>))"
    by (simp_all add: ex_ms_def)
  note t1 = Drop_keeps_lock_and_handles_unless_bad_connection
    [where ora = "(ex_ora\<lparr>isLocked := True\<rparr>)" and ms = "(ex_ms\<lparr>isLocked := True\<rparr>)"
       and b = ex_oracle_server and c = ex_sql_server]
  note t2 = Drop_keeps_lock_and_handles_unless_bad_connection
    [where ora = "(ex_ora\<lparr>isLocked := True\<rparr>)" and ms = "(ex_ms\<lparr>isLocked := True\<rparr>)"
       and b = "(ex_oracle_server\<lparr>faults := [None, None, None, None, None, None, Some (OraError 54 ''resource busy'')]\<rparr>)" and c = "(ex_sql_server\<lparr>faults := [None, None, None, None, None, Some (MssqlError 3701 ''Cannot drop the table'')]\<rparr>)"]
  note t3 = Drop_keeps_lock_and_handles_unless_bad_connection
    [where ora = "(ex_ora\<lparr>isLocked := True\<rparr>)" and ms = "(ex_ms\<lparr>isLocked := True\<rparr>)"
       and b = "(ex_oracle_server\<lparr>faults := [None, None, None, None, None, Some ErrBadConn]\<rparr>)" and c = "(ex_sql_server\<lparr>faults := [None, None, None, None, Some ErrBadConn]\<rparr>)"
       and q = "(''BEGIN proc_dropifexists('' @ [squote] @ ''schema_migrations'' @ [squote] @ ''); END;'')" and p = "''DROP TABLE IF EXISTS schema_migrations''"]
  from t1 t2 t3 ho hm eo em bo bm lo lm show ?thesis by simp
qed

text \<open>
  C10 (\<^verbatim>\<open>Lock\<close> and \<^verbatim>\<open>Unlock\<close> never reach the server). \<^verbatim>\<open>Lock()\<close> and \<^verbatim>\<open>Unlock()\<close>
  leave the server as it is: no statement is issued and no round trip is made; of the
  driver they change at most the \<^verbatim>\<open>isLocked\<close> flag. So of two unlocked instances
  on the same server, for which the identifier computation succeeds, the first can take
  its lock, and the second then takes its own lock as well while the first still holds
  its one. Both drivers.
\<close>

theorem Lock_Unlock_issue_no_backend_command:
  "snd (snd (Oracle_Lock pkg ora b)) = b \<and>
   snd (snd (Oracle_Unlock pkg ora b)) = b \<and>
   (\<exists>l. fst (snd (Oracle_Lock pkg ora b)) = ora\<lparr>isLocked := l\<rparr>) \<and>
   (\<exists>l. fst (snd (Oracle_Unlock pkg ora b)) = ora\<lparr>isLocked := l\<rparr>) \<and>
   (\<not> isLocked ora \<and> \<not> isLocked ora' \<and>
    GenerateAdvisoryLockId pkg (SchemaName (config ora)) [] = Inr aid \<and>
    GenerateAdvisoryLockId pkg (SchemaName (config ora')) [] = Inr aid' \<longrightarrow>
      (case Oracle_Lock pkg ora b of
         (e1, x1, b1) \<Rightarrow>
           (case Oracle_Lock pkg ora' b1 of
              (e2, x2, b2) \<Rightarrow>
                e1 = None \<and> isLocked x1 \<and> e2 = None \<and> isLocked x2 \<and> b2 = b))) \<and>
   snd (snd (Mssql_Lock pkg ms c)) = c \<and>
   snd (snd (Mssql_Unlock pkg ms c)) = c \<and>
   (\<exists>l. fst (snd (Mssql_Lock pkg ms c)) = ms\<lparr>isLocked := l\<rparr>) \<and>
   (\<exists>l. fst (snd (Mssql_Unlock pkg ms c)) = ms\<lparr>isLocked := l\<rparr>) \<and>
   (\<not> isLocked ms \<and> \<not> isLocked ms' \<and>
    GenerateAdvisoryLockId pkg (DatabaseName (config ms)) [SchemaName (config ms)] = Inr mid \<and>
    GenerateAdvisoryLockId pkg (DatabaseName (config ms')) [SchemaName (config ms')] = Inr mid' \<longrightarrow>
      (case Mssql_Lock pkg ms c of
         (e1, x1, b1) \<Rightarrow>
           (case Mssql_Lock pkg ms' b1 of
              (e2, x2, b2) \<Rightarrow>
                e1 = None \<and> isLocked x1 \<and> e2 = None \<and> isLocked x2 \<and> b2 = c)))"
proof -
  have o: "\<not> isLocked ora \<and> \<not> isLocked ora' \<and>
      GenerateAdvisoryLockId pkg (SchemaName (config ora)) [] = Inr aid \<and>
      GenerateAdvisoryLockId pkg (SchemaName (config ora')) [] = Inr aid' \<Longrightarrow>
      (case Oracle_Lock pkg ora b of
         (e1, x1, b1) \<Rightarrow>
           (case Oracle_Lock pkg ora' b1 of
              (e2, x2, b2) \<Rightarrow>
                e1 = None \<and> isLocked x1 \<and> e2 = None \<and> isLocked x2 \<and> b2 = b))"
    by (simp add: Oracle_Lock_def)
  have m: "\<not> isLocked ms \<and> \<not> isLocked ms' \<and>
      GenerateAdvisoryLockId pkg (DatabaseName (config ms)) [SchemaName (config ms)] = Inr mid \<and>
      GenerateAdvisoryLockId pkg (DatabaseName (config ms')) [SchemaName (config ms')] = Inr mid' \<Longrightarrow>
      (case Mssql_Lock pkg ms c of
         (e1, x1, b1) \<Rightarrow>
           (case Mssql_Lock pkg ms' b1 of
              (e2, x2, b2) \<Rightarrow>
                e1 = None \<and> isLocked x1 \<and> e2 = None \<and> isLocked x2 \<and> b2 = c))"
    by (simp add: Mssql_Lock_def)
  have f: "snd (snd (Oracle_Lock pkg ora b)) = b" "snd (snd (Oracle_Unlock pkg ora b)) = b"
    "snd (snd (Mssql_Lock pkg ms c)) = c" "snd (snd (Mssql_Unlock pkg ms c)) = c"
    by (simp_all add: Oracle_Lock_def Oracle_Unlock_def Mssql_Lock_def Mssql_Unlock_def
        split: sum.splits)
  show ?thesis
    by (intro conjI impI;
        (rule f Oracle_Lock_only_flag Mssql_Lock_only_flag
         | (rule o, assumption) | (rule m, assumption)))
qed

theorem Lock_Unlock_issue_no_backend_command_witness:
  "\<not> isLocked ex_ora \<and>
   \<not> isLocked (ex_ora\<lparr>config := (config ex_ora)\<lparr>MigrationsTable := ''other_migrations''\<rparr>\<rparr>) \<and>
   GenerateAdvisoryLockId ex_pkg (SchemaName (config ex_ora)) [] = Inr ''ORCL'' \<and>
   (case Oracle_Lock ex_pkg ex_ora ex_oracle_server of
      (e1, x1, b1) \<Rightarrow>
        (case Oracle_Lock ex_pkg (ex_ora\<lparr>config := (config ex_ora)\<lparr>MigrationsTable := ''other_migrations''\<rparr>\<rparr>) b1 of
           (e2, x2, b2) \<Rightarrow>
             e1 = None \<and> isLocked x1 \<and> e2 = None \<and> isLocked x2 \<and> b2 = ex_oracle_server)) \<and>
   snd (snd (Oracle_Lock ex_pkg ex_ora ex_oracle_server)) = ex_oracle_server \<and>
   \<not> isLocked ex_ms \<and>
   \<not> isLocked (ex_ms\<lparr>config := (config ex_ms)\<lparr>MigrationsTable := ''other_migrations''\<rparr>\<rparr>) \<and>
   GenerateAdvisoryLockId ex_pkg (DatabaseName (config ex_ms)) [SchemaName (config ex_ms)] = Inr ''dbomaster'' \<and>
   (case Mssql_Lock ex_pkg ex_ms ex_sql_server of
      (e1, x1, b1) \<Rightarrow>
        (case Mssql_Lock ex_pkg (ex_ms\<lparr>config := (config ex_ms)\<lparr>MigrationsTable := ''other_migrations''\<rparr>\<rparr>) b1 of
           (e2, x2, b2) \<Rightarrow>
             e1 = None \<and> isLocked x1 \<and> e2 = None \<and> isLocked x2 \<and> b2 = ex_sql_server)) \<and>
   snd (snd (Mssql_Lock ex_pkg ex_ms ex_sql_server)) = ex_sql_server"
proof -
  have lo: "\<not> isLocked ex_ora" "\<not> isLocked (ex_ora\<lparr>config := (config ex_ora)\<lparr>MigrationsTable := ''other_migrations''\<rparr>\<rparr>)"
    "GenerateAdvisoryLockId ex_pkg (SchemaName (config ex_ora)) [] = Inr ''ORCL''"
    "GenerateAdvisoryLockId ex_pkg (SchemaName (config (ex_ora\<lparr>config := (config ex_ora)\<lparr>MigrationsTable := ''other_migrations''\<rparr>\<rparr>))) [] = Inr ''ORCL''"
    by (simp_all add: ex_ora_def ex_pkg_def)
  have lm: "\<not> isLocked ex_ms" "\<not> isLocked (ex_ms\<lparr>config := (config ex_ms)\<lparr>MigrationsTable := ''other_migrations''\<rparr>\<rparr>)"
    "GenerateAdvisoryLockId ex_pkg (DatabaseName (config ex_ms)) [SchemaName (config ex_ms)]
       = Inr ''dbomaster''"
    "GenerateAdvisoryLockId ex_pkg (DatabaseName (config (ex_ms\<lparr>config := (config ex_ms)\<lparr>MigrationsTable := ''other_migrations''\<rparr>\<rparr>)))
       [SchemaName (config (ex_ms\<lparr>config := (config ex_ms)\<lparr>MigrationsTable := ''other_migrations''\<rparr>\<rparr>))] = Inr ''dbomaster''"
    by (simp_all add: ex_ms_def ex_pkg_def)
  note t = Lock_Unlock_issue_no_backend_command
    [where pkg = ex_pkg and ora = ex_ora and ora' = "(ex_ora\<lparr>config := (config ex_ora)\<lparr>MigrationsTable := ''other_migrations''\<rparr>\<rparr>)"
       and ms = ex_ms and ms' = "(ex_ms\<lparr>config := (config ex_ms)\<lparr>MigrationsTable := ''other_migrations''\<rparr>\<rparr>)"
       and b = ex_oracle_server and c = ex_sql_server
       and aid = "''ORCL''" and aid' = "''ORCL''"
       and mid = "''dbomaster''" and mid' = "''dbomaster''"]
  from t lo lm show ?thesis by simp
qed

end
